theory Spec2Isabelle
  imports Complex_Main
begin

section \<open>The entity store of the hospital referral system\<close>

text \<open>
  The tables of \<^verbatim>\<open>Hos_Link.py\<close> are lists of rows, in insertion order. A query
  \<^verbatim>\<open>session.query(T).filter(c).first()\<close> is the first row that satisfies the
  condition, and an assignment to a field of the object it returns, followed by
  \<^verbatim>\<open>session.commit()\<close>, rewrites that row in place.

  A nullable column is an \<open>option\<close>, Python's \<^verbatim>\<open>None\<close> being \<open>None\<close>. The
  \<^verbatim>\<open>DateTime\<close> columns and the autoincremented row numbers are left out: no
  operation below reads them. A \<^verbatim>\<open>Float\<close> column holds a double: a finite one,
  written as the rational number it denotes, an infinity or a NaN. Database failures (a lost connection, a failed
  commit) are outside the model, except for the primary-key conflict of an insertion.
\<close>

datatype double = Finite rat | PosInf | NegInf | NaN

datatype json_value = JStr string | JInt int | JNum double

type_synonym json = "(string \<times> json_value) list"

record patient =
  p_patient_id :: string
  p_name :: string
  p_age :: int
  p_condition :: string
  p_referring_hospital :: string
  p_receiving_hospital :: string
  p_referring_physician :: string
  p_receiving_physician :: "string option"
  p_notes :: "string option"
  p_vital_signs :: "json option"
  p_medical_history :: "string option"
  p_current_medications :: "string option"
  p_allergies :: "string option"
  p_status :: string
  p_assigned_ambulance :: "string option"
  p_created_by :: "string option"
  p_referring_hospital_lat :: "double option"
  p_referring_hospital_lng :: "double option"
  p_receiving_hospital_lat :: "double option"
  p_receiving_hospital_lng :: "double option"

record ambulance =
  a_ambulance_id :: string
  a_current_location :: "string option"
  a_latitude :: "double option"
  a_longitude :: "double option"
  a_status :: string
  a_driver_name :: "string option"
  a_driver_contact :: "string option"
  a_current_patient :: "string option"
  a_destination :: "string option"
  a_route :: "json option"
  a_current_step :: int
  a_mission_complete :: bool

record referral =
  r_patient_id :: string
  r_status :: string
  r_ambulance_id :: "string option"
  r_created_by :: "string option"

record handover_form =
  h_patient_id :: string
  h_patient_name :: string
  h_age :: int
  h_condition :: string
  h_referring_hospital :: string
  h_receiving_hospital :: string
  h_referring_physician :: string
  h_receiving_physician :: string
  h_vital_signs :: json
  h_medical_history :: "string option"
  h_current_medications :: "string option"
  h_allergies :: "string option"
  h_notes :: string
  h_ambulance_id :: "string option"
  h_created_by :: string

record communication =
  c_patient_id :: "string option"
  c_ambulance_id :: "string option"
  c_sender :: string
  c_receiver :: string
  c_message :: string
  c_message_type :: string

record location_update =
  l_ambulance_id :: string
  l_latitude :: double
  l_longitude :: double
  l_location_name :: string
  l_patient_id :: "string option"

record store =
  patients :: "patient list"
  ambulances :: "ambulance list"
  referrals :: "referral list"
  handover_forms :: "handover_form list"
  communications :: "communication list"
  location_updates :: "location_update list"

subsection \<open>Rows and queries\<close>

text \<open>The row that \<^verbatim>\<open>.first()\<close> returns is rewritten; the others stay.\<close>

fun upd_first :: "('a \<Rightarrow> bool) \<Rightarrow> ('a \<Rightarrow> 'a) \<Rightarrow> 'a list \<Rightarrow> 'a list" where
  "upd_first P f [] = []"
| "upd_first P f (x # xs) = (if P x then f x # xs else x # upd_first P f xs)"

definition get_patient_by_id :: "string \<Rightarrow> store \<Rightarrow> patient option" where
  "get_patient_by_id pid s = find (\<lambda>p. p_patient_id p = pid) (patients s)"

definition get_ambulance :: "string \<Rightarrow> store \<Rightarrow> ambulance option" where
  "get_ambulance aid s = find (\<lambda>a. a_ambulance_id a = aid) (ambulances s)"

definition get_available_ambulances :: "store \<Rightarrow> ambulance list" where
  "get_available_ambulances s = filter (\<lambda>a. a_status a = ''Available'') (ambulances s)"

definition upd_patient :: "string \<Rightarrow> (patient \<Rightarrow> patient) \<Rightarrow> store \<Rightarrow> store" where
  "upd_patient pid f s = s\<lparr>patients := upd_first (\<lambda>p. p_patient_id p = pid) f (patients s)\<rparr>"

definition upd_ambulance :: "string \<Rightarrow> (ambulance \<Rightarrow> ambulance) \<Rightarrow> store \<Rightarrow> store" where
  "upd_ambulance aid f s =
     s\<lparr>ambulances := upd_first (\<lambda>a. a_ambulance_id a = aid) f (ambulances s)\<rparr>"

text \<open>Python's truth value of an optional string: \<^verbatim>\<open>None\<close> and \<^verbatim>\<open>''\<close> are false.\<close>

fun truthy :: "string option \<Rightarrow> bool" where
  "truthy None = False"
| "truthy (Some x) = (x \<noteq> [])"

subsection \<open>\<^verbatim>\<open>Database.update_ambulance_status\<close>\<close>

definition set_status :: "string \<Rightarrow> string option \<Rightarrow> ambulance \<Rightarrow> ambulance" where
  "set_status st patient_id a =
     (let a' = a\<lparr>a_status := st\<rparr>
      in if truthy patient_id then a'\<lparr>a_current_patient := patient_id\<rparr> else a')"

definition update_ambulance_status :: "string \<Rightarrow> string \<Rightarrow> string option \<Rightarrow> store \<Rightarrow> store" where
  "update_ambulance_status aid st patient_id s =
     (case get_ambulance aid s of
        None \<Rightarrow> s
      | Some _ \<Rightarrow> upd_ambulance aid (set_status st patient_id) s)"

subsection \<open>\<^verbatim>\<open>ReferralService.assign_ambulance\<close>\<close>

definition assign_patient :: "string \<Rightarrow> patient \<Rightarrow> patient" where
  "assign_patient aid p = p\<lparr>p_assigned_ambulance := Some aid, p_status := ''Ambulance Assigned''\<rparr>"

definition assign_ambulance :: "string \<Rightarrow> string \<Rightarrow> store \<Rightarrow> bool \<times> store" where
  "assign_ambulance pid aid s =
     (case get_patient_by_id pid s of
        None \<Rightarrow> (False, s)
      | Some _ \<Rightarrow>
          (True, update_ambulance_status aid ''On Transfer'' (Some pid)
                   (upd_patient pid (assign_patient aid) s)))"

subsection \<open>Insertions\<close>

text \<open>
  What the operations report: \<^verbatim>\<open>st.error\<close> on a rejected form is a
  \<open>ValidationError\<close> carrying the message shown; the others are the Python exceptions
  the code can raise. An operation that ends in an error has written nothing.
\<close>

datatype error = ValidationError string | IntegrityError | IndexError | KeyError

definition add_referral :: "referral \<Rightarrow> store \<Rightarrow> store" where
  "add_referral r s = s\<lparr>referrals := referrals s @ [r]\<rparr>"

definition add_handover_form :: "handover_form \<Rightarrow> store \<Rightarrow> store" where
  "add_handover_form h s = s\<lparr>handover_forms := handover_forms s @ [h]\<rparr>"

definition add_communication :: "communication \<Rightarrow> store \<Rightarrow> store" where
  "add_communication c s = s\<lparr>communications := communications s @ [c]\<rparr>"

definition add_location_update :: "location_update \<Rightarrow> store \<Rightarrow> store" where
  "add_location_update l s = s\<lparr>location_updates := location_updates s @ [l]\<rparr>"

text \<open>
  \<^verbatim>\<open>Database.add_patient\<close>: the identifier is \<^verbatim>\<open>PAT\<close> followed by
  \<^verbatim>\<open>secrets.token_hex(4).upper()\<close> unless the data brings one; the random token is
  an argument. The primary key rejects an identifier that is already in the table.
\<close>

definition add_patient :: "string \<Rightarrow> string option \<Rightarrow> patient \<Rightarrow> store \<Rightarrow> error + patient \<times> store" where
  "add_patient token supplied_id patient_data s =
     (let p = patient_data\<lparr>p_patient_id :=
                (case supplied_id of None \<Rightarrow> ''PAT'' @ token | Some i \<Rightarrow> i)\<rparr>
      in if list_ex (\<lambda>q. p_patient_id q = p_patient_id p) (patients s)
         then Inl IntegrityError
         else Inr (p, s\<lparr>patients := patients s @ [p]\<rparr>))"

text \<open>
  \<^verbatim>\<open>ReferralService.create_referral\<close> catches every exception and returns
  \<^verbatim>\<open>None\<close>; the referral row takes the default status of its table.
\<close>

definition create_referral :: "string \<Rightarrow> patient \<Rightarrow> string \<Rightarrow> store \<Rightarrow> patient option \<times> store" where
  "create_referral token patient_data role s =
     (case add_patient token None (patient_data\<lparr>p_created_by := Some role\<rparr>) s of
        Inl e \<Rightarrow> (None, s)
      | Inr (p, s') \<Rightarrow>
          (Some p,
           add_referral \<lparr>r_patient_id = p_patient_id p, r_status = ''Ambulance Dispatched'',
                         r_ambulance_id = p_assigned_ambulance patient_data,
                         r_created_by = Some role\<rparr> s'))"

subsection \<open>\<^verbatim>\<open>AmbulanceService.update_ambulance_location\<close>\<close>

definition update_ambulance_location ::
    "string \<Rightarrow> double \<Rightarrow> double \<Rightarrow> string \<Rightarrow> string option \<Rightarrow> store \<Rightarrow> bool \<times> store" where
  "update_ambulance_location aid lat lng location_name patient_id s =
     (case get_ambulance aid s of
        None \<Rightarrow> (False, s)
      | Some _ \<Rightarrow>
          (True,
           add_location_update
             \<lparr>l_ambulance_id = aid, l_latitude = lat, l_longitude = lng,
              l_location_name = location_name, l_patient_id = patient_id\<rparr>
             (upd_ambulance aid
                (\<lambda>a. a\<lparr>a_latitude := Some lat, a_longitude := Some lng,
                        a_current_location := Some location_name\<rparr>) s)))"

subsection \<open>The driver's actions (\<^verbatim>\<open>DriverUI\<close>)\<close>

text \<open>
  \<^verbatim>\<open>quick_actions\<close>: the three buttons write to the driver's ambulance row.
\<close>

definition release :: "ambulance \<Rightarrow> ambulance" where
  "release a = a\<lparr>a_status := ''Available'', a_current_patient := None\<rparr>"

definition mark_available :: "string \<Rightarrow> store \<Rightarrow> store" where
  "mark_available aid s = upd_ambulance aid release s"

definition mark_on_break :: "string \<Rightarrow> store \<Rightarrow> store" where
  "mark_on_break aid s = upd_ambulance aid (\<lambda>a. a\<lparr>a_status := ''On Break''\<rparr>) s"

definition mark_maintenance :: "string \<Rightarrow> store \<Rightarrow> store" where
  "mark_maintenance aid s = upd_ambulance aid (\<lambda>a. a\<lparr>a_status := ''Maintenance''\<rparr>) s"

text \<open>
  \<^verbatim>\<open>complete_mission(ambulance, patient)\<close>, the handler of "Mark Patient
  Delivered": both rows are written and each of the two hospitals gets a message.
\<close>

definition arrival_notice :: "patient \<Rightarrow> string \<Rightarrow> string \<Rightarrow> communication" where
  "arrival_notice p aid hospital =
     \<lparr>c_patient_id = Some (p_patient_id p), c_ambulance_id = Some aid,
      c_sender = ''Driver'', c_receiver = hospital,
      c_message = ''Patient '' @ p_name p @ '' has arrived via ambulance '' @ aid,
      c_message_type = ''arrival_notification''\<rparr>"

definition complete_mission :: "string \<Rightarrow> patient \<Rightarrow> store \<Rightarrow> store" where
  "complete_mission aid p s =
     (let s1 = upd_ambulance aid
                 (\<lambda>a. a\<lparr>a_status := ''Available'', a_current_patient := None,
                         a_mission_complete := True\<rparr>) s;
          s2 = upd_patient (p_patient_id p) (\<lambda>q. q\<lparr>p_status := ''Arrived at Destination''\<rparr>) s1
      in add_communication (arrival_notice p aid (p_receiving_hospital p))
           (add_communication (arrival_notice p aid (p_referring_hospital p)) s2))"

text \<open>
  The button is drawn by \<^verbatim>\<open>display_driver_dashboard\<close> only while the ambulance has
  a current patient, is \<^verbatim>\<open>On Transfer\<close>, and the patient row exists.
\<close>

definition mark_patient_delivered :: "string \<Rightarrow> store \<Rightarrow> store" where
  "mark_patient_delivered aid s =
     (case get_ambulance aid s of
        None \<Rightarrow> s
      | Some a \<Rightarrow>
          (case a_current_patient a of
             None \<Rightarrow> s
           | Some pid \<Rightarrow>
               if pid \<noteq> [] \<and> a_status a = ''On Transfer'' then
                 (case get_patient_by_id pid s of
                    None \<Rightarrow> s
                  | Some p \<Rightarrow> complete_mission aid p s)
               else s))"

text \<open>
  "Accept Mission" is offered to an \<^verbatim>\<open>Available\<close> ambulance, not on a mission, for
  each patient that is \<^verbatim>\<open>Referred\<close> and has no ambulance.
\<close>

definition available_missions :: "store \<Rightarrow> patient list" where
  "available_missions s =
     filter (\<lambda>p. p_status p = ''Referred'' \<and> p_assigned_ambulance p = None) (patients s)"

definition accept_mission :: "string \<Rightarrow> string \<Rightarrow> store \<Rightarrow> store" where
  "accept_mission aid pid s =
     (case get_ambulance aid s of
        None \<Rightarrow> s
      | Some a \<Rightarrow>
          if \<not> (truthy (a_current_patient a) \<and> a_status a = ''On Transfer'')
             \<and> a_status a = ''Available''
             \<and> list_ex (\<lambda>p. p_patient_id p = pid) (available_missions s)
          then upd_patient pid
                 (\<lambda>p. p\<lparr>p_assigned_ambulance := Some aid, p_status := ''Ambulance Dispatched''\<rparr>)
                 (upd_ambulance aid
                    (\<lambda>a. a\<lparr>a_current_patient := Some pid, a_status := ''On Transfer''\<rparr>) s)
          else s)"

section \<open>Double-precision arithmetic\<close>

text \<open>
  Python's \<^verbatim>\<open>float\<close> is the IEEE 754 binary64 format: \<^verbatim>\<open>+\<close>, \<^verbatim>\<open>-\<close>,
  \<^verbatim>\<open>*\<close> and \<^verbatim>\<open>/\<close> return the exact result rounded to the nearest double, a
  tie going to the even significand, and a decimal literal denotes the double nearest to
  it. \<open>fl\<close> is that rounding on the rationals with the exponent unbounded above: 53
  significant bits, the exponent bounded below by the subnormal range. \<open>round_double\<close>
  adds the overflow: a rounded value beyond the largest double is an infinity. The
  operations on infinities and NaN follow the standard; none of them raises. The sign of
  zero is not modelled (no operation below can tell the two zeros apart).
\<close>

text \<open>The number of binary digits of a positive integer.\<close>

function bitlen :: "int \<Rightarrow> int" where
  "bitlen p = (if p \<le> 0 then 0 else 1 + bitlen (p div 2))"
  by pat_completeness auto
termination
  by (relation "measure nat") auto

declare bitlen.simps [simp del]

definition pow2 :: "int \<Rightarrow> rat" where
  "pow2 e = (if 0 \<le> e then 2 ^ nat e else 1 / 2 ^ nat (- e))"

text \<open>The exponent of a positive rational \<open>x\<close>: \<open>2 ^ e \<le> x < 2 ^ (e + 1)\<close>.\<close>

definition ilog2 :: "rat \<Rightarrow> int" where
  "ilog2 x =
     (let (p, q) = quotient_of x;
          e0 = bitlen p - bitlen q
      in if pow2 e0 \<le> x then e0 else e0 - 1)"

definition round_even :: "rat \<Rightarrow> int" where
  "round_even y =
     (let f = \<lfloor>y\<rfloor>; d = y - of_int f
      in if d < 1 / 2 then f
         else if 1 / 2 < d then f + 1
         else if even f then f else f + 1)"

definition fl :: "rat \<Rightarrow> rat" where
  "fl x =
     (if x = 0 then 0
      else let e = max (ilog2 \<bar>x\<bar>) (- 1022); u = pow2 (e - 52)
           in of_int (round_even (x / u)) * u)"

text \<open>The largest double.\<close>

definition largest :: rat where
  "largest = (2 ^ 53 - 1) * 2 ^ 971"

definition round_double :: "rat \<Rightarrow> double" where
  "round_double x =
     (let y = fl x
      in if largest < y then PosInf else if y < - largest then NegInf else Finite y)"

fun fneg :: "double \<Rightarrow> double" where
  "fneg (Finite a) = Finite (- a)"
| "fneg PosInf = NegInf"
| "fneg NegInf = PosInf"
| "fneg NaN = NaN"

fun fadd :: "double \<Rightarrow> double \<Rightarrow> double" where
  "fadd (Finite a) (Finite b) = round_double (a + b)"
| "fadd NaN y = NaN"
| "fadd x NaN = NaN"
| "fadd PosInf NegInf = NaN"
| "fadd NegInf PosInf = NaN"
| "fadd PosInf y = PosInf"
| "fadd NegInf y = NegInf"
| "fadd x PosInf = PosInf"
| "fadd x NegInf = NegInf"

definition fsub :: "double \<Rightarrow> double \<Rightarrow> double" where
  "fsub x y = fadd x (fneg y)"

text \<open>An infinity times zero is NaN; otherwise the signs decide.\<close>

fun fmul :: "double \<Rightarrow> double \<Rightarrow> double" where
  "fmul (Finite a) (Finite b) = round_double (a * b)"
| "fmul NaN y = NaN"
| "fmul x NaN = NaN"
| "fmul (Finite a) y =
     (if a = 0 then NaN else if (0 < a) = (y = PosInf) then PosInf else NegInf)"
| "fmul x (Finite b) =
     (if b = 0 then NaN else if (0 < b) = (x = PosInf) then PosInf else NegInf)"
| "fmul x y = (if x = y then PosInf else NegInf)"

text \<open>
  The one division of the simulator is by a positive integer, the number of steps
  (Python converts it to a double, exactly): an infinity or a NaN stays what it is.
\<close>

fun fdiv_nat :: "double \<Rightarrow> nat \<Rightarrow> double" where
  "fdiv_nat (Finite a) n = round_double (a / of_nat n)"
| "fdiv_nat x n = x"

text \<open>Python's \<^verbatim>\<open>==\<close> and \<^verbatim>\<open><=\<close> on doubles: a NaN compares false.\<close>

fun feq :: "double \<Rightarrow> double \<Rightarrow> bool" where
  "feq (Finite a) (Finite b) = (a = b)"
| "feq PosInf PosInf = True"
| "feq NegInf NegInf = True"
| "feq x y = False"

fun fle :: "double \<Rightarrow> double \<Rightarrow> bool" where
  "fle (Finite a) (Finite b) = (a \<le> b)"
| "fle NaN y = False"
| "fle x NaN = False"
| "fle NegInf y = True"
| "fle x PosInf = True"
| "fle x y = False"

text \<open>A decimal literal of the source, such as \<^verbatim>\<open>-0.0754\<close>.\<close>

definition lit :: "rat \<Rightarrow> double" where
  "lit x = round_double x"

text \<open>The finite doubles.\<close>

fun is_finite :: "double \<Rightarrow> bool" where
  "is_finite (Finite a) = True"
| "is_finite x = False"

fun is_double :: "double \<Rightarrow> bool" where
  "is_double (Finite a) = (fl a = a \<and> \<bar>a\<bar> \<le> largest)"
| "is_double x = False"

section \<open>The seeded data\<close>

text \<open>
  \<^verbatim>\<open>hospitals_data\<close> and \<^verbatim>\<open>ambulances_data\<close> are dictionaries of parallel
  columns; each row below is the columns read at one index (only the name and the
  coordinates of a hospital are read by the operations).
\<close>

definition hospitals_data :: "(string \<times> double \<times> double) list" where
  "hospitals_data =
    [(''Jaramogi Oginga Odinga Teaching & Referral Hospital (JOOTRH)'', lit (- 754 / 10000), lit (347695 / 10000)),
     (''Kisumu County Referral Hospital'', lit (- 754 / 10000), lit (347695 / 10000)),
     (''Lumumba Sub-County Hospital'', lit (- 1058 / 10000), lit (347568 / 10000)),
     (''Ahero Sub-County Hospital'', lit (- 1743 / 10000), lit (349169 / 10000)),
     (''Kombewa Sub-County / District Hospital'', lit (- 1813 / 10000), lit (346326 / 10000)),
     (''Muhoroni County Hospital'', lit (- 1551 / 10000), lit (351985 / 10000)),
     (''Nyakach Sub-County Hospital'', lit (- 2670 / 10000), lit (350569 / 10000)),
     (''Chulaimbo Sub-County Hospital'', lit (- 1848 / 10000), lit (346163 / 10000)),
     (''Masogo Sub-County (Sub-District) Hospital'', lit (- 1855 / 10000), lit (350386 / 10000)),
     (''Nyando District Hospital'', lit (- 3573 / 10000), lit (350006 / 10000)),
     (''Ober Kamoth Sub-County Hospital'', lit (- 3789 / 10000), lit (350299 / 10000)),
     (''Rabuor Sub-County Hospital'', lit (- 2138 / 10000), lit (348817 / 10000)),
     (''Nyangoma Sub-County Hospital'', lit (- 1625 / 10000), lit (347794 / 10000)),
     (''Nyahera Sub-County Hospital'', lit (- 1565 / 10000), lit (347508 / 10000)),
     (''Katito Sub-County Hospital'', lit (- 4533 / 10000), lit (349561 / 10000)),
     (''Gita Sub-County Hospital'', lit (- 3735 / 10000), lit (349676 / 10000)),
     (''Masogo Health Centre'', lit (- 1855 / 10000), lit (350386 / 10000)),
     (''Victoria Hospital (public) Kisumu'', lit (- 878 / 10000), lit (347686 / 10000)),
     (''Kodiaga Prison Health Centre'', lit (- 607 / 10000), lit (347509 / 10000)),
     (''Kisumu District Hospital'', lit (- 916 / 10000), lit (347647 / 10000)),
     (''Migosi Health Centre'', lit (- 1073 / 10000), lit (347794 / 10000)),
     (''Katito Health Centre'', lit (- 4533 / 10000), lit (349561 / 10000)),
     (''Mbaka Oromo Health Centre'', lit (- 2628 / 10000), lit (346061 / 10000)),
     (''Migere Health Centre'', lit (- 1225 / 10000), lit (347553 / 10000)),
     (''Milenye Health Centre'', lit (- 1872 / 10000), lit (347781 / 10000)),
     (''Minyange Dispensary'', lit (- 2192 / 10000), lit (348331 / 10000)),
     (''Nduru Kadero Health Centre'', lit (- 1356 / 10000), lit (347381 / 10000)),
     (''Newa Dispensary'', lit (- 2014 / 10000), lit (348289 / 10000)),
     (''Nyakoko Dispensary'', lit (- 2678 / 10000), lit (349981 / 10000)),
     (''Ojola Sub-County Hospital'', lit (- 1578 / 10000), lit (348419 / 10000)),
     (''Simba Opepo Health Centre'', lit (- 3381 / 10000), lit (349456 / 10000)),
     (''Songhor Health Centre'', lit (- 2131 / 10000), lit (351611 / 10000)),
     (''St Marks Lela Health Centre'', lit (- 803 / 10000), lit (346569 / 10000)),
     (''Maseno University Health Centre'', lit (- 25 / 10000), lit (346053 / 10000)),
     (''Geta Health Centre'', lit (- 4739 / 10000), lit (349519 / 10000)),
     (''Kadinda Health Centre'', lit (- 2167 / 10000), lit (348419 / 10000)),
     (''Kochieng Health Centre'', lit (- 3658 / 10000), lit (349606 / 10000)),
     (''Kodingo Health Centre'', lit (- 956 / 10000), lit (347658 / 10000)),
     (''Kolenyo Health Centre'', lit (- 4536 / 10000), lit (349564 / 10000)),
     (''Kandu Health Centre'', lit (- 2314 / 10000), lit (348489 / 10000))]"

definition ambulances_data ::
    "(string \<times> string \<times> double \<times> double \<times> string \<times> string \<times> string) list" where
  "ambulances_data =
    [(''KBA 453D'', ''Jaramogi Oginga Odinga Teaching & Referral Hospital (JOOTRH)'', lit (- 754 / 10000), lit (347695 / 10000),
      ''Available'', ''John Omondi'', ''+254712345678''),
     (''KBC 217F'', ''Jaramogi Oginga Odinga Teaching & Referral Hospital (JOOTRH)'', lit (- 754 / 10000), lit (347695 / 10000),
      ''Available'', ''Mary Achieng'', ''+254723456789''),
     (''KBD 389G'', ''Jaramogi Oginga Odinga Teaching & Referral Hospital (JOOTRH)'', lit (- 754 / 10000), lit (347695 / 10000),
      ''Available'', ''Paul Otieno'', ''+254734567890''),
     (''KBE 142H'', ''Jaramogi Oginga Odinga Teaching & Referral Hospital (JOOTRH)'', lit (- 754 / 10000), lit (347695 / 10000),
      ''Available'', ''Susan Akinyi'', ''+254745678901''),
     (''KBF 561J'', ''Jaramogi Oginga Odinga Teaching & Referral Hospital (JOOTRH)'', lit (- 754 / 10000), lit (347695 / 10000),
      ''Available'', ''David Owino'', ''+254756789012''),
     (''KBG 774K'', ''Jaramogi Oginga Odinga Teaching & Referral Hospital (JOOTRH)'', lit (- 754 / 10000), lit (347695 / 10000),
      ''Available'', ''James Okoth'', ''+254767890123''),
     (''KBH 238L'', ''Jaramogi Oginga Odinga Teaching & Referral Hospital (JOOTRH)'', lit (- 754 / 10000), lit (347695 / 10000),
      ''Available'', ''Grace Atieno'', ''+254778901234''),
     (''KBJ 965M'', ''Jaramogi Oginga Odinga Teaching & Referral Hospital (JOOTRH)'', lit (- 754 / 10000), lit (347695 / 10000),
      ''Available'', ''Peter Onyango'', ''+254789012345''),
     (''KBK 482N'', ''Jaramogi Oginga Odinga Teaching & Referral Hospital (JOOTRH)'', lit (- 754 / 10000), lit (347695 / 10000),
      ''Available'', ''Alice Adhiambo'', ''+254790123456''),
     (''KBL 751P'', ''Jaramogi Oginga Odinga Teaching & Referral Hospital (JOOTRH)'', lit (- 754 / 10000), lit (347695 / 10000),
      ''Available'', ''Robert Ochieng'', ''+254701234567''),
     (''KBM 312Q'', ''Kisumu County Referral Hospital'', lit (- 754 / 10000), lit (347695 / 10000),
      ''Available'', ''Sarah Nyongesa'', ''+254712345679''),
     (''KBN 864R'', ''Kisumu County Referral Hospital'', lit (- 754 / 10000), lit (347695 / 10000),
      ''Available'', ''Michael Odhiambo'', ''+254723456780''),
     (''KBP 459S'', ''Kisumu County Referral Hospital'', lit (- 754 / 10000), lit (347695 / 10000),
      ''Available'', ''Elizabeth Awuor'', ''+254734567891''),
     (''KBQ 287T'', ''Kisumu County Referral Hospital'', lit (- 754 / 10000), lit (347695 / 10000),
      ''Available'', ''Daniel Omondi'', ''+254745678902''),
     (''KBR 913U'', ''Kisumu County Referral Hospital'', lit (- 754 / 10000), lit (347695 / 10000),
      ''Available'', ''Lucy Anyango'', ''+254756789013''),
     (''KBS 506V'', ''Kisumu County Referral Hospital'', lit (- 754 / 10000), lit (347695 / 10000),
      ''Available'', ''Brian Ouma'', ''+254767890124''),
     (''KBT 678W'', ''Kisumu County Referral Hospital'', lit (- 754 / 10000), lit (347695 / 10000),
      ''Available'', ''Patricia Adongo'', ''+254778901235''),
     (''KBU 134X'', ''Lumumba Sub-County Hospital'', lit (- 1058 / 10000), lit (347568 / 10000),
      ''Available'', ''Samuel Owuor'', ''+254789012346''),
     (''KBV 925Y'', ''Lumumba Sub-County Hospital'', lit (- 1058 / 10000), lit (347568 / 10000),
      ''Available'', ''Rebecca Aoko'', ''+254790123457''),
     (''KBX 743Z'', ''Ahero Sub-County Hospital'', lit (- 1743 / 10000), lit (349169 / 10000),
      ''Available'', ''Kevin Onyango'', ''+254701234568'')]"

definition seed_ambulance ::
    "string \<times> string \<times> double \<times> double \<times> string \<times> string \<times> string \<Rightarrow> ambulance" where
  "seed_ambulance row =
     (case row of (aid, loc, lat, lng, st, driver, contact) \<Rightarrow>
        \<lparr>a_ambulance_id = aid, a_current_location = Some loc, a_latitude = Some lat,
         a_longitude = Some lng, a_status = st, a_driver_name = Some driver,
         a_driver_contact = Some contact, a_current_patient = None, a_destination = None,
         a_route = None, a_current_step = 0, a_mission_complete = False\<rparr>)"

definition initialize_sample_data :: "store \<Rightarrow> store" where
  "initialize_sample_data s =
     (if length (ambulances s) = 0
      then s\<lparr>ambulances := ambulances s @ map seed_ambulance ambulances_data\<rparr>
      else s)"

definition empty_store :: store where
  "empty_store =
     \<lparr>patients = [], ambulances = [], referrals = [], handover_forms = [],
      communications = [], location_updates = []\<rparr>"

section \<open>The referral form (\<^verbatim>\<open>ReferralUI.create_referral_form\<close>)\<close>

record referral_form =
  f_name :: string
  f_age :: int
  f_condition :: string
  f_referring_physician :: string
  f_referring_hospital :: string
  f_receiving_hospital :: string
  f_receiving_physician :: string
  f_notes :: string
  f_medical_history :: string
  f_current_medications :: string
  f_allergies :: string
  f_ambulance_choice :: string

text \<open>\<^verbatim>\<open>hospitals_df[hospitals_df['facility_name'] == h].iloc[0]\<close>\<close>

definition hospital_row :: "string \<Rightarrow> error + double \<times> double" where
  "hospital_row h =
     (case find (\<lambda>row. fst row = h) hospitals_data of
        None \<Rightarrow> Inl IndexError
      | Some row \<Rightarrow> Inr (snd row))"

text \<open>\<^verbatim>\<open>choice.split(" - ")[0]\<close>: what stands before the first separator.\<close>

fun before_sep :: "string \<Rightarrow> string \<Rightarrow> string" where
  "before_sep sep [] = []"
| "before_sep sep (c # cs) =
     (if take (length sep) (c # cs) = sep then [] else c # before_sep sep cs)"

text \<open>\<^verbatim>\<open>all([name, age, condition, ...])\<close>: no empty string and no zero.\<close>

definition required_fields_present :: "referral_form \<Rightarrow> bool" where
  "required_fields_present f =
     (f_name f \<noteq> [] \<and> f_age f \<noteq> 0 \<and> f_condition f \<noteq> [] \<and> f_referring_physician f \<noteq> []
      \<and> f_referring_hospital f \<noteq> [] \<and> f_receiving_hospital f \<noteq> [])"

definition form_patient_data :: "referral_form \<Rightarrow> double \<times> double \<Rightarrow> double \<times> double \<Rightarrow> patient" where
  "form_patient_data f referring_at receiving_at =
     \<lparr>p_patient_id = [], p_name = f_name f, p_age = f_age f, p_condition = f_condition f,
      p_referring_hospital = f_referring_hospital f,
      p_receiving_hospital = f_receiving_hospital f,
      p_referring_physician = f_referring_physician f,
      p_receiving_physician = Some (f_receiving_physician f), p_notes = Some (f_notes f),
      p_vital_signs = None, p_medical_history = Some (f_medical_history f),
      p_current_medications = Some (f_current_medications f),
      p_allergies = Some (f_allergies f), p_status = ''Referred'',
      p_assigned_ambulance =
        (if f_ambulance_choice f \<noteq> ''Auto-assign''
         then Some (before_sep '' - '' (f_ambulance_choice f)) else None),
      p_created_by = None,
      p_referring_hospital_lat = Some (fst referring_at),
      p_referring_hospital_lng = Some (snd referring_at),
      p_receiving_hospital_lat = Some (fst receiving_at),
      p_receiving_hospital_lng = Some (snd receiving_at)\<rparr>"

text \<open>
  The submitted form. The identifier of the row is assigned by \<open>add_patient\<close>, so the
  data carries none. A failure inside \<open>create_referral\<close> is reported by that function
  and the form shows no success.
\<close>

definition create_referral_form ::
    "string \<Rightarrow> string \<Rightarrow> referral_form \<Rightarrow> store \<Rightarrow> error + patient \<times> store" where
  "create_referral_form role token f s =
     (if \<not> required_fields_present f then
        Inl (ValidationError ''Please fill in all required fields (*)'')
      else if f_referring_hospital f = f_receiving_hospital f then
        Inl (ValidationError ''Referring and receiving hospitals cannot be the same.'')
      else
        (case hospital_row (f_referring_hospital f) of
           Inl e \<Rightarrow> Inl e
         | Inr referring_at \<Rightarrow>
             (case hospital_row (f_receiving_hospital f) of
                Inl e \<Rightarrow> Inl e
              | Inr receiving_at \<Rightarrow>
                  (case create_referral token (form_patient_data f referring_at receiving_at)
                          role s of
                     (None, _) \<Rightarrow> Inl IntegrityError
                   | (Some p, s') \<Rightarrow> Inr (p, s')))))"

section \<open>The other actions on a patient\<close>

text \<open>\<^verbatim>\<open>ReferralUI.display_patient_actions\<close>, "Update Status": one of five values.\<close>

definition status_options :: "string list" where
  "status_options =
     [''Referred'', ''Ambulance Dispatched'', ''Patient Picked Up'',
      ''Transporting to Destination'', ''Arrived at Destination'']"

definition update_status :: "string \<Rightarrow> string \<Rightarrow> store \<Rightarrow> store" where
  "update_status pid new_status s =
     (if new_status \<in> set status_options
      then upd_patient pid (\<lambda>p. p\<lparr>p_status := new_status\<rparr>) s else s)"

text \<open>
  \<^verbatim>\<open>DriverUI.show_vitals_form\<close>: the snapshot replaces the patient's vital signs
  and both hospitals are told. The time stamp of the snapshot is an argument.
\<close>

record vitals_form =
  v_bp :: string
  v_heart_rate :: nat
  v_spo2 :: nat
  v_respiratory_rate :: nat
  v_notes :: string

text \<open>The decimal numeral that an f-string prints for a natural number.\<close>

function show_nat :: "nat \<Rightarrow> string" where
  "show_nat n =
     (if n < 10 then [char_of (48 + n)] else show_nat (n div 10) @ [char_of (48 + n mod 10)])"
  by pat_completeness auto
termination
  by (relation "measure id") auto

declare show_nat.simps [simp del]

definition vitals_notice :: "string \<Rightarrow> vitals_form \<Rightarrow> string \<Rightarrow> communication" where
  "vitals_notice pid v hospital =
     \<lparr>c_patient_id = Some pid, c_ambulance_id = None, c_sender = ''Driver'',
      c_receiver = hospital,
      c_message = ''Vitals updated: BP '' @ v_bp v @ '', HR '' @ show_nat (v_heart_rate v)
                  @ ''bpm, SpO2 '' @ show_nat (v_spo2 v) @ ''%'',
      c_message_type = ''vitals_update''\<rparr>"

definition update_vitals :: "string \<Rightarrow> vitals_form \<Rightarrow> string \<Rightarrow> store \<Rightarrow> store" where
  "update_vitals pid v now s =
     (case get_patient_by_id pid s of
        None \<Rightarrow> s
      | Some p \<Rightarrow>
          add_communication (vitals_notice pid v (p_receiving_hospital p))
            (add_communication (vitals_notice pid v (p_referring_hospital p))
               (upd_patient pid
                  (\<lambda>q. q\<lparr>p_vital_signs :=
                           Some [(''blood_pressure'', JStr (v_bp v)),
                                 (''heart_rate'', JInt (int (v_heart_rate v))),
                                 (''oxygen_saturation'', JInt (int (v_spo2 v))),
                                 (''respiratory_rate'', JInt (int (v_respiratory_rate v))),
                                 (''notes'', JStr (v_notes v)),
                                 (''timestamp'', JStr now)]\<rparr>) s)))"

section \<open>The handover form (\<^verbatim>\<open>HandoverUI.create_handover_form\<close>)\<close>

record handover_input =
  i_blood_pressure :: string
  i_heart_rate :: nat
  i_temperature :: double
  i_oxygen_saturation :: nat
  i_receiving_physician :: string
  i_handover_notes :: string

text \<open>The patients that the form offers to a user of the given hospital.\<close>

definition eligible_patients :: "string \<Rightarrow> store \<Rightarrow> patient list" where
  "eligible_patients user_hospital s =
     (if user_hospital = ''All Facilities''
      then filter (\<lambda>p. p_status p = ''Arrived at Destination'') (patients s)
      else filter (\<lambda>p. p_receiving_hospital p = user_hospital
                        \<and> p_status p = ''Arrived at Destination'') (patients s))"

text \<open>
  The options are a dictionary from \<^verbatim>\<open>f"{p.patient_id} - {p.name}"\<close> to the
  patient, so of two patients with one key the later stays. The select box returns one
  of the keys; the dictionary raises \<^verbatim>\<open>KeyError\<close> on any other string.
\<close>

definition patient_key :: "patient \<Rightarrow> string" where
  "patient_key p = p_patient_id p @ '' - '' @ p_name p"

definition patient_options :: "patient list \<Rightarrow> (string \<times> patient) list" where
  "patient_options ps = rev (map (\<lambda>p. (patient_key p, p)) ps)"

datatype handover_outcome = NoEligiblePatients | HandoverCompleted

definition handover_data :: "patient \<Rightarrow> handover_input \<Rightarrow> string \<Rightarrow> handover_form" where
  "handover_data p i role =
     \<lparr>h_patient_id = p_patient_id p, h_patient_name = p_name p, h_age = p_age p,
      h_condition = p_condition p, h_referring_hospital = p_referring_hospital p,
      h_receiving_hospital = p_receiving_hospital p,
      h_referring_physician = p_referring_physician p,
      h_receiving_physician = i_receiving_physician i,
      h_vital_signs =
        [(''blood_pressure'', JStr (i_blood_pressure i)),
         (''heart_rate'', JInt (int (i_heart_rate i))),
         (''temperature'', JNum (i_temperature i)),
         (''oxygen_saturation'', JInt (int (i_oxygen_saturation i)))],
      h_medical_history = p_medical_history p,
      h_current_medications = p_current_medications p, h_allergies = p_allergies p,
      h_notes = i_handover_notes i, h_ambulance_id = p_assigned_ambulance p,
      h_created_by = role\<rparr>"

definition create_handover_form ::
    "string \<Rightarrow> string \<Rightarrow> string \<Rightarrow> handover_input \<Rightarrow> store
       \<Rightarrow> error + handover_outcome \<times> store" where
  "create_handover_form role user_hospital selected_patient_key i s =
     (let eligible = eligible_patients user_hospital s
      in if eligible = [] then Inr (NoEligiblePatients, s)
         else
           (case map_of (patient_options eligible) selected_patient_key of
              None \<Rightarrow> Inl KeyError
            | Some selected_patient \<Rightarrow>
                if i_receiving_physician i = [] then
                  Inl (ValidationError ''Please enter the receiving physician'')
                else
                  Inr (HandoverCompleted,
                       upd_patient (p_patient_id selected_patient)
                         (\<lambda>p. p\<lparr>p_status := ''Completed'',
                                 p_receiving_physician := Some (i_receiving_physician i)\<rparr>)
                         (add_handover_form (handover_data selected_patient i role) s))))"

section \<open>The movement simulator (\<^verbatim>\<open>LocationSimulator\<close>)\<close>

text \<open>
  The simulator object holds the flag \<^verbatim>\<open>running\<close>; its thread shares the database
  with the rest of the program. The thread gives way to the others in
  \<^verbatim>\<open>time.sleep(5)\<close>: the environment \<open>env step\<close> is what the others do to the
  flag and to the database during the sleep that follows the write of \<open>step\<close>.
\<close>

record world =
  running :: bool
  db :: store

type_synonym env = "nat \<Rightarrow> world \<Rightarrow> world"

definition steps :: nat where
  "steps = 20"

text \<open>
  \<^verbatim>\<open>lat_step = (end_lat - start_lat) / steps\<close> and
  \<^verbatim>\<open>current_lat = start_lat + (lat_step * step)\<close>, each operation rounded; the
  integer \<open>step\<close>, at most 20, is converted to a double exactly.
\<close>

definition coord_step :: "double \<Rightarrow> double \<Rightarrow> double" where
  "coord_step start_c end_c = fdiv_nat (fsub end_c start_c) steps"

definition position :: "double \<Rightarrow> double \<Rightarrow> nat \<Rightarrow> double" where
  "position start_c end_c step =
     fadd start_c (fmul (coord_step start_c end_c) (Finite (of_nat step)))"

definition step_label :: "nat \<Rightarrow> string" where
  "step_label step = ''En route - Step '' @ show_nat step @ ''/'' @ show_nat steps"

definition sim_tick ::
    "string \<Rightarrow> string \<Rightarrow> double \<Rightarrow> double \<Rightarrow> double \<Rightarrow> double \<Rightarrow> nat \<Rightarrow> world \<Rightarrow> world" where
  "sim_tick aid pid start_lat start_lng end_lat end_lng step w =
     w\<lparr>db := snd (update_ambulance_location aid
                     (position start_lat end_lat step) (position start_lng end_lng step)
                     (step_label step) (Some pid) (db w))\<rparr>"

text \<open>The loop over \<^verbatim>\<open>range(steps + 1)\<close>; a cleared flag breaks it.\<close>

fun sim_loop :: "env \<Rightarrow> (nat \<Rightarrow> world \<Rightarrow> world) \<Rightarrow> nat list \<Rightarrow> world \<Rightarrow> world" where
  "sim_loop env tick [] w = w"
| "sim_loop env tick (step # rest) w =
     (if \<not> running w then w
      else sim_loop env tick rest (env step (tick step w)))"

text \<open>"Mark as arrived", after the loop.\<close>

definition sim_finish :: "string \<Rightarrow> world \<Rightarrow> world" where
  "sim_finish aid w =
     (if running w then
        (case get_ambulance aid (db w) of
           None \<Rightarrow> w
         | Some _ \<Rightarrow> w\<lparr>db := upd_ambulance aid release (db w)\<rparr>)
      else w)"

definition start_simulation ::
    "env \<Rightarrow> string \<Rightarrow> string \<Rightarrow> double \<Rightarrow> double \<Rightarrow> double \<Rightarrow> double \<Rightarrow> world \<Rightarrow> world" where
  "start_simulation env aid pid start_lat start_lng end_lat end_lng w =
     sim_finish aid
       (sim_loop env (sim_tick aid pid start_lat start_lng end_lat end_lng) [0..<steps + 1]
          (w\<lparr>running := True\<rparr>))"

definition stop_simulation :: "world \<Rightarrow> world" where
  "stop_simulation w = w\<lparr>running := False\<rparr>"

text \<open>The run that nobody disturbs, and the samples it is to write.\<close>

definition undisturbed :: env where
  "undisturbed step w = w"

definition sample :: "string \<Rightarrow> string \<Rightarrow> double \<Rightarrow> double \<Rightarrow> double \<Rightarrow> double \<Rightarrow> nat \<Rightarrow> location_update" where
  "sample aid pid start_lat start_lng end_lat end_lng step =
     \<lparr>l_ambulance_id = aid, l_latitude = position start_lat end_lat step,
      l_longitude = position start_lng end_lng step, l_location_name = step_label step,
      l_patient_id = Some pid\<rparr>"

text \<open>Somebody calls \<open>stop_simulation\<close> during the sleep that follows step \<open>j\<close>.\<close>

definition stop_after :: "nat \<Rightarrow> env" where
  "stop_after j step w = (if step = j then stop_simulation w else w)"

text \<open>
  The other threads leave a run alone when, in each of its sleeps, they do not clear the
  flag, write no location update and do not delete the ambulance's row. Everything else
  may change: the patients, the other tables, the fields of the ambulance.
\<close>

definition leaves_run_alone :: "string \<Rightarrow> env \<Rightarrow> bool" where
  "leaves_run_alone aid env =
     (\<forall>step w. step \<le> steps \<longrightarrow>
        (running w \<longrightarrow> running (env step w))
        \<and> location_updates (db (env step w)) = location_updates (db w)
        \<and> (get_ambulance aid (db w) \<noteq> None \<longrightarrow> get_ambulance aid (db (env step w)) \<noteq> None))"

text \<open>The part of an ambulance row that the ticks leave alone.\<close>

definition link_of :: "ambulance \<Rightarrow> string \<times> string option \<times> bool" where
  "link_of a = (a_status a, a_current_patient a, a_mission_complete a)"

section \<open>Sequences of operations\<close>

datatype op =
    CreateReferral string string referral_form
  | AssignAmbulance string string
  | UpdateStatus string string
  | UpdateVitals string vitals_form string
  | Handover string string string handover_input
  | UpdateLocation string double double string "string option"
  | AcceptMission string string
  | MarkPatientDelivered string
  | MarkAvailable string
  | MarkOnBreak string
  | MarkMaintenance string
  | SendMessage communication
  | SimulatorTick string string double double double double nat
  | SimulatorRelease string

fun exec :: "op \<Rightarrow> store \<Rightarrow> store" where
  "exec (CreateReferral role token f) s =
     (case create_referral_form role token f s of Inl e \<Rightarrow> s | Inr (p, s') \<Rightarrow> s')"
| "exec (AssignAmbulance pid aid) s = snd (assign_ambulance pid aid s)"
| "exec (UpdateStatus pid new_status) s = update_status pid new_status s"
| "exec (UpdateVitals pid v now) s = update_vitals pid v now s"
| "exec (Handover role user_hospital k i) s =
     (case create_handover_form role user_hospital k i s of Inl e \<Rightarrow> s | Inr (out, s') \<Rightarrow> s')"
| "exec (UpdateLocation aid lat lng location_name patient_id) s =
     snd (update_ambulance_location aid lat lng location_name patient_id s)"
| "exec (AcceptMission aid pid) s = accept_mission aid pid s"
| "exec (MarkPatientDelivered aid) s = mark_patient_delivered aid s"
| "exec (MarkAvailable aid) s = mark_available aid s"
| "exec (MarkOnBreak aid) s = mark_on_break aid s"
| "exec (MarkMaintenance aid) s = mark_maintenance aid s"
| "exec (SendMessage c) s = add_communication c s"
| "exec (SimulatorTick aid pid start_lat start_lng end_lat end_lng step) s =
     db (sim_tick aid pid start_lat start_lng end_lat end_lng step \<lparr>running = True, db = s\<rparr>)"
| "exec (SimulatorRelease aid) s = db (sim_finish aid \<lparr>running = True, db = s\<rparr>)"

fun run :: "op list \<Rightarrow> store \<Rightarrow> store" where
  "run [] s = s"
| "run (x # xs) s = run xs (exec x s)"

section \<open>A scenario\<close>

text \<open>
  The seeded fleet; patient P1 referred from JOOTRH to Kisumu County Referral Hospital;
  the first ambulance assigned to P1.
\<close>

definition seeded :: store where
  "seeded = initialize_sample_data empty_store"

definition p1_form :: referral_form where
  "p1_form =
     \<lparr>f_name = ''P1'', f_age = 30, f_condition = ''Fracture'',
      f_referring_physician = ''Dr A'',
      f_referring_hospital = ''Jaramogi Oginga Odinga Teaching & Referral Hospital (JOOTRH)'',
      f_receiving_hospital = ''Kisumu County Referral Hospital'',
      f_receiving_physician = [], f_notes = [], f_medical_history = [],
      f_current_medications = [], f_allergies = [], f_ambulance_choice = ''Auto-assign''\<rparr>"

definition p1_id :: string where
  "p1_id = ''PAT0A1B2C3D''"

definition a1_id :: string where
  "a1_id = ''KBA 453D''"

definition p1 :: patient where
  "p1 =
     \<lparr>p_patient_id = p1_id, p_name = ''P1'', p_age = 30, p_condition = ''Fracture'',
      p_referring_hospital = ''Jaramogi Oginga Odinga Teaching & Referral Hospital (JOOTRH)'',
      p_receiving_hospital = ''Kisumu County Referral Hospital'',
      p_referring_physician = ''Dr A'', p_receiving_physician = Some [],
      p_notes = Some [], p_vital_signs = None, p_medical_history = Some [],
      p_current_medications = Some [], p_allergies = Some [], p_status = ''Referred'',
      p_assigned_ambulance = None, p_created_by = Some ''Hospital Staff'',
      p_referring_hospital_lat = Some (lit (- 754 / 10000)),
      p_referring_hospital_lng = Some (lit (347695 / 10000)),
      p_receiving_hospital_lat = Some (lit (- 754 / 10000)),
      p_receiving_hospital_lng = Some (lit (347695 / 10000))\<rparr>"

definition a1 :: ambulance where
  "a1 = seed_ambulance (hd ambulances_data)"

definition p1_created :: store where
  "p1_created = exec (CreateReferral ''Hospital Staff'' ''0A1B2C3D'' p1_form) seeded"

definition p1_assigned :: store where
  "p1_assigned = exec (AssignAmbulance p1_id a1_id) p1_created"

text \<open>The form of P1 with the referring hospital chosen as the receiving one.\<close>

definition same_hospital_form :: referral_form where
  "same_hospital_form = p1_form\<lparr>f_receiving_hospital := f_referring_hospital p1_form\<rparr>"

text \<open>A second patient, referred while the first ambulance is on its way with P1.\<close>

definition p2_form :: referral_form where
  "p2_form = p1_form\<lparr>f_name := ''P2'', f_condition := ''Stroke''\<rparr>"

definition p2_id :: string where
  "p2_id = ''PAT1B2C3D4E''"

definition p2 :: patient where
  "p2 = p1\<lparr>p_patient_id := p2_id, p_name := ''P2'', p_condition := ''Stroke''\<rparr>"

definition p2_created :: store where
  "p2_created = exec (CreateReferral ''Hospital Staff'' ''1B2C3D4E'' p2_form) p1_assigned"

text \<open>The driver delivers P1; an administrator then fills in the handover form.\<close>

definition p1_arrived :: store where
  "p1_arrived = exec (MarkPatientDelivered a1_id) p1_assigned"

text \<open>The same delivery with P2 referred and waiting: one patient has arrived, one has not.\<close>

definition p2_waiting :: store where
  "p2_waiting = exec (MarkPatientDelivered a1_id) p2_created"

definition p1_handover :: handover_input where
  "p1_handover =
     \<lparr>i_blood_pressure = ''120/80'', i_heart_rate = 72, i_temperature = lit (366 / 10),
      i_oxygen_saturation = 98, i_receiving_physician = ''Dr B'', i_handover_notes = []\<rparr>"

text \<open>
  The driver of the first ambulance, on its way with P1 while the simulator runs, marks
  P1 delivered during the sleep after step 3 and accepts the mission of P2 during the
  sleep after step 5.
\<close>

definition delivered_then_next :: env where
  "delivered_then_next step w =
     (if step = 3 then w\<lparr>db := mark_patient_delivered a1_id (db w)\<rparr>
      else if step = 5 then w\<lparr>db := accept_mission a1_id p2_id (db w)\<rparr>
      else w)"

definition idle :: world where
  "idle = \<lparr>running = False, db = p2_created\<rparr>"

text \<open>
  The journey of the specification's example: from \<^verbatim>\<open>(-0.0754, 34.7695)\<close>, where the
  first ambulance is stationed, to \<^verbatim>\<open>(-0.1743, 34.9169)\<close>.
\<close>

definition from_lat :: double where
  "from_lat = lit (- 754 / 10000)"

definition from_lng :: double where
  "from_lng = lit (347695 / 10000)"

definition to_lat :: double where
  "to_lat = lit (- 1743 / 10000)"

definition to_lng :: double where
  "to_lng = lit (349169 / 10000)"

text \<open>The latitude of Nyakach Sub-County Hospital, \<^verbatim>\<open>-0.267\<close>.\<close>

definition nyakach_lat :: double where
  "nyakach_lat = lit (- 267 / 1000)"

section \<open>The claims of the specification, as predicates\<close>

text \<open>
  "\<open>assign\<close> either fully succeeds or fully fails": the call reports success with both
  rows linked, or reports failure with neither table changed.
\<close>

definition assign_fully_succeeded :: "string \<Rightarrow> string \<Rightarrow> store \<Rightarrow> bool" where
  "assign_fully_succeeded pid aid s' =
     ((case get_patient_by_id pid s' of
         None \<Rightarrow> False
       | Some p \<Rightarrow> p_status p = ''Ambulance Assigned'' \<and> p_assigned_ambulance p = Some aid)
      \<and> (case get_ambulance aid s' of
            None \<Rightarrow> False
          | Some a \<Rightarrow> a_status a = ''On Transfer'' \<and> a_current_patient a = Some pid))"

definition assign_all_or_nothing :: "string \<Rightarrow> string \<Rightarrow> store \<Rightarrow> bool" where
  "assign_all_or_nothing pid aid s =
     (let (ok, s') = assign_ambulance pid aid s
      in (ok \<and> assign_fully_succeeded pid aid s')
         \<or> (\<not> ok \<and> patients s' = patients s \<and> ambulances s' = ambulances s))"

text \<open>
  "Dispatching requires the status \<open>Available\<close>": on any other status the call fails
  and leaves both tables as they were.
\<close>

definition dispatch_requires_available :: "string \<Rightarrow> string \<Rightarrow> store \<Rightarrow> bool" where
  "dispatch_requires_available pid aid s =
     (case get_ambulance aid s of
        None \<Rightarrow> True
      | Some a \<Rightarrow>
          a_status a = ''Available''
          \<or> (let (ok, s') = assign_ambulance pid aid s
              in \<not> ok \<and> patients s' = patients s \<and> ambulances s' = ambulances s))"

text \<open>"\<open>current_patient\<close> is set if and only if the status is \<open>On Transfer\<close>."\<close>

definition amb_ok :: "ambulance \<Rightarrow> bool" where
  "amb_ok a = ((a_current_patient a \<noteq> None) = (a_status a = ''On Transfer''))"

definition amb_inv :: "store \<Rightarrow> bool" where
  "amb_inv s = list_all amb_ok (ambulances s)"

text \<open>
  The operations that keep the equivalence: all but an assignment for a patient with an
  empty identifier and a break or a maintenance of an ambulance that has a patient.
\<close>

definition has_no_patient :: "string \<Rightarrow> store \<Rightarrow> bool" where
  "has_no_patient aid s =
     (case get_ambulance aid s of None \<Rightarrow> True | Some a \<Rightarrow> a_current_patient a = None)"

fun keeps_link :: "op \<Rightarrow> store \<Rightarrow> bool" where
  "keeps_link (AssignAmbulance pid aid) s = (pid \<noteq> [])"
| "keeps_link (MarkOnBreak aid) s = has_no_patient aid s"
| "keeps_link (MarkMaintenance aid) s = has_no_patient aid s"
| "keeps_link x s = True"

fun all_keep_link :: "op list \<Rightarrow> store \<Rightarrow> bool" where
  "all_keep_link [] s = True"
| "all_keep_link (x # xs) s = (keeps_link x s \<and> all_keep_link xs (exec x s))"

text \<open>"The referring and the receiving hospital of a patient differ."\<close>

definition hospitals_differ :: "store \<Rightarrow> bool" where
  "hospitals_differ s =
     list_all (\<lambda>p. p_referring_hospital p \<noteq> p_receiving_hospital p) (patients s)"

text \<open>"Completing the handover fails with an error."\<close>

definition handover_fails :: "string \<Rightarrow> string \<Rightarrow> string \<Rightarrow> handover_input \<Rightarrow> store \<Rightarrow> bool" where
  "handover_fails role user_hospital k i s =
     (case create_handover_form role user_hospital k i s of Inl e \<Rightarrow> True | Inr r \<Rightarrow> False)"

text \<open>
  "The end-of-run release is performed only if the mission was not already completed":
  with the ambulance's mission marked complete, the end of the run writes nothing.
\<close>

definition release_is_guarded :: "string \<Rightarrow> world \<Rightarrow> bool" where
  "release_is_guarded aid w =
     (case get_ambulance aid (db w) of
        None \<Rightarrow> True
      | Some a \<Rightarrow> \<not> a_mission_complete a \<or> sim_finish aid w = w)"

text \<open>
  "Sample \<open>k\<close> has \<open>lat = start_lat + k * (end_lat - start_lat) / 20\<close>", the formula of
  the specification evaluated as Python evaluates it; "sample 0 equals the start, sample
  20 equals the end, every sample lies within the bounding box of start and end".
\<close>

definition spec_position :: "double \<Rightarrow> double \<Rightarrow> nat \<Rightarrow> double" where
  "spec_position start_c end_c step =
     fadd start_c (fdiv_nat (fmul (Finite (of_nat step)) (fsub end_c start_c)) steps)"

text \<open>The same formula in exact arithmetic, for finite coordinates.\<close>

fun exact_position :: "double \<Rightarrow> double \<Rightarrow> nat \<Rightarrow> double" where
  "exact_position (Finite a) (Finite b) step =
     Finite (a + of_nat step * (b - a) / of_nat steps)"
| "exact_position x y step = NaN"

definition in_box :: "double \<Rightarrow> double \<Rightarrow> double \<Rightarrow> bool" where
  "in_box start_c end_c x =
     ((fle start_c x \<and> fle x end_c) \<or> (fle end_c x \<and> fle x start_c))"

definition interpolates_as_specified :: "double \<Rightarrow> double \<Rightarrow> bool" where
  "interpolates_as_specified start_c end_c =
     (list_all (\<lambda>k. feq (position start_c end_c k) (spec_position start_c end_c k)
                     \<and> in_box start_c end_c (position start_c end_c k)) [0..<steps + 1]
      \<and> feq (position start_c end_c 0) start_c
      \<and> feq (position start_c end_c steps) end_c)"

section \<open>Facts about rows\<close>

lemma find_upd_first_same:
  "find P xs = Some x \<Longrightarrow> P (f x) \<Longrightarrow> find P (upd_first P f xs) = Some (f x)"
  by (induction xs) (auto split: if_splits)

lemma find_upd_first_none:
  "find P xs = None \<Longrightarrow> upd_first P f xs = xs"
  by (induction xs) (auto split: if_splits)

lemma find_upd_first_other:
  "(\<And>x. P x \<Longrightarrow> \<not> Q x \<and> \<not> Q (f x)) \<Longrightarrow> find Q (upd_first P f xs) = find Q xs"
  by (induction xs) (auto split: if_splits)

section \<open>The exponent of a double\<close>

lemma bitlen_pos: "0 < p \<Longrightarrow> 0 < bitlen p"
proof -
  assume "0 < p"
  moreover have "0 \<le> bitlen q" for q
    by (induction q rule: bitlen.induct) (subst bitlen.simps, simp)
  ultimately show ?thesis
    by (subst bitlen.simps) (simp add: add_pos_nonneg)
qed

lemma bitlen_bounds: "0 < p \<Longrightarrow> 2 ^ nat (bitlen p - 1) \<le> p \<and> p < 2 ^ nat (bitlen p)"
proof (induction p rule: bitlen.induct)
  case (1 p)
  show ?case
  proof (cases "p div 2 = 0")
    case True
    with 1 have "p = 1" by (simp add: div_eq_0_iff) 
    then show ?thesis by (simp add: bitlen.simps)
  next
    case False
    then have pos: "0 < p div 2" using 1(2) by (simp add: pos_imp_zdiv_pos_iff)
    define b where "b = nat (bitlen (p div 2))"
    have bl: "bitlen (p div 2) = int b" using bitlen_pos[OF pos] by (simp add: b_def)
    have ih: "2 ^ (b - 1) \<le> p div 2" "p div 2 < 2 ^ b"
    proof -
      have "nat (int b - 1) = b - 1" by simp
      then show "2 ^ (b - 1) \<le> p div 2" "p div 2 < 2 ^ b"
        using 1 pos by (simp_all add: bl)
    qed
    have bpos: "0 < b" using bitlen_pos[OF pos] by (simp add: b_def)
    have bn: "bitlen p = int b + 1"
      using 1(2) by (subst bitlen.simps) (simp add: bl)
    have "(2::int) ^ b = 2 * 2 ^ (b - 1)"
      using bpos by (cases b) simp_all
    then have lo: "2 ^ b \<le> p" using ih(1) by linarith
    have hi: "p < 2 * 2 ^ b" using ih(2) by linarith
    show ?thesis using lo hi by (simp add: bn nat_add_distrib)
  qed
qed

lemma pow2_powi: "pow2 e = 2 powi e"
  by (simp add: pow2_def power_int_def inverse_eq_divide power_one_over)

lemma pow2_mono: "e \<le> e' \<Longrightarrow> pow2 e \<le> pow2 e'"
  by (simp add: pow2_powi power_int_increasing)

lemma pow2_pos: "0 < pow2 e"
  by (simp add: pow2_powi)

lemma exponent_unique:
  assumes "pow2 e \<le> x" "x < pow2 (e + 1)" "pow2 e' \<le> x" "x < pow2 (e' + 1)"
  shows "e = e'"
proof (rule ccontr)
  assume "e \<noteq> e'"
  then consider "e + 1 \<le> e'" | "e' + 1 \<le> e" by linarith
  then show False
  proof cases
    case 1
    then have "pow2 (e + 1) \<le> pow2 e'" by (rule pow2_mono)
    with assms show False by linarith
  next
    case 2
    then have "pow2 (e' + 1) \<le> pow2 e" by (rule pow2_mono)
    with assms show False by linarith
  qed
qed

lemma ilog2_bounds:
  assumes "0 < x"
  shows "pow2 (ilog2 x) \<le> x \<and> x < pow2 (ilog2 x + 1)"
proof -
  obtain p q where pq: "quotient_of x = (p, q)" by (cases "quotient_of x")
  have qpos: "0 < q" using pq by (rule quotient_of_denom_pos)
  have xdiv: "x = of_int p / of_int q" using pq by (rule quotient_of_div)
  have ppos: "0 < p" using assms qpos xdiv by (simp add: zero_less_divide_iff)
  define a b where "a = nat (bitlen p)" and "b = nat (bitlen q)"
  define P Q :: rat where "P = of_int p" and "Q = of_int q"
  have xPQ: "x = P / Q" by (simp add: xdiv P_def Q_def)
  have apos: "0 < a" and bpos: "0 < b"
    using bitlen_pos[OF ppos] bitlen_pos[OF qpos] by (simp_all add: a_def b_def)
  have ba: "bitlen p = int a" and bb: "bitlen q = int b"
    using bitlen_pos[OF ppos] bitlen_pos[OF qpos] by (simp_all add: a_def b_def)
  have pred: "nat (int a - 1) = a - 1" "nat (int b - 1) = b - 1" by simp_all
  have Pb: "2 ^ (a - 1) \<le> p" "p < 2 ^ a"
    using bitlen_bounds[OF ppos] by (simp_all add: ba pred)
  have Qb: "2 ^ (b - 1) \<le> q" "q < 2 ^ b"
    using bitlen_bounds[OF qpos] by (simp_all add: bb pred)
  have Pr: "2 ^ (a - 1) \<le> P" "P < 2 ^ a"
    unfolding P_def using Pb
    by (metis of_int_le_iff of_int_numeral of_int_power, metis of_int_less_iff of_int_numeral of_int_power)
  have Qr: "2 ^ (b - 1) \<le> Q" "Q < 2 ^ b"
    unfolding Q_def using Qb
    by (metis of_int_le_iff of_int_numeral of_int_power, metis of_int_less_iff of_int_numeral of_int_power)
  have Qrpos: "0 < Q" using qpos by (simp add: Q_def)
  have a2: "(2::rat) ^ a = 2 * 2 ^ (a - 1)" using apos by (cases a) simp_all
  have b2: "(2::rat) ^ b = 2 * 2 ^ (b - 1)" using bpos by (cases b) simp_all
  define e0 where "e0 = int a - int b"
  have pe0: "pow2 e0 = 2 ^ a / 2 ^ b"
    by (simp add: pow2_powi e0_def power_int_diff)
  have pe1: "pow2 (e0 + 1) = 2 * pow2 e0"
    by (simp add: pow2_powi power_int_add)
  have pem: "pow2 (e0 - 1) = pow2 e0 / 2"
    by (simp add: pow2_powi power_int_diff)
  have up: "x < pow2 (e0 + 1)"
  proof -
    have "x * Q = P" using Qrpos by (simp add: xPQ)
    then have "x * 2 ^ (b - 1) \<le> P"
      using Qr(1) assms by (metis mult_left_mono less_imp_le)
    then have "x * 2 ^ (b - 1) < 2 ^ a" using Pr(2) by linarith
    then have "x * 2 ^ b < 2 * 2 ^ a" by (simp add: b2)
    then have "x < 2 * 2 ^ a / 2 ^ b" by (simp add: pos_less_divide_eq)
    then show ?thesis by (simp add: pe1 pe0)
  qed
  have lo: "pow2 (e0 - 1) < x"
  proof -
    have "x * Q = P" using Qrpos by (simp add: xPQ)
    moreover have "x * Q < x * 2 ^ b" using Qr(2) assms by (simp add: mult_strict_left_mono)
    ultimately have "2 ^ (a - 1) < x * 2 ^ b" using Pr(1) by linarith
    then have "2 ^ a < 2 * x * 2 ^ b" by (simp add: a2)
    then have "2 ^ a / 2 ^ b < 2 * x" by (simp add: pos_divide_less_eq)
    then show ?thesis by (simp add: pem pe0)
  qed
  have il: "ilog2 x = (if pow2 e0 \<le> x then e0 else e0 - 1)"
    by (simp add: ilog2_def pq Let_def e0_def ba bb)
  show ?thesis
  proof (cases "pow2 e0 \<le> x")
    case True
    then show ?thesis using up by (simp add: il)
  next
    case False
    then show ?thesis using lo by (simp add: il)
  qed
qed

lemma fl_exponent:
  assumes "pow2 e \<le> \<bar>x\<bar>" "\<bar>x\<bar> < pow2 (e + 1)"
  shows "fl x = (let u = pow2 (max e (- 1022) - 52) in of_int (round_even (x / u)) * u)"
proof -
  have "0 < \<bar>x\<bar>" using assms(1) pow2_pos[of e] by linarith
  then have nz: "x \<noteq> 0" by simp
  have "ilog2 \<bar>x\<bar> = e"
    using ilog2_bounds[OF \<open>0 < \<bar>x\<bar>\<close>] assms by (meson exponent_unique)
  then show ?thesis by (simp add: fl_def nz Let_def)
qed


lemma fl_zero: "fl 0 = 0"
  by (simp add: fl_def)

section \<open>The scenario, evaluated\<close>

lemma seeded_eq:
  "seeded = empty_store\<lparr>ambulances := map seed_ambulance ambulances_data\<rparr>"
  by (simp add: seeded_def initialize_sample_data_def empty_store_def)

lemma seeded_fleet: "ambulances seeded = a1 # map seed_ambulance (tl ambulances_data)"
  by (simp add: seeded_eq a1_def ambulances_data_def)

lemma a1_fields:
  "a_ambulance_id a1 = a1_id" "a_status a1 = ''Available''" "a_current_patient a1 = None"
  "a_mission_complete a1 = False"
  by (simp_all add: a1_def ambulances_data_def seed_ambulance_def a1_id_def)

lemma p1_created_eq:
  "p1_created = seeded\<lparr>patients := [p1],
     referrals := [\<lparr>r_patient_id = p1_id, r_status = ''Ambulance Dispatched'',
                     r_ambulance_id = None, r_created_by = Some ''Hospital Staff''\<rparr>]\<rparr>"
  by (simp add: p1_created_def create_referral_form_def required_fields_present_def p1_form_def hospital_row_def hospitals_data_def create_referral_def add_patient_def form_patient_data_def seeded_eq empty_store_def add_referral_def p1_id_def p1_def Let_def)

lemma p1_assigned_eq:
  "p1_assigned = p1_created\<lparr>
     patients := [p1\<lparr>p_assigned_ambulance := Some a1_id, p_status := ''Ambulance Assigned''\<rparr>],
     ambulances := a1\<lparr>a_status := ''On Transfer'', a_current_patient := Some p1_id\<rparr>
                     # map seed_ambulance (tl ambulances_data)\<rparr>"
  by (simp add: p1_assigned_def assign_ambulance_def get_patient_by_id_def p1_created_eq
      upd_patient_def update_ambulance_status_def get_ambulance_def upd_ambulance_def
      seeded_fleet a1_fields set_status_def assign_patient_def p1_def p1_id_def)

section \<open>Looking up and rewriting one ambulance\<close>

lemma set_status_None: "set_status st None = (\<lambda>a. a\<lparr>a_status := st\<rparr>)"
  by (rule ext) (simp add: set_status_def)

lemma get_ambulance_upd_same:
  "get_ambulance aid s = Some a \<Longrightarrow> a_ambulance_id (f a) = aid \<Longrightarrow>
   get_ambulance aid (upd_ambulance aid f s) = Some (f a)"
  by (simp add: get_ambulance_def upd_ambulance_def find_upd_first_same)

lemma get_ambulance_id: "get_ambulance aid s = Some a \<Longrightarrow> a_ambulance_id a = aid"
  by (auto simp: get_ambulance_def find_Some_iff)

lemma upd_ambulance_absent: "get_ambulance aid s = None \<Longrightarrow> upd_ambulance aid f s = s"
  by (simp add: get_ambulance_def upd_ambulance_def find_upd_first_none)

lemma a1_assigned:
  "get_ambulance a1_id p1_assigned = Some (a1\<lparr>a_status := ''On Transfer'', a_current_patient := Some p1_id\<rparr>)"
  by (simp add: p1_assigned_eq get_ambulance_def a1_fields)

section \<open>What an assignment writes\<close>

lemma get_patient_upd_same:
  "get_patient_by_id pid s = Some p \<Longrightarrow> p_patient_id (f p) = pid \<Longrightarrow>
   get_patient_by_id pid (upd_patient pid f s) = Some (f p)"
  by (simp add: get_patient_by_id_def upd_patient_def find_upd_first_same)

lemma get_patient_id: "get_patient_by_id pid s = Some p \<Longrightarrow> p_patient_id p = pid"
  by (auto simp: get_patient_by_id_def find_Some_iff)

lemma get_patient_upd_other:
  "pid' \<noteq> pid \<Longrightarrow> (\<And>p. p_patient_id (f p) = p_patient_id p) \<Longrightarrow>
   get_patient_by_id pid' (upd_patient pid f s) = get_patient_by_id pid' s"
  unfolding get_patient_by_id_def upd_patient_def
  by (simp, rule find_upd_first_other) simp

lemma upd_patient_frame [simp]:
  "ambulances (upd_patient pid f s) = ambulances s"
  "referrals (upd_patient pid f s) = referrals s"
  "handover_forms (upd_patient pid f s) = handover_forms s"
  "communications (upd_patient pid f s) = communications s"
  "location_updates (upd_patient pid f s) = location_updates s"
  by (simp_all add: upd_patient_def)

lemma upd_ambulance_frame [simp]:
  "patients (upd_ambulance aid f s) = patients s"
  "referrals (upd_ambulance aid f s) = referrals s"
  "handover_forms (upd_ambulance aid f s) = handover_forms s"
  "communications (upd_ambulance aid f s) = communications s"
  "location_updates (upd_ambulance aid f s) = location_updates s"
  by (simp_all add: upd_ambulance_def)

lemma get_ambulance_upd_patient [simp]:
  "get_ambulance aid (upd_patient pid f s) = get_ambulance aid s"
  by (simp add: get_ambulance_def)

lemma get_patient_upd_ambulance [simp]:
  "get_patient_by_id pid (upd_ambulance aid f s) = get_patient_by_id pid s"
  by (simp add: get_patient_by_id_def)

lemma update_ambulance_status_frame [simp]:
  "patients (update_ambulance_status aid st patient_id s) = patients s"
  "get_patient_by_id pid (update_ambulance_status aid st patient_id s) = get_patient_by_id pid s"
  by (simp_all add: update_ambulance_status_def split: option.splits)

lemma update_ambulance_status_absent:
  "get_ambulance aid s = None \<Longrightarrow> update_ambulance_status aid st patient_id s = s"
  by (simp add: update_ambulance_status_def)

lemma update_ambulance_status_present:
  "get_ambulance aid s = Some a \<Longrightarrow>
   get_ambulance aid (update_ambulance_status aid st patient_id s) = Some (set_status st patient_id a)"
  by (simp add: update_ambulance_status_def get_ambulance_upd_same get_ambulance_id set_status_def Let_def)

lemma assign_unknown_patient:
  "get_patient_by_id pid s = None \<Longrightarrow> assign_ambulance pid aid s = (False, s)"
  by (simp add: assign_ambulance_def)

lemma assign_known_patient:
  assumes "get_patient_by_id pid s = Some p"
  shows "fst (assign_ambulance pid aid s)"
    and "get_patient_by_id pid (snd (assign_ambulance pid aid s)) = Some (assign_patient aid p)"
    and "get_ambulance aid s = None \<Longrightarrow> ambulances (snd (assign_ambulance pid aid s)) = ambulances s"
    and "get_ambulance aid s = None \<Longrightarrow> get_ambulance aid (snd (assign_ambulance pid aid s)) = None"
    and "get_ambulance aid s = Some a \<Longrightarrow>
           get_ambulance aid (snd (assign_ambulance pid aid s)) = Some (set_status ''On Transfer'' (Some pid) a)"
  using assms get_patient_id[OF assms]
  by (simp_all add: assign_ambulance_def get_patient_upd_same assign_patient_def
      update_ambulance_status_absent update_ambulance_status_present)

lemma p1_in_created: "get_patient_by_id p1_id p1_created = Some p1"
  by (simp add: p1_created_eq get_patient_by_id_def p1_def)

lemma a1_in_created: "get_ambulance a1_id p1_created = Some a1"
  by (simp add: p1_created_eq get_ambulance_def seeded_fleet a1_fields)

lemma no_kzz_in_created: "get_ambulance ''KZZ 000Z'' p1_created = None"
  by (simp add: p1_created_eq get_ambulance_def seeded_eq ambulances_data_def seed_ambulance_def)

lemma no_patient_in_seeded: "get_patient_by_id pid seeded = None"
  by (simp add: get_patient_by_id_def seeded_eq empty_store_def)

lemma set_status_Some:
  "patient_id \<noteq> [] \<Longrightarrow>
   set_status st (Some patient_id) a = a\<lparr>a_status := st, a_current_patient := Some patient_id\<rparr>"
  by (simp add: set_status_def Let_def)

lemma assign_keeps_other_patient:
  "pid' \<noteq> pid \<Longrightarrow>
   get_patient_by_id pid' (snd (assign_ambulance pid aid s)) = get_patient_by_id pid' s"
  by (simp add: assign_ambulance_def get_patient_upd_other assign_patient_def split: option.splits)

lemma filter_set_conv: "set (filter P xs) = {x \<in> set xs. P x}"
  by auto

lemma p1_assigned_rows:
  "patients p1_assigned = [p1\<lparr>p_assigned_ambulance := Some a1_id, p_status := ''Ambulance Assigned''\<rparr>]"
  "ambulances p1_assigned = a1\<lparr>a_status := ''On Transfer'', a_current_patient := Some p1_id\<rparr>
                     # map seed_ambulance (tl ambulances_data)"
  by (simp_all add: p1_assigned_eq)

lemma p2_created_eq:
  "p2_created = p1_assigned\<lparr>patients := patients p1_assigned @ [p2],
     referrals := referrals p1_assigned @
       [\<lparr>r_patient_id = p2_id, r_status = ''Ambulance Dispatched'',
         r_ambulance_id = None, r_created_by = Some ''Hospital Staff''\<rparr>]\<rparr>"
  by (simp add: p2_created_def create_referral_form_def required_fields_present_def p2_form_def
      p1_form_def hospital_row_def hospitals_data_def create_referral_def add_patient_def
      form_patient_data_def add_referral_def p1_assigned_rows p2_id_def p2_def p1_def p1_id_def Let_def)

lemma p2_created_rows:
  "get_patient_by_id p1_id p2_created
     = Some (p1\<lparr>p_assigned_ambulance := Some a1_id, p_status := ''Ambulance Assigned''\<rparr>)"
  "get_patient_by_id p2_id p2_created = Some p2"
  "get_ambulance a1_id p2_created
     = Some (a1\<lparr>a_status := ''On Transfer'', a_current_patient := Some p1_id\<rparr>)"
  by (simp_all add: p2_created_eq p1_assigned_rows get_patient_by_id_def get_ambulance_def
      a1_fields p1_def p2_def p1_id_def p2_id_def)

lemma scenario_ids: "p1_id \<noteq> []" "p2_id \<noteq> []" "p1_id \<noteq> p2_id" "p2_id \<noteq> p1_id"
  by (simp_all add: p1_id_def p2_id_def)

section \<open>The link between an ambulance and its patient\<close>

lemma list_all_upd_first:
  "list_all P xs \<Longrightarrow> (\<And>a. find Q xs = Some a \<Longrightarrow> P a \<Longrightarrow> P (f a)) \<Longrightarrow>
   list_all P (upd_first Q f xs)"
  by (induction xs) (auto split: if_splits)

lemma amb_inv_upd:
  "amb_inv s \<Longrightarrow> (\<And>a. get_ambulance aid s = Some a \<Longrightarrow> amb_ok a \<Longrightarrow> amb_ok (f a)) \<Longrightarrow>
   amb_inv (upd_ambulance aid f s)"
  unfolding amb_inv_def upd_ambulance_def get_ambulance_def
  by (simp add: list_all_upd_first)

lemma amb_inv_cong: "ambulances s' = ambulances s \<Longrightarrow> amb_inv s' = amb_inv s"
  by (simp add: amb_inv_def)

lemma add_frame [simp]:
  "ambulances (add_communication c s) = ambulances s"
  "patients (add_communication c s) = patients s"
  "ambulances (add_location_update l s) = ambulances s"
  "patients (add_location_update l s) = patients s"
  "ambulances (add_handover_form h s) = ambulances s"
  "patients (add_handover_form h s) = patients s"
  "ambulances (add_referral r s) = ambulances s"
  "patients (add_referral r s) = patients s"
  by (simp_all add: add_communication_def add_location_update_def add_handover_form_def
      add_referral_def)

lemma create_referral_form_result:
  assumes "create_referral_form role token f s = Inr (p, s')"
  shows "ambulances s' = ambulances s"
    and "patients s' = patients s @ [p]"
    and "p_referring_hospital p = f_referring_hospital f"
    and "p_receiving_hospital p = f_receiving_hospital f"
    and "f_referring_hospital f \<noteq> f_receiving_hospital f"
    and "required_fields_present f"
    and "p_status p = ''Referred''"
    and "p_patient_id p = ''PAT'' @ token"
  using assms
  by (auto simp: create_referral_form_def create_referral_def add_patient_def Let_def
      form_patient_data_def split: if_splits sum.splits option.splits prod.splits)

lemma create_handover_form_result:
  assumes "create_handover_form role user_hospital k i s = Inr (out, s')"
  shows "ambulances s' = ambulances s"
  using assms
  by (auto simp: create_handover_form_def Let_def split: if_splits option.splits)

lemma exec_keeps_ambulances:
  "ambulances (exec (CreateReferral role token f) s) = ambulances s"
  "ambulances (exec (UpdateStatus pid st) s) = ambulances s"
  "ambulances (exec (UpdateVitals pid v now) s) = ambulances s"
  "ambulances (exec (Handover role user_hospital k i) s) = ambulances s"
  "ambulances (exec (SendMessage c) s) = ambulances s"
  by (auto simp: update_status_def update_vitals_def create_referral_form_result(1)
      create_handover_form_result split: sum.splits option.splits)

lemma amb_ok_simps:
  "amb_ok (a\<lparr>a_status := ''Available'', a_current_patient := None\<rparr>)"
  "amb_ok (a\<lparr>a_status := ''Available'', a_current_patient := None, a_mission_complete := b\<rparr>)"
  "amb_ok (a\<lparr>a_current_patient := Some pid, a_status := ''On Transfer''\<rparr>)"
  "amb_ok (a\<lparr>a_status := ''On Transfer'', a_current_patient := Some pid\<rparr>)"
  "amb_ok (a\<lparr>a_latitude := x, a_longitude := y, a_current_location := z\<rparr>) = amb_ok a"
  "a_current_patient a = None \<Longrightarrow> amb_ok (a\<lparr>a_status := ''On Break''\<rparr>)"
  "a_current_patient a = None \<Longrightarrow> amb_ok (a\<lparr>a_status := ''Maintenance''\<rparr>)"
  by (simp_all add: amb_ok_def)

lemma amb_inv_assign:
  "amb_inv s \<Longrightarrow> pid \<noteq> [] \<Longrightarrow> amb_inv (snd (assign_ambulance pid aid s))"
proof -
  assume inv: "amb_inv s" and ne: "pid \<noteq> []"
  have "amb_inv (update_ambulance_status aid ''On Transfer'' (Some pid) s')"
    if "amb_inv s'" for s'
    using that ne
    by (auto simp: update_ambulance_status_def set_status_def Let_def amb_ok_simps
        intro!: amb_inv_upd split: option.splits)
  moreover have "amb_inv (upd_patient pid (assign_patient aid) s)"
    using inv by (simp add: amb_inv_def)
  ultimately show ?thesis
    using inv by (simp add: assign_ambulance_def split: option.splits)
qed

lemma amb_inv_location:
  "amb_inv s \<Longrightarrow> amb_inv (snd (update_ambulance_location aid lat lng nm patient_id s))"
  by (auto simp: update_ambulance_location_def amb_inv_cong[of "add_location_update _ _"]
      amb_ok_simps intro!: amb_inv_upd split: option.splits)

lemma amb_inv_accept: "amb_inv s \<Longrightarrow> amb_inv (accept_mission aid pid s)"
  by (auto simp: accept_mission_def amb_inv_cong[of "upd_patient _ _ _"] amb_ok_simps
      intro!: amb_inv_upd split: option.splits)

lemma amb_inv_complete: "amb_inv s \<Longrightarrow> amb_inv (complete_mission aid p s)"
  by (auto simp: complete_mission_def Let_def amb_inv_cong[of "add_communication _ _"]
      amb_inv_cong[of "upd_patient _ _ _"] amb_ok_simps intro!: amb_inv_upd)

lemma amb_inv_delivered: "amb_inv s \<Longrightarrow> amb_inv (mark_patient_delivered aid s)"
  by (auto simp: mark_patient_delivered_def amb_inv_complete split: option.splits)

lemma amb_inv_release: "amb_inv s \<Longrightarrow> amb_inv (upd_ambulance aid release s)"
  by (auto simp: release_def amb_ok_simps intro!: amb_inv_upd)

lemma amb_inv_break:
  "amb_inv s \<Longrightarrow> has_no_patient aid s \<Longrightarrow> amb_inv (mark_on_break aid s)"
  "amb_inv s \<Longrightarrow> has_no_patient aid s \<Longrightarrow> amb_inv (mark_maintenance aid s)"
  by (auto simp: mark_on_break_def mark_maintenance_def has_no_patient_def amb_ok_simps
      intro!: amb_inv_upd)

lemma amb_inv_exec_frame:
  "amb_inv (exec (CreateReferral role token f) s) = amb_inv s"
  "amb_inv (exec (UpdateStatus pid st) s) = amb_inv s"
  "amb_inv (exec (UpdateVitals pid v now) s) = amb_inv s"
  "amb_inv (exec (Handover role user_hospital k i) s) = amb_inv s"
  "amb_inv (exec (SendMessage c) s) = amb_inv s"
  by (rule amb_inv_cong, rule exec_keeps_ambulances)+

lemma amb_inv_exec: "amb_inv s \<Longrightarrow> keeps_link x s \<Longrightarrow> amb_inv (exec x s)"
proof (cases x)
  case (SimulatorTick aid pid a b c d k)
  assume "amb_inv s"
  then show ?thesis
    by (simp add: SimulatorTick sim_tick_def amb_inv_location)
next
  case (SimulatorRelease aid)
  assume "amb_inv s"
  then show ?thesis
    by (simp add: SimulatorRelease sim_finish_def amb_inv_release split: option.splits)
qed (simp_all add: amb_inv_exec_frame amb_inv_assign amb_inv_location amb_inv_accept
      amb_inv_delivered amb_inv_release amb_inv_break mark_available_def
      del: exec.simps(1,3,4,5,12))

lemma amb_inv_run: "amb_inv s \<Longrightarrow> all_keep_link xs s \<Longrightarrow> amb_inv (run xs s)"
  by (induction xs arbitrary: s) (simp_all add: amb_inv_exec)

lemma amb_inv_seeded: "amb_inv seeded"
  by (simp add: amb_inv_def seeded_eq ambulances_data_def seed_ambulance_def amb_ok_def)

lemma run_p1_assigned:
  "run [CreateReferral ''Hospital Staff'' ''0A1B2C3D'' p1_form, AssignAmbulance p1_id a1_id] seeded
     = p1_assigned"
  by (simp add: p1_assigned_def p1_created_def)

lemma run_append: "run (xs @ ys) s = run ys (run xs s)"
  by (induction xs arbitrary: s) simp_all

lemma amb_inv_p1_assigned: "amb_inv p1_assigned"
  by (simp add: amb_inv_def p1_assigned_rows ambulances_data_def seed_ambulance_def amb_ok_def)

lemma released_eq:
  "mark_available a1_id p1_assigned = p1_assigned\<lparr>ambulances := a1 # map seed_ambulance (tl ambulances_data)\<rparr>"
  by (simp add: mark_available_def upd_ambulance_def p1_assigned_rows a1_fields release_def)

section \<open>The two hospitals of a patient\<close>

lemma hospitals_differ_upd:
  "hospitals_differ s \<Longrightarrow>
   (\<And>p. p_referring_hospital (f p) = p_referring_hospital p
         \<and> p_receiving_hospital (f p) = p_receiving_hospital p) \<Longrightarrow>
   hospitals_differ (upd_patient pid f s)"
  unfolding hospitals_differ_def upd_patient_def
  by (simp add: list_all_upd_first)

lemma hospitals_differ_frame [simp]:
  "hospitals_differ (upd_ambulance aid g s) = hospitals_differ s"
  "hospitals_differ (add_communication c s) = hospitals_differ s"
  "hospitals_differ (add_location_update l s) = hospitals_differ s"
  "hospitals_differ (add_handover_form h s) = hospitals_differ s"
  "hospitals_differ (add_referral r s) = hospitals_differ s"
  "hospitals_differ (update_ambulance_status aid st patient_id s) = hospitals_differ s"
  by (simp_all add: hospitals_differ_def)

lemma hospitals_differ_create:
  "hospitals_differ s \<Longrightarrow> hospitals_differ (exec (CreateReferral role token f) s)"
  by (auto simp: hospitals_differ_def create_referral_form_result split: sum.splits)

lemma hospitals_differ_assign:
  "hospitals_differ s \<Longrightarrow> hospitals_differ (snd (assign_ambulance pid aid s))"
  by (simp add: assign_ambulance_def assign_patient_def hospitals_differ_upd split: option.splits)

lemma hospitals_differ_status:
  "hospitals_differ s \<Longrightarrow> hospitals_differ (update_status pid st s)"
  by (simp add: update_status_def hospitals_differ_upd)

lemma hospitals_differ_vitals:
  "hospitals_differ s \<Longrightarrow> hospitals_differ (update_vitals pid v now s)"
  by (simp add: update_vitals_def hospitals_differ_upd split: option.splits)

lemma hospitals_differ_handover:
  "hospitals_differ s \<Longrightarrow> hospitals_differ (exec (Handover role uh k i) s)"
  by (simp add: create_handover_form_def Let_def hospitals_differ_upd split: option.splits)

lemma hospitals_differ_location:
  "hospitals_differ s \<Longrightarrow> hospitals_differ (snd (update_ambulance_location aid lat lng nm pid s))"
  by (simp add: update_ambulance_location_def split: option.splits)

lemma hospitals_differ_accept:
  "hospitals_differ s \<Longrightarrow> hospitals_differ (accept_mission aid pid s)"
  by (simp add: accept_mission_def hospitals_differ_upd split: option.splits)

lemma hospitals_differ_complete:
  "hospitals_differ s \<Longrightarrow> hospitals_differ (complete_mission aid p s)"
  by (simp add: complete_mission_def Let_def hospitals_differ_upd)

lemma hospitals_differ_delivered:
  "hospitals_differ s \<Longrightarrow> hospitals_differ (mark_patient_delivered aid s)"
  by (simp add: mark_patient_delivered_def hospitals_differ_complete split: option.splits)

lemma hospitals_differ_exec: "hospitals_differ s \<Longrightarrow> hospitals_differ (exec x s)"
proof (cases x)
  case (SimulatorTick aid pid a b c d k)
  assume "hospitals_differ s"
  then show ?thesis
    by (simp add: SimulatorTick sim_tick_def hospitals_differ_location)
next
  case (SimulatorRelease aid)
  assume "hospitals_differ s"
  then show ?thesis
    by (simp add: SimulatorRelease sim_finish_def split: option.splits)
qed (simp_all add: hospitals_differ_create hospitals_differ_assign hospitals_differ_status
      hospitals_differ_vitals hospitals_differ_handover hospitals_differ_location
      hospitals_differ_accept hospitals_differ_delivered
      mark_available_def mark_on_break_def mark_maintenance_def
      del: exec.simps(1,5))

lemma hospitals_differ_run: "hospitals_differ s \<Longrightarrow> hospitals_differ (run xs s)"
  by (induction xs arbitrary: s) (simp_all add: hospitals_differ_exec)

lemma p1_form_result:
  "create_referral_form ''Hospital Staff'' ''0A1B2C3D'' p1_form seeded = Inr (p1, p1_created)"
  by (simp add: p1_created_eq create_referral_form_def required_fields_present_def p1_form_def hospital_row_def hospitals_data_def create_referral_def add_patient_def form_patient_data_def seeded_eq empty_store_def add_referral_def p1_id_def p1_def Let_def)

section \<open>The handover form\<close>

lemma upd_first_distinct:
  "distinct (map key xs) \<Longrightarrow>
   upd_first (\<lambda>x. key x = k) f xs = map (\<lambda>x. if key x = k then f x else x) xs"
proof (induction xs)
  case Nil
  then show ?case by simp
next
  case (Cons x xs)
  show ?case
  proof (cases "key x = k")
    case True
    then have "\<forall>y \<in> set xs. key y \<noteq> k" using Cons.prems by (auto simp: image_iff)
    then have "map (\<lambda>x. if key x = k then f x else x) xs = xs"
      by (induction xs) auto
    with True show ?thesis by simp
  next
    case False
    then show ?thesis using Cons by simp
  qed
qed

lemma map_of_options:
  "map_of (patient_options ps) k = Some p \<Longrightarrow> p \<in> set ps \<and> patient_key p = k"
  by (auto simp: patient_options_def dest!: map_of_SomeD)

lemma eligible_subset:
  "p \<in> set (eligible_patients uh s) \<Longrightarrow>
   p \<in> set (patients s) \<and> p_status p = ''Arrived at Destination''
   \<and> (uh = ''All Facilities'' \<or> p_receiving_hospital p = uh)"
  by (auto simp: eligible_patients_def split: if_splits)

lemma p1_arrived_rows:
  "patients p1_arrived
     = [p1\<lparr>p_assigned_ambulance := Some a1_id, p_status := ''Arrived at Destination''\<rparr>]"
  "handover_forms p1_arrived = []"
  by (simp_all add: p1_arrived_def mark_patient_delivered_def get_ambulance_def
      p1_assigned_rows a1_fields scenario_ids get_patient_by_id_def complete_mission_def
      Let_def upd_patient_def add_communication_def upd_ambulance_def p1_def p1_assigned_eq
      p1_created_eq seeded_eq empty_store_def)

lemma p1_handover_result:
  "create_handover_form ''Admin'' ''All Facilities'' ''PAT0A1B2C3D - P1'' p1_handover p1_arrived
     = Inr (HandoverCompleted,
            upd_patient p1_id
              (\<lambda>p. p\<lparr>p_status := ''Completed'', p_receiving_physician := Some ''Dr B''\<rparr>)
              (add_handover_form
                 (handover_data
                    (p1\<lparr>p_assigned_ambulance := Some a1_id, p_status := ''Arrived at Destination''\<rparr>)
                    p1_handover ''Admin'') p1_arrived))"
  by (simp add: create_handover_form_def eligible_patients_def p1_arrived_rows Let_def
      patient_options_def patient_key_def p1_handover_def)
     (simp add: p1_def p1_id_def)

section \<open>The loop of the simulator\<close>

lemma sim_loop_stopped: "\<not> running w \<Longrightarrow> sim_loop env tick xs w = w"
  by (cases xs) simp_all

lemma sim_finish_stopped: "\<not> running w \<Longrightarrow> sim_finish aid w = w"
  by (simp add: sim_finish_def)

lemma sim_loop_append:
  "sim_loop env tick (xs @ ys) w = sim_loop env tick ys (sim_loop env tick xs w)"
  by (induction xs arbitrary: w) (simp_all add: sim_loop_stopped)

lemma sim_loop_cong:
  "(\<And>k w. k \<in> set xs \<Longrightarrow> env k w = env' k w) \<Longrightarrow> sim_loop env tick xs w = sim_loop env' tick xs w"
  by (induction xs arbitrary: w) simp_all

lemma sim_tick_running [simp]:
  "running (sim_tick aid pid a b c d k w) = running w"
  by (simp add: sim_tick_def)

lemma update_location_present:
  "get_ambulance aid s = Some a \<Longrightarrow>
   snd (update_ambulance_location aid lat lng nm patient_id s)
     = add_location_update
         \<lparr>l_ambulance_id = aid, l_latitude = lat, l_longitude = lng,
          l_location_name = nm, l_patient_id = patient_id\<rparr>
         (upd_ambulance aid
            (\<lambda>a. a\<lparr>a_latitude := Some lat, a_longitude := Some lng,
                    a_current_location := Some nm\<rparr>) s)"
  by (simp add: update_ambulance_location_def)

lemma get_ambulance_add_location [simp]:
  "get_ambulance aid (add_location_update l s) = get_ambulance aid s"
  by (simp add: get_ambulance_def)

lemma location_updates_add [simp]:
  "location_updates (add_location_update l s) = location_updates s @ [l]"
  by (simp add: add_location_update_def)

lemma sim_tick_present:
  assumes "get_ambulance aid (db w) = Some a"
  shows "location_updates (db (sim_tick aid pid a0 b0 c0 d0 k w))
           = location_updates (db w) @ [sample aid pid a0 b0 c0 d0 k]"
    and "get_ambulance aid (db (sim_tick aid pid a0 b0 c0 d0 k w))
           = Some (a\<lparr>a_latitude := Some (position a0 c0 k),
                     a_longitude := Some (position b0 d0 k),
                     a_current_location := Some (step_label k)\<rparr>)"
    and "patients (db (sim_tick aid pid a0 b0 c0 d0 k w)) = patients (db w)"
  using assms get_ambulance_id[OF assms]
  by (simp_all add: sim_tick_def update_location_present sample_def get_ambulance_upd_same)

lemma undisturbed_loop:
  assumes "running w" "get_ambulance aid (db w) = Some a"
  shows "running (sim_loop undisturbed (sim_tick aid pid a0 b0 c0 d0) xs w)
     \<and> location_updates (db (sim_loop undisturbed (sim_tick aid pid a0 b0 c0 d0) xs w))
         = location_updates (db w) @ map (sample aid pid a0 b0 c0 d0) xs
     \<and> patients (db (sim_loop undisturbed (sim_tick aid pid a0 b0 c0 d0) xs w)) = patients (db w)
     \<and> (\<exists>a'. get_ambulance aid (db (sim_loop undisturbed (sim_tick aid pid a0 b0 c0 d0) xs w)) = Some a'
           \<and> link_of a' = link_of a)"
  using assms
proof (induction xs arbitrary: w a)
  case Nil
  then show ?case by simp
next
  case (Cons k xs)
  let ?w = "sim_tick aid pid a0 b0 c0 d0 k w"
  let ?a = "a\<lparr>a_latitude := Some (position a0 c0 k), a_longitude := Some (position b0 d0 k),
               a_current_location := Some (step_label k)\<rparr>"
  have r: "running ?w" using Cons.prems by simp
  have g: "get_ambulance aid (db ?w) = Some ?a" using Cons.prems by (simp add: sim_tick_present)
  have l: "link_of ?a = link_of a" by (simp add: link_of_def)
  from Cons.IH[OF r g] show ?case
    using Cons.prems by (simp add: undisturbed_def sim_tick_present l)
qed

lemma upt_split: "j \<le> n \<Longrightarrow> [0..<Suc n] = [0..<j] @ j # [Suc j..<Suc n]"
proof -
  assume j: "j \<le> n"
  have "[0..<j + (Suc n - j)] = [0..<j] @ [j..<j + (Suc n - j)]"
    by (rule upt_add_eq_append) simp
  moreover have "j + (Suc n - j) = Suc n" using j by simp
  ultimately have "[0..<Suc n] = [0..<j] @ [j..<Suc n]" by simp
  moreover have "[j..<Suc n] = j # [Suc j..<Suc n]"
    using j by (simp add: upt_conv_Cons)
  ultimately show ?thesis by simp
qed

lemma upt_split2: "k \<le> n \<Longrightarrow> [0..<n] = [0..<k] @ [k..<n]"
proof -
  assume k: "k \<le> n"
  have "[0..<k + (n - k)] = [0..<k] @ [k..<k + (n - k)]"
    by (rule upt_add_eq_append) simp
  then show ?thesis using k by simp
qed

lemma stopped_run_eq:
  assumes "j \<le> steps" "get_ambulance aid (db w) = Some a"
  shows "start_simulation (stop_after j) aid pid a0 b0 c0 d0 w
     = stop_simulation (sim_tick aid pid a0 b0 c0 d0 j
         (sim_loop undisturbed (sim_tick aid pid a0 b0 c0 d0) [0..<j] (w\<lparr>running := True\<rparr>)))"
proof -
  let ?tick = "sim_tick aid pid a0 b0 c0 d0"
  let ?w0 = "w\<lparr>running := True\<rparr>"
  define w1 where "w1 = sim_loop undisturbed ?tick [0..<j] ?w0"
  define rest where "rest = [Suc j..<Suc steps]"
  have split: "[0..<steps + 1] = [0..<j] @ j # rest"
    using upt_split[OF assms(1)] by (simp add: rest_def del: upt.simps)
  have pre: "sim_loop (stop_after j) ?tick [0..<j] ?w0 = w1"
    unfolding w1_def by (rule sim_loop_cong) (simp add: stop_after_def undisturbed_def)
  have r0: "running ?w0" and g0: "get_ambulance aid (db ?w0) = Some a"
    using assms(2) by simp_all
  have r1: "running w1"
    using undisturbed_loop[OF r0 g0, of pid a0 b0 c0 d0 "[0..<j]"] unfolding w1_def by blast
  have step: "sim_loop (stop_after j) ?tick (j # rest) w1 = stop_simulation (?tick j w1)"
    using r1 by (simp add: stop_after_def sim_loop_stopped stop_simulation_def)
  have "start_simulation (stop_after j) aid pid a0 b0 c0 d0 w
      = sim_finish aid (sim_loop (stop_after j) ?tick (j # rest) w1)"
    unfolding start_simulation_def split sim_loop_append pre ..
  also have "\<dots> = stop_simulation (?tick j w1)"
    unfolding step by (simp add: sim_finish_stopped stop_simulation_def)
  finally show ?thesis unfolding w1_def .
qed

lemma stopped_run:
  assumes "j \<le> steps" "get_ambulance aid (db w) = Some a"
  shows "\<not> running (start_simulation (stop_after j) aid pid a0 b0 c0 d0 w)"
    and "location_updates (db (start_simulation (stop_after j) aid pid a0 b0 c0 d0 w))
           = location_updates (db w) @ map (sample aid pid a0 b0 c0 d0) [0..<Suc j]"
    and "patients (db (start_simulation (stop_after j) aid pid a0 b0 c0 d0 w)) = patients (db w)"
    and "\<exists>a'. get_ambulance aid (db (start_simulation (stop_after j) aid pid a0 b0 c0 d0 w)) = Some a'
           \<and> link_of a' = link_of a"
proof -
  let ?tick = "sim_tick aid pid a0 b0 c0 d0"
  let ?w0 = "w\<lparr>running := True\<rparr>"
  define w1 where "w1 = sim_loop undisturbed ?tick [0..<j] ?w0"
  have r0: "running ?w0" and g0: "get_ambulance aid (db ?w0) = Some a"
    using assms(2) by simp_all
  from undisturbed_loop[OF r0 g0, of pid a0 b0 c0 d0 "[0..<j]"]
  obtain a1 where w1: "running w1"
      "location_updates (db w1) = location_updates (db w) @ map (sample aid pid a0 b0 c0 d0) [0..<j]"
      "patients (db w1) = patients (db w)"
      "get_ambulance aid (db w1) = Some a1" "link_of a1 = link_of a"
    unfolding w1_def by auto
  have fin: "start_simulation (stop_after j) aid pid a0 b0 c0 d0 w = stop_simulation (?tick j w1)"
    unfolding w1_def by (rule stopped_run_eq[OF assms])
  have db: "db (stop_simulation (?tick j w1)) = db (?tick j w1)"
    by (simp add: stop_simulation_def)
  show "\<not> running (start_simulation (stop_after j) aid pid a0 b0 c0 d0 w)"
    unfolding fin by (simp add: stop_simulation_def)
  show "location_updates (db (start_simulation (stop_after j) aid pid a0 b0 c0 d0 w))
           = location_updates (db w) @ map (sample aid pid a0 b0 c0 d0) [0..<Suc j]"
    unfolding fin db sim_tick_present(1)[OF w1(4)] w1(2) by simp
  show "patients (db (start_simulation (stop_after j) aid pid a0 b0 c0 d0 w)) = patients (db w)"
    unfolding fin db sim_tick_present(3)[OF w1(4)] w1(3) ..
  show "\<exists>a'. get_ambulance aid (db (start_simulation (stop_after j) aid pid a0 b0 c0 d0 w)) = Some a'
           \<and> link_of a' = link_of a"
    unfolding fin db sim_tick_present(2)[OF w1(4)] using w1(5) by (simp add: link_of_def)
qed

lemma a1_idle:
  "get_ambulance a1_id (db idle)
     = Some (a1\<lparr>a_status := ''On Transfer'', a_current_patient := Some p1_id\<rparr>)"
  by (simp add: idle_def p2_created_rows)

lemma idle_rows:
  "patients (db idle) = [p1\<lparr>p_assigned_ambulance := Some a1_id, p_status := ''Ambulance Assigned''\<rparr>, p2]"
  "ambulances (db idle) = a1\<lparr>a_status := ''On Transfer'', a_current_patient := Some p1_id\<rparr>
                     # map seed_ambulance (tl ambulances_data)"
  by (simp_all add: idle_def p2_created_eq p1_assigned_rows)

lemma steps_list:
  "[0..<steps + 1] = [0, 1, 2, 3, 4, 5, 6, 7, 8, 9, 10, 11, 12, 13, 14, 15, 16, 17, 18, 19, 20]"
  unfolding steps_def by code_simp

lemma last_step:
  "get_ambulance a1_id
     (db (sim_loop delivered_then_next (sim_tick a1_id p1_id from_lat from_lng to_lat to_lng)
            [0..<steps + 1] (idle\<lparr>running := True\<rparr>)))
   = Some (a1\<lparr>a_latitude := Some (position from_lat to_lat 20),
               a_longitude := Some (position from_lng to_lng 20),
               a_current_location := Some (step_label 20),
               a_status := ''On Transfer'', a_current_patient := Some p2_id,
               a_mission_complete := True\<rparr>)"
  "running (sim_loop delivered_then_next (sim_tick a1_id p1_id from_lat from_lng to_lat to_lng)
            [0..<steps + 1] (idle\<lparr>running := True\<rparr>))"
  "get_patient_by_id p2_id
     (db (sim_loop delivered_then_next (sim_tick a1_id p1_id from_lat from_lng to_lat to_lng)
            [0..<steps + 1] (idle\<lparr>running := True\<rparr>)))
   = Some (p2\<lparr>p_assigned_ambulance := Some a1_id, p_status := ''Ambulance Dispatched''\<rparr>)"
  unfolding steps_list
  by (simp_all add: delivered_then_next_def sim_tick_def
      update_ambulance_location_def get_ambulance_def idle_rows a1_fields upd_ambulance_def
      add_location_update_def mark_patient_delivered_def scenario_ids get_patient_by_id_def
      complete_mission_def Let_def upd_patient_def add_communication_def accept_mission_def
      available_missions_def p1_def p2_def p1_id_def p2_id_def)

lemma sim_finish_running:
  "running w \<Longrightarrow> sim_finish aid w = w\<lparr>db := upd_ambulance aid release (db w)\<rparr>"
  by (simp add: sim_finish_def upd_ambulance_absent split: option.splits)

section \<open>The journeys of the example, in double arithmetic\<close>

lemma floor_rat_numeral [simp]:
  "\<lfloor>numeral a / numeral b :: rat\<rfloor> = numeral a div numeral b"
  "\<lfloor>- (numeral a / numeral b) :: rat\<rfloor> = - numeral a div numeral b"
  using floor_divide_of_int_eq[of "numeral a" "numeral b", where ?'a=rat]
    floor_divide_of_int_eq[of "- numeral a" "numeral b", where ?'a=rat]
  by simp_all

text \<open>
  Rounding, given the exponent: the side conditions are comparisons and a division of
  numerals, which the simplifier decides.
\<close>

lemma fl_eval:
  assumes "pow2 e \<le> \<bar>x\<bar>" "\<bar>x\<bar> < pow2 (e + 1)" "- 1022 \<le> e"
    and "round_even (x / pow2 (e - 52)) = n" and "of_int n * pow2 (e - 52) = r"
  shows "fl x = r"
  using assms fl_exponent[OF assms(1,2)] by (simp add: Let_def max_def)

lemma largest_big: "1000 \<le> largest"
  by (simp add: largest_def)

lemma round_double_small:
  assumes "fl x = r" "\<bar>r\<bar> \<le> 1000"
  shows "round_double x = Finite r"
proof -
  have "\<not> largest < r" "\<not> r < - largest"
    using assms(2) largest_big by linarith+
  then show ?thesis
    by (simp add: round_double_def Let_def assms(1))
qed

lemma round_double_eval:
  assumes "pow2 e \<le> \<bar>x\<bar>" "\<bar>x\<bar> < pow2 (e + 1)" "- 1022 \<le> e"
    and "round_even (x / pow2 (e - 52)) = n" and "of_int n * pow2 (e - 52) = r"
    and "\<bar>r\<bar> \<le> 1000"
  shows "round_double x = Finite r"
  using fl_eval[OF assms(1-5)] assms(6) by (rule round_double_small)

lemma round_double_zero: "round_double 0 = Finite 0"
  by (rule round_double_small) (simp_all add: fl_zero)

lemma position_eval:
  assumes "start_c = Finite s" "coord_step start_c end_c = Finite st"
    and "pow2 e1 \<le> \<bar>st * of_nat k\<bar>" "\<bar>st * of_nat k\<bar> < pow2 (e1 + 1)" "- 1022 \<le> e1"
    and "round_even (st * of_nat k / pow2 (e1 - 52)) = n1"
    and "of_int n1 * pow2 (e1 - 52) = m" "\<bar>m\<bar> \<le> 1000"
    and "pow2 e2 \<le> \<bar>s + m\<bar>" "\<bar>s + m\<bar> < pow2 (e2 + 1)" "- 1022 \<le> e2"
    and "round_even ((s + m) / pow2 (e2 - 52)) = n2"
    and "of_int n2 * pow2 (e2 - 52) = r" "\<bar>r\<bar> \<le> 1000"
  shows "position start_c end_c k = Finite r"
proof -
  have "fmul (Finite st) (Finite (of_nat k)) = Finite m"
    using round_double_eval[OF assms(3-8)] by simp
  moreover have "fadd (Finite s) (Finite m) = Finite r"
    using round_double_eval[OF assms(9-14)] by simp
  ultimately show ?thesis
    unfolding position_def assms(2) unfolding assms(1) by simp
qed

lemma position_zero:
  assumes "is_double start_c" "is_finite (coord_step start_c end_c)"
  shows "position start_c end_c 0 = start_c"
proof -
  obtain s where s: "start_c = Finite s" "fl s = s" "\<bar>s\<bar> \<le> largest"
    using assms(1) by (cases start_c) simp_all
  obtain st where st: "coord_step start_c end_c = Finite st"
    using assms(2) by (cases "coord_step start_c end_c") simp_all
  have "\<not> largest < s" "\<not> s < - largest"
    using s(3) by linarith+
  then have "round_double s = Finite s"
    by (simp add: round_double_def Let_def s(2))
  then show ?thesis
    unfolding position_def st unfolding s(1) by (simp add: round_double_zero)
qed


lemma from_lat_value: "from_lat = Finite (- 2716571295229883 / 36028797018963968)"
  unfolding from_lat_def lit_def
  by (rule round_double_eval [where e = "- 4" and n = "- 5433142590459766"]) (simp_all add: pow2_def round_even_def Let_def)

lemma from_lng_value: "from_lng = Finite (4893372101370577 / 140737488355328)"
  unfolding from_lng_def lit_def
  by (rule round_double_eval [where e = "5" and n = "4893372101370577"]) (simp_all add: pow2_def round_even_def Let_def)

lemma to_lat_value: "to_lat = Finite (- 1569954830101355 / 9007199254740992)"
  unfolding to_lat_def lit_def
  by (rule round_double_eval [where e = "- 3" and n = "- 6279819320405420"]) (simp_all add: pow2_def round_even_def Let_def)

lemma to_lng_value: "to_lng = Finite (614264600894269 / 17592186044416)"
  unfolding to_lng_def lit_def
  by (rule round_double_eval [where e = "5" and n = "4914116807154152"]) (simp_all add: pow2_def round_even_def Let_def)

lemma nyakach_lat_value: "nyakach_lat = Finite (- 2404922201015845 / 9007199254740992)"
  unfolding nyakach_lat_def lit_def
  by (rule round_double_eval [where e = "- 2" and n = "- 4809844402031690"]) (simp_all add: pow2_def round_even_def Let_def)

lemma diff_lat: "fsub to_lat from_lat = Finite (- 3563248025175537 / 36028797018963968)"
  unfolding fsub_def from_lat_value to_lat_value
  by (simp, rule round_double_eval [where e = "- 4" and n = "- 7126496050351074"]) (simp_all add: pow2_def round_even_def Let_def)

lemma diff_lng: "fsub to_lng from_lng = Finite (20744705783575 / 140737488355328)"
  unfolding fsub_def from_lng_value to_lng_value
  by (simp, rule round_double_eval [where e = "- 3" and n = "5310644680595200"]) (simp_all add: pow2_def round_even_def Let_def)

lemma diff_nyakach: "fsub from_lat nyakach_lat = Finite (6903117508833497 / 36028797018963968)"
  unfolding fsub_def nyakach_lat_value from_lat_value
  by (simp, rule round_double_eval [where e = "- 3" and n = "6903117508833497"]) (simp_all add: pow2_def round_even_def Let_def)

lemma step_lat: "coord_step from_lat to_lat = Finite (- 5701196840280859 / 1152921504606846976)"
  unfolding coord_step_def diff_lat steps_def
  by (simp, rule round_double_eval [where e = "- 8" and n = "- 5701196840280859"]) (simp_all add: pow2_def round_even_def Let_def)

lemma step_lng: "coord_step from_lng to_lng = Finite (4148941156715 / 562949953421312)"
  unfolding coord_step_def diff_lng steps_def
  by (simp, rule round_double_eval [where e = "- 8" and n = "8497031488952320"]) (simp_all add: pow2_def round_even_def Let_def)

lemma step_nyakach: "coord_step nyakach_lat from_lat = Finite (2761247003533399 / 288230376151711744)"
  unfolding coord_step_def diff_nyakach steps_def
  by (simp, rule round_double_eval [where e = "- 7" and n = "5522494007066798"]) (simp_all add: pow2_def round_even_def Let_def)

lemma from_lat_double: "is_double from_lat"
proof -
  have "fl (- 2716571295229883 / 36028797018963968) = - 2716571295229883 / 36028797018963968"
    by (rule fl_eval [where e = "- 4" and n = "- 5433142590459766"]) (simp_all add: pow2_def round_even_def Let_def)
  then show ?thesis
    unfolding from_lat_value using largest_big by simp
qed

lemma from_lng_double: "is_double from_lng"
proof -
  have "fl (4893372101370577 / 140737488355328) = 4893372101370577 / 140737488355328"
    by (rule fl_eval [where e = "5" and n = "4893372101370577"]) (simp_all add: pow2_def round_even_def Let_def)
  then show ?thesis
    unfolding from_lng_value using largest_big by simp
qed

lemma lat_samples:
  "map (position from_lat to_lat)
     [0, 1, 2, 3, 4, 5, 6, 7, 8, 9, 10, 11, 12, 13, 14, 15, 16, 17, 18, 19, 20] =
    [Finite (- 2716571295229883 / 36028797018963968),
     Finite (- 723683424122165 / 9007199254740992),
     Finite (- 6145792195494873 / 72057594037927936),
     Finite (- 6502116998012427 / 72057594037927936),
     Finite (- 6858441800529981 / 72057594037927936),
     Finite (- 3607383301523767 / 36028797018963968),
     Finite (- 236596606423909 / 2251799813685248),
     Finite (- 3963708104041321 / 36028797018963968),
     Finite (- 2070935252650049 / 18014398509481984),
     Finite (- 8640065813117749 / 72057594037927936),
     Finite (- 8996390615635303 / 72057594037927936),
     Finite (- 1169089427269107 / 9007199254740992),
     Finite (- 4854520110335205 / 36028797018963968),
     Finite (- 2516341255796991 / 18014398509481984),
     Finite (- 5210844912852759 / 36028797018963968),
     Finite (- 336812957131971 / 2251799813685248),
     Finite (- 695896214421289 / 4503599627370496),
     Finite (- 2872666058314545 / 18014398509481984),
     Finite (- 2961747258943933 / 18014398509481984),
     Finite (- 6101656919146643 / 36028797018963968),
     Finite (- 1569954830101355 / 9007199254740992)]"
proof -
  have f: "is_finite (coord_step from_lat to_lat)"
    unfolding step_lat by simp
  have p0: "position from_lat to_lat 0 = Finite (- 2716571295229883 / 36028797018963968)"
    using position_zero [OF from_lat_double f] unfolding from_lat_value .
  have p1: "position from_lat to_lat 1 = Finite (- 723683424122165 / 9007199254740992)"
    by (rule position_eval [OF from_lat_value step_lat, where ?e1.0 = "- 8"
          and ?n1.0 = "- 5701196840280859" and ?e2.0 = "- 4" and ?n2.0 = "- 5789467392977320"
          and m = "- 5701196840280859 / 1152921504606846976"])
       (simp_all add: pow2_def round_even_def Let_def)
  have p2: "position from_lat to_lat 2 = Finite (- 6145792195494873 / 72057594037927936)"
    by (rule position_eval [OF from_lat_value step_lat, where ?e1.0 = "- 7"
          and ?n1.0 = "- 5701196840280859" and ?e2.0 = "- 4" and ?n2.0 = "- 6145792195494873"
          and m = "- 5701196840280859 / 576460752303423488"])
       (simp_all add: pow2_def round_even_def Let_def)
  have p3: "position from_lat to_lat 3 = Finite (- 6502116998012427 / 72057594037927936)"
    by (rule position_eval [OF from_lat_value step_lat, where ?e1.0 = "- 7"
          and ?n1.0 = "- 8551795260421288" and ?e2.0 = "- 4" and ?n2.0 = "- 6502116998012427"
          and m = "- 1068974407552661 / 72057594037927936"])
       (simp_all add: pow2_def round_even_def Let_def)
  have p4: "position from_lat to_lat 4 = Finite (- 6858441800529981 / 72057594037927936)"
    by (rule position_eval [OF from_lat_value step_lat, where ?e1.0 = "- 6"
          and ?n1.0 = "- 5701196840280859" and ?e2.0 = "- 4" and ?n2.0 = "- 6858441800529981"
          and m = "- 5701196840280859 / 288230376151711744"])
       (simp_all add: pow2_def round_even_def Let_def)
  have p5: "position from_lat to_lat 5 = Finite (- 3607383301523767 / 36028797018963968)"
    by (rule position_eval [OF from_lat_value step_lat, where ?e1.0 = "- 6"
          and ?n1.0 = "- 7126496050351074" and ?e2.0 = "- 4" and ?n2.0 = "- 7214766603047534"
          and m = "- 3563248025175537 / 144115188075855872"])
       (simp_all add: pow2_def round_even_def Let_def)
  have p6: "position from_lat to_lat 6 = Finite (- 236596606423909 / 2251799813685248)"
    by (rule position_eval [OF from_lat_value step_lat, where ?e1.0 = "- 6"
          and ?n1.0 = "- 8551795260421288" and ?e2.0 = "- 4" and ?n2.0 = "- 7571091405565088"
          and m = "- 1068974407552661 / 36028797018963968"])
       (simp_all add: pow2_def round_even_def Let_def)
  have p7: "position from_lat to_lat 7 = Finite (- 3963708104041321 / 36028797018963968)"
    by (rule position_eval [OF from_lat_value step_lat, where ?e1.0 = "- 5"
          and ?n1.0 = "- 4988547235245752" and ?e2.0 = "- 4" and ?n2.0 = "- 7927416208082642"
          and m = "- 623568404405719 / 18014398509481984"])
       (simp_all add: pow2_def round_even_def Let_def)
  have p8: "position from_lat to_lat 8 = Finite (- 2070935252650049 / 18014398509481984)"
    by (rule position_eval [OF from_lat_value step_lat, where ?e1.0 = "- 5"
          and ?n1.0 = "- 5701196840280859" and ?e2.0 = "- 4" and ?n2.0 = "- 8283741010600196"
          and m = "- 5701196840280859 / 144115188075855872"])
       (simp_all add: pow2_def round_even_def Let_def)
  have p9: "position from_lat to_lat 9 = Finite (- 8640065813117749 / 72057594037927936)"
    by (rule position_eval [OF from_lat_value step_lat, where ?e1.0 = "- 5"
          and ?n1.0 = "- 6413846445315966" and ?e2.0 = "- 4" and ?n2.0 = "- 8640065813117749"
          and m = "- 3206923222657983 / 72057594037927936"])
       (simp_all add: pow2_def round_even_def Let_def)
  have p10: "position from_lat to_lat 10 = Finite (- 8996390615635303 / 72057594037927936)"
    by (rule position_eval [OF from_lat_value step_lat, where ?e1.0 = "- 5"
          and ?n1.0 = "- 7126496050351074" and ?e2.0 = "- 4" and ?n2.0 = "- 8996390615635303"
          and m = "- 3563248025175537 / 72057594037927936"])
       (simp_all add: pow2_def round_even_def Let_def)
  have p11: "position from_lat to_lat 11 = Finite (- 1169089427269107 / 9007199254740992)"
    by (rule position_eval [OF from_lat_value step_lat, where ?e1.0 = "- 5"
          and ?n1.0 = "- 7839145655386181" and ?e2.0 = "- 3" and ?n2.0 = "- 4676357709076428"
          and m = "- 7839145655386181 / 144115188075855872"])
       (simp_all add: pow2_def round_even_def Let_def)
  have p12: "position from_lat to_lat 12 = Finite (- 4854520110335205 / 36028797018963968)"
    by (rule position_eval [OF from_lat_value step_lat, where ?e1.0 = "- 5"
          and ?n1.0 = "- 8551795260421288" and ?e2.0 = "- 3" and ?n2.0 = "- 4854520110335205"
          and m = "- 1068974407552661 / 18014398509481984"])
       (simp_all add: pow2_def round_even_def Let_def)
  have p13: "position from_lat to_lat 13 = Finite (- 2516341255796991 / 18014398509481984)"
    by (rule position_eval [OF from_lat_value step_lat, where ?e1.0 = "- 4"
          and ?n1.0 = "- 4632222432728198" and ?e2.0 = "- 3" and ?n2.0 = "- 5032682511593982"
          and m = "- 2316111216364099 / 36028797018963968"])
       (simp_all add: pow2_def round_even_def Let_def)
  have p14: "position from_lat to_lat 14 = Finite (- 5210844912852759 / 36028797018963968)"
    by (rule position_eval [OF from_lat_value step_lat, where ?e1.0 = "- 4"
          and ?n1.0 = "- 4988547235245752" and ?e2.0 = "- 3" and ?n2.0 = "- 5210844912852759"
          and m = "- 623568404405719 / 9007199254740992"])
       (simp_all add: pow2_def round_even_def Let_def)
  have p15: "position from_lat to_lat 15 = Finite (- 336812957131971 / 2251799813685248)"
    by (rule position_eval [OF from_lat_value step_lat, where ?e1.0 = "- 4"
          and ?n1.0 = "- 5344872037763305" and ?e2.0 = "- 3" and ?n2.0 = "- 5389007314111536"
          and m = "- 5344872037763305 / 72057594037927936"])
       (simp_all add: pow2_def round_even_def Let_def)
  have p16: "position from_lat to_lat 16 = Finite (- 695896214421289 / 4503599627370496)"
    by (rule position_eval [OF from_lat_value step_lat, where ?e1.0 = "- 4"
          and ?n1.0 = "- 5701196840280859" and ?e2.0 = "- 3" and ?n2.0 = "- 5567169715370312"
          and m = "- 5701196840280859 / 72057594037927936"])
       (simp_all add: pow2_def round_even_def Let_def)
  have p17: "position from_lat to_lat 17 = Finite (- 2872666058314545 / 18014398509481984)"
    by (rule position_eval [OF from_lat_value step_lat, where ?e1.0 = "- 4"
          and ?n1.0 = "- 6057521642798413" and ?e2.0 = "- 3" and ?n2.0 = "- 5745332116629090"
          and m = "- 6057521642798413 / 72057594037927936"])
       (simp_all add: pow2_def round_even_def Let_def)
  have p18: "position from_lat to_lat 18 = Finite (- 2961747258943933 / 18014398509481984)"
    by (rule position_eval [OF from_lat_value step_lat, where ?e1.0 = "- 4"
          and ?n1.0 = "- 6413846445315966" and ?e2.0 = "- 3" and ?n2.0 = "- 5923494517887866"
          and m = "- 3206923222657983 / 36028797018963968"])
       (simp_all add: pow2_def round_even_def Let_def)
  have p19: "position from_lat to_lat 19 = Finite (- 6101656919146643 / 36028797018963968)"
    by (rule position_eval [OF from_lat_value step_lat, where ?e1.0 = "- 4"
          and ?n1.0 = "- 6770171247833520" and ?e2.0 = "- 3" and ?n2.0 = "- 6101656919146643"
          and m = "- 423135702989595 / 4503599627370496"])
       (simp_all add: pow2_def round_even_def Let_def)
  have p20: "position from_lat to_lat 20 = Finite (- 1569954830101355 / 9007199254740992)"
    by (rule position_eval [OF from_lat_value step_lat, where ?e1.0 = "- 4"
          and ?n1.0 = "- 7126496050351074" and ?e2.0 = "- 3" and ?n2.0 = "- 6279819320405420"
          and m = "- 3563248025175537 / 36028797018963968"])
       (simp_all add: pow2_def round_even_def Let_def)
  show ?thesis
    by (simp only: list.map p0 p1 p2 p3 p4 p5 p6 p7 p8 p9 p10 p11 p12 p13 p14 p15 p16 p17 p18 p19 p20)
qed

lemma lng_samples:
  "map (position from_lng to_lng)
     [0, 1, 2, 3, 4, 5, 6, 7, 8, 9, 10, 11, 12, 13, 14, 15, 16, 17, 18, 19, 20] =
    [Finite (4893372101370577 / 140737488355328),
     Finite (1223602334164939 / 35184372088832),
     Finite (2447723285974467 / 70368744177664),
     Finite (4896483807238113 / 140737488355328),
     Finite (1224380260631823 / 35184372088832),
     Finite (4898558277816471 / 140737488355328),
     Finite (2449797756552825 / 70368744177664),
     Finite (1225158187098707 / 35184372088832),
     Finite (4901669983684007 / 140737488355328),
     Finite (2451353609486593 / 70368744177664),
     Finite (1225936113565591 / 35184372088832),
     Finite (4904781689551543 / 140737488355328),
     Finite (2452909462420361 / 70368744177664),
     Finite (4906856160129901 / 140737488355328),
     Finite (613486674427385 / 17592186044416),
     Finite (2454465315354129 / 70368744177664),
     Finite (4909967865997437 / 140737488355328),
     Finite (613875637660827 / 17592186044416),
     Finite (2456021168287897 / 70368744177664),
     Finite (4913079571864973 / 140737488355328),
     Finite (614264600894269 / 17592186044416)]"
proof -
  have f: "is_finite (coord_step from_lng to_lng)"
    unfolding step_lng by simp
  have p0: "position from_lng to_lng 0 = Finite (4893372101370577 / 140737488355328)"
    using position_zero [OF from_lng_double f] unfolding from_lng_value .
  have p1: "position from_lng to_lng 1 = Finite (1223602334164939 / 35184372088832)"
    by (rule position_eval [OF from_lng_value step_lng, where ?e1.0 = "- 8"
          and ?n1.0 = "8497031488952320" and ?e2.0 = "5" and ?n2.0 = "4894409336659756"
          and m = "4148941156715 / 562949953421312"])
       (simp_all add: pow2_def round_even_def Let_def)
  have p2: "position from_lng to_lng 2 = Finite (2447723285974467 / 70368744177664)"
    by (rule position_eval [OF from_lng_value step_lng, where ?e1.0 = "- 7"
          and ?n1.0 = "8497031488952320" and ?e2.0 = "5" and ?n2.0 = "4895446571948934"
          and m = "4148941156715 / 281474976710656"])
       (simp_all add: pow2_def round_even_def Let_def)
  have p3: "position from_lng to_lng 3 = Finite (4896483807238113 / 140737488355328)"
    by (rule position_eval [OF from_lng_value step_lng, where ?e1.0 = "- 6"
          and ?n1.0 = "6372773616714240" and ?e2.0 = "5" and ?n2.0 = "4896483807238113"
          and m = "12446823470145 / 562949953421312"])
       (simp_all add: pow2_def round_even_def Let_def)
  have p4: "position from_lng to_lng 4 = Finite (1224380260631823 / 35184372088832)"
    by (rule position_eval [OF from_lng_value step_lng, where ?e1.0 = "- 6"
          and ?n1.0 = "8497031488952320" and ?e2.0 = "5" and ?n2.0 = "4897521042527292"
          and m = "4148941156715 / 140737488355328"])
       (simp_all add: pow2_def round_even_def Let_def)
  have p5: "position from_lng to_lng 5 = Finite (4898558277816471 / 140737488355328)"
    by (rule position_eval [OF from_lng_value step_lng, where ?e1.0 = "- 5"
          and ?n1.0 = "5310644680595200" and ?e2.0 = "5" and ?n2.0 = "4898558277816471"
          and m = "20744705783575 / 562949953421312"])
       (simp_all add: pow2_def round_even_def Let_def)
  have p6: "position from_lng to_lng 6 = Finite (2449797756552825 / 70368744177664)"
    by (rule position_eval [OF from_lng_value step_lng, where ?e1.0 = "- 5"
          and ?n1.0 = "6372773616714240" and ?e2.0 = "5" and ?n2.0 = "4899595513105650"
          and m = "12446823470145 / 281474976710656"])
       (simp_all add: pow2_def round_even_def Let_def)
  have p7: "position from_lng to_lng 7 = Finite (1225158187098707 / 35184372088832)"
    by (rule position_eval [OF from_lng_value step_lng, where ?e1.0 = "- 5"
          and ?n1.0 = "7434902552833280" and ?e2.0 = "5" and ?n2.0 = "4900632748394828"
          and m = "29042588097005 / 562949953421312"])
       (simp_all add: pow2_def round_even_def Let_def)
  have p8: "position from_lng to_lng 8 = Finite (4901669983684007 / 140737488355328)"
    by (rule position_eval [OF from_lng_value step_lng, where ?e1.0 = "- 5"
          and ?n1.0 = "8497031488952320" and ?e2.0 = "5" and ?n2.0 = "4901669983684007"
          and m = "4148941156715 / 70368744177664"])
       (simp_all add: pow2_def round_even_def Let_def)
  have p9: "position from_lng to_lng 9 = Finite (2451353609486593 / 70368744177664)"
    by (rule position_eval [OF from_lng_value step_lng, where ?e1.0 = "- 4"
          and ?n1.0 = "4779580212535680" and ?e2.0 = "5" and ?n2.0 = "4902707218973186"
          and m = "37340470410435 / 562949953421312"])
       (simp_all add: pow2_def round_even_def Let_def)
  have p10: "position from_lng to_lng 10 = Finite (1225936113565591 / 35184372088832)"
    by (rule position_eval [OF from_lng_value step_lng, where ?e1.0 = "- 4"
          and ?n1.0 = "5310644680595200" and ?e2.0 = "5" and ?n2.0 = "4903744454262364"
          and m = "20744705783575 / 281474976710656"])
       (simp_all add: pow2_def round_even_def Let_def)
  have p11: "position from_lng to_lng 11 = Finite (4904781689551543 / 140737488355328)"
    by (rule position_eval [OF from_lng_value step_lng, where ?e1.0 = "- 4"
          and ?n1.0 = "5841709148654720" and ?e2.0 = "5" and ?n2.0 = "4904781689551543"
          and m = "45638352723865 / 562949953421312"])
       (simp_all add: pow2_def round_even_def Let_def)
  have p12: "position from_lng to_lng 12 = Finite (2452909462420361 / 70368744177664)"
    by (rule position_eval [OF from_lng_value step_lng, where ?e1.0 = "- 4"
          and ?n1.0 = "6372773616714240" and ?e2.0 = "5" and ?n2.0 = "4905818924840722"
          and m = "12446823470145 / 140737488355328"])
       (simp_all add: pow2_def round_even_def Let_def)
  have p13: "position from_lng to_lng 13 = Finite (4906856160129901 / 140737488355328)"
    by (rule position_eval [OF from_lng_value step_lng, where ?e1.0 = "- 4"
          and ?n1.0 = "6903838084773760" and ?e2.0 = "5" and ?n2.0 = "4906856160129901"
          and m = "53936235037295 / 562949953421312"])
       (simp_all add: pow2_def round_even_def Let_def)
  have p14: "position from_lng to_lng 14 = Finite (613486674427385 / 17592186044416)"
    by (rule position_eval [OF from_lng_value step_lng, where ?e1.0 = "- 4"
          and ?n1.0 = "7434902552833280" and ?e2.0 = "5" and ?n2.0 = "4907893395419080"
          and m = "29042588097005 / 281474976710656"])
       (simp_all add: pow2_def round_even_def Let_def)
  have p15: "position from_lng to_lng 15 = Finite (2454465315354129 / 70368744177664)"
    by (rule position_eval [OF from_lng_value step_lng, where ?e1.0 = "- 4"
          and ?n1.0 = "7965967020892800" and ?e2.0 = "5" and ?n2.0 = "4908930630708258"
          and m = "62234117350725 / 562949953421312"])
       (simp_all add: pow2_def round_even_def Let_def)
  have p16: "position from_lng to_lng 16 = Finite (4909967865997437 / 140737488355328)"
    by (rule position_eval [OF from_lng_value step_lng, where ?e1.0 = "- 4"
          and ?n1.0 = "8497031488952320" and ?e2.0 = "5" and ?n2.0 = "4909967865997437"
          and m = "4148941156715 / 35184372088832"])
       (simp_all add: pow2_def round_even_def Let_def)
  have p17: "position from_lng to_lng 17 = Finite (613875637660827 / 17592186044416)"
    by (rule position_eval [OF from_lng_value step_lng, where ?e1.0 = "- 3"
          and ?n1.0 = "4514047978505920" and ?e2.0 = "5" and ?n2.0 = "4911005101286616"
          and m = "70531999664155 / 562949953421312"])
       (simp_all add: pow2_def round_even_def Let_def)
  have p18: "position from_lng to_lng 18 = Finite (2456021168287897 / 70368744177664)"
    by (rule position_eval [OF from_lng_value step_lng, where ?e1.0 = "- 3"
          and ?n1.0 = "4779580212535680" and ?e2.0 = "5" and ?n2.0 = "4912042336575794"
          and m = "37340470410435 / 281474976710656"])
       (simp_all add: pow2_def round_even_def Let_def)
  have p19: "position from_lng to_lng 19 = Finite (4913079571864973 / 140737488355328)"
    by (rule position_eval [OF from_lng_value step_lng, where ?e1.0 = "- 3"
          and ?n1.0 = "5045112446565440" and ?e2.0 = "5" and ?n2.0 = "4913079571864973"
          and m = "78829881977585 / 562949953421312"])
       (simp_all add: pow2_def round_even_def Let_def)
  have p20: "position from_lng to_lng 20 = Finite (614264600894269 / 17592186044416)"
    by (rule position_eval [OF from_lng_value step_lng, where ?e1.0 = "- 3"
          and ?n1.0 = "5310644680595200" and ?e2.0 = "5" and ?n2.0 = "4914116807154152"
          and m = "20744705783575 / 140737488355328"])
       (simp_all add: pow2_def round_even_def Let_def)
  show ?thesis
    by (simp only: list.map p0 p1 p2 p3 p4 p5 p6 p7 p8 p9 p10 p11 p12 p13 p14 p15 p16 p17 p18 p19 p20)
qed

lemma nyakach_last: "position nyakach_lat from_lat 20 = Finite (- 1358285647614941 / 18014398509481984)"
proof -
  have h: "position nyakach_lat from_lat 20 = Finite (- 1358285647614941 / 18014398509481984)"
    by (rule position_eval [OF nyakach_lat_value step_nyakach, where ?e1.0 = "- 3"
          and ?n1.0 = "6903117508833498" and ?e2.0 = "- 4" and ?n2.0 = "- 5433142590459764"
          and m = "3451558754416749 / 18014398509481984"])
       (simp_all add: pow2_def round_even_def Let_def)
  show ?thesis by (rule h)
qed

lemma spec_position_12: "spec_position from_lat to_lat 12 = Finite (- 2427260055167603 / 18014398509481984)"
proof -
  have b: "fmul (Finite 12) (Finite (- 3563248025175537 / 36028797018963968)) = Finite (- 2672436018881653 / 2251799813685248)"
    by (simp, rule round_double_eval [where e = "0" and n = "- 5344872037763306"]) (simp_all add: pow2_def round_even_def Let_def)
  have c: "fdiv_nat (Finite (- 2672436018881653 / 2251799813685248)) 20 = Finite (- 4275897630210645 / 72057594037927936)"
    by (simp, rule round_double_eval [where e = "- 5" and n = "- 8551795260421290"]) (simp_all add: pow2_def round_even_def Let_def)
  have d: "fadd from_lat (Finite (- 4275897630210645 / 72057594037927936)) = Finite (- 2427260055167603 / 18014398509481984)"
    unfolding from_lat_value
    by (simp, rule round_double_eval [where e = "- 3" and n = "- 4854520110335206"]) (simp_all add: pow2_def round_even_def Let_def)
  have n: "Finite (of_nat 12) = Finite 12" "steps = 20"
    by (simp_all add: steps_def)
  show ?thesis
    unfolding spec_position_def n diff_lat b c d ..
qed

lemma lat_12: "position from_lat to_lat 12 = Finite (- 4854520110335205 / 36028797018963968)"
  using lat_samples [THEN arg_cong [where f = "\<lambda>xs. xs ! 12"]] by simp

lemma exact_position_12: "exact_position from_lat to_lat 12 = Finite (- 12136300275838013 / 90071992547409920)"
  unfolding from_lat_value to_lat_value by (simp add: steps_def)

text \<open>A journey on which the difference of the coordinates overflows.\<close>

lemma overflow_example: "position (Finite (2 ^ 1023)) (Finite (- (2 ^ 1023))) 0 = NaN"
proof -
  have "fl (- (2 ^ 1023) - 2 ^ 1023) = - (2 ^ 1024)"
    by (rule fl_eval [where e = "1024" and n = "- (2 ^ 52)"]) (simp_all add: pow2_def round_even_def Let_def)
  then have "fsub (Finite (- (2 ^ 1023))) (Finite (2 ^ 1023)) = NegInf"
    by (simp add: fsub_def round_double_def Let_def largest_def)
  then show ?thesis
    by (simp add: position_def coord_step_def)
qed

lemma in_steps: "k \<le> steps \<Longrightarrow> k \<in> set [0..<steps + 1]"
  by auto

lemma not_as_specified_example: "\<not> interpolates_as_specified from_lat to_lat"
proof
  assume "interpolates_as_specified from_lat to_lat"
  then have "\<forall>k \<in> set [0..<steps + 1].
      feq (position from_lat to_lat k) (spec_position from_lat to_lat k)"
    unfolding interpolates_as_specified_def list_all_iff by blast
  moreover have "12 \<in> set [0..<steps + 1]" by (rule in_steps) (simp add: steps_def)
  ultimately have "feq (position from_lat to_lat 12) (spec_position from_lat to_lat 12)" by blast
  then show False unfolding lat_12 spec_position_12 by simp
qed

lemma nyakach_facts:
  "\<not> feq (position nyakach_lat from_lat steps) from_lat"
  "\<not> in_box nyakach_lat from_lat (position nyakach_lat from_lat steps)"
  unfolding steps_def nyakach_last
  unfolding in_box_def from_lat_value nyakach_lat_value
  by simp_all

lemma box_lat: "list_all (\<lambda>k. in_box from_lat to_lat (position from_lat to_lat k)) [0..<steps + 1]"
proof -
  have "list_all (in_box from_lat to_lat)
          (map (position from_lat to_lat)
             [0, 1, 2, 3, 4, 5, 6, 7, 8, 9, 10, 11, 12, 13, 14, 15, 16, 17, 18, 19, 20])"
    unfolding lat_samples unfolding in_box_def from_lat_value to_lat_value by simp
  then show ?thesis
    unfolding steps_list list_all_iff by simp
qed

lemma box_lng: "list_all (\<lambda>k. in_box from_lng to_lng (position from_lng to_lng k)) [0..<steps + 1]"
proof -
  have "list_all (in_box from_lng to_lng)
          (map (position from_lng to_lng)
             [0, 1, 2, 3, 4, 5, 6, 7, 8, 9, 10, 11, 12, 13, 14, 15, 16, 17, 18, 19, 20])"
    unfolding lng_samples unfolding in_box_def from_lng_value to_lng_value by simp
  then show ?thesis
    unfolding steps_list list_all_iff by simp
qed

lemma last_is_end:
  "position from_lat to_lat steps = to_lat" "position from_lng to_lng steps = to_lng"
proof -
  have "position from_lat to_lat 20 = to_lat"
    using lat_samples [THEN arg_cong [where f = "\<lambda>xs. xs ! 20"]]
    unfolding to_lat_value by simp
  then show "position from_lat to_lat steps = to_lat" by (simp add: steps_def)
  have "position from_lng to_lng 20 = to_lng"
    using lng_samples [THEN arg_cong [where f = "\<lambda>xs. xs ! 20"]]
    unfolding to_lng_value by simp
  then show "position from_lng to_lng steps = to_lng" by (simp add: steps_def)
qed

lemma journey_doubles:
  "is_double from_lat" "is_double from_lng"
  "is_finite (coord_step from_lat to_lat)" "is_finite (coord_step from_lng to_lng)"
  "is_finite to_lat" "is_finite to_lng"
proof -
  show "is_double from_lat" "is_double from_lng"
    by (rule from_lat_double, rule from_lng_double)
  show "is_finite (coord_step from_lat to_lat)" unfolding step_lat by simp
  show "is_finite (coord_step from_lng to_lng)" unfolding step_lng by simp
  show "is_finite to_lat" unfolding to_lat_value by simp
  show "is_finite to_lng" unfolding to_lng_value by simp
qed

section \<open>Runs that the other threads leave alone\<close>

lemma find_upd_first_present:
  "(\<And>x. key (f x) = key x) \<Longrightarrow>
   (find (\<lambda>x. key x = k') (upd_first (\<lambda>x. key x = k) f xs) = None)
     = (find (\<lambda>x. key x = k') xs = None)"
  by (induction xs) auto

lemma get_ambulance_upd_present:
  "(\<And>a. a_ambulance_id (f a) = a_ambulance_id a) \<Longrightarrow>
   (get_ambulance aid' (upd_ambulance aid f s) = None) = (get_ambulance aid' s = None)"
  unfolding get_ambulance_def upd_ambulance_def
  using find_upd_first_present [of a_ambulance_id f aid' aid "ambulances s"] by simp

lemma get_ambulance_add_communication [simp]:
  "get_ambulance aid (add_communication c s) = get_ambulance aid s"
  by (simp add: get_ambulance_def)

lemma location_updates_add_communication [simp]:
  "location_updates (add_communication c s) = location_updates s"
  by (simp add: add_communication_def)

lemma driver_leaves_locations:
  "location_updates (mark_patient_delivered aid s) = location_updates s"
  "location_updates (accept_mission aid pid s) = location_updates s"
  by (simp_all add: mark_patient_delivered_def accept_mission_def complete_mission_def Let_def
      split: option.splits)

lemma driver_keeps_ambulances:
  "(get_ambulance aid' (mark_patient_delivered aid s) = None) = (get_ambulance aid' s = None)"
  "(get_ambulance aid' (accept_mission aid pid s) = None) = (get_ambulance aid' s = None)"
  by (simp_all add: mark_patient_delivered_def accept_mission_def complete_mission_def Let_def
      get_ambulance_upd_present split: option.splits)

lemma delivered_then_next_quiet: "leaves_run_alone aid delivered_then_next"
  by (simp add: leaves_run_alone_def delivered_then_next_def driver_leaves_locations
      driver_keeps_ambulances del: not_None_eq)

lemma undisturbed_quiet: "leaves_run_alone aid undisturbed"
  by (simp add: leaves_run_alone_def undisturbed_def)

lemma quiet_loop:
  assumes "leaves_run_alone aid env" "\<forall>k \<in> set xs. k \<le> steps"
    and "running w" "get_ambulance aid (db w) \<noteq> None"
  shows "running (sim_loop env (sim_tick aid pid a0 b0 c0 d0) xs w)
     \<and> location_updates (db (sim_loop env (sim_tick aid pid a0 b0 c0 d0) xs w))
         = location_updates (db w) @ map (sample aid pid a0 b0 c0 d0) xs
     \<and> get_ambulance aid (db (sim_loop env (sim_tick aid pid a0 b0 c0 d0) xs w)) \<noteq> None"
  using assms(2-4)
proof (induction xs arbitrary: w)
  case Nil
  then show ?case by simp
next
  case (Cons k xs)
  let ?w = "sim_tick aid pid a0 b0 c0 d0 k w"
  obtain a where a: "get_ambulance aid (db w) = Some a"
    using Cons.prems(3) by blast
  have k: "k \<le> steps" using Cons.prems(1) by simp
  have r: "running ?w" using Cons.prems(2) by simp
  have g: "get_ambulance aid (db ?w) \<noteq> None"
    by (simp add: sim_tick_present(2)[OF a])
  have l: "location_updates (db ?w) = location_updates (db w) @ [sample aid pid a0 b0 c0 d0 k]"
    by (rule sim_tick_present(1)[OF a])
  have e: "running (env k ?w)"
    "location_updates (db (env k ?w)) = location_updates (db ?w)"
    "get_ambulance aid (db (env k ?w)) \<noteq> None"
    using assms(1) k r g unfolding leaves_run_alone_def by blast+
  have xs: "\<forall>k \<in> set xs. k \<le> steps" using Cons.prems(1) by simp
  from Cons.IH[OF xs e(1) e(3)] show ?case
    using Cons.prems(2) by (simp add: e(2) l)
qed

lemma quiet_run:
  assumes "leaves_run_alone aid env" "get_ambulance aid (db w) = Some a"
  shows "location_updates (db (start_simulation env aid pid a0 b0 c0 d0 w))
           = location_updates (db w) @ map (sample aid pid a0 b0 c0 d0) [0..<steps + 1]"
proof -
  define W where "W = sim_loop env (sim_tick aid pid a0 b0 c0 d0) [0..<steps + 1]
      (w\<lparr>running := True\<rparr>)"
  have r0: "running (w\<lparr>running := True\<rparr>)"
    and g0: "get_ambulance aid (db (w\<lparr>running := True\<rparr>)) \<noteq> None"
    using assms(2) by simp_all
  have ks: "\<forall>k \<in> set [0..<steps + 1]. k \<le> steps" by simp
  from quiet_loop[OF assms(1) ks r0 g0, of pid a0 b0 c0 d0]
  have r: "running W"
    and l: "location_updates (db W)
         = location_updates (db w) @ map (sample aid pid a0 b0 c0 d0) [0..<steps + 1]"
    unfolding W_def by simp_all
  have "start_simulation env aid pid a0 b0 c0 d0 w = W\<lparr>db := upd_ambulance aid release (db W)\<rparr>"
    unfolding start_simulation_def W_def[symmetric] by (rule sim_finish_running[OF r])
  then show ?thesis
    unfolding W_def[symmetric] using l by simp
qed

lemma sim_tick_absent:
  "get_ambulance aid (db w) = None \<Longrightarrow> sim_tick aid pid a0 b0 c0 d0 k w = w"
  by (simp add: sim_tick_def update_ambulance_location_def)

lemma absent_loop:
  "get_ambulance aid (db w) = None \<Longrightarrow>
   sim_loop undisturbed (sim_tick aid pid a0 b0 c0 d0) xs w = w"
  by (induction xs) (simp_all add: sim_tick_absent undisturbed_def)

lemma absent_run:
  assumes "get_ambulance aid (db w) = None"
  shows "db (start_simulation undisturbed aid pid a0 b0 c0 d0 w) = db w"
proof -
  have g: "get_ambulance aid (db (w\<lparr>running := True\<rparr>)) = None"
    using assms by simp
  show ?thesis
    unfolding start_simulation_def absent_loop[OF g]
    by (simp add: sim_finish_def assms)
qed

lemma no_kzz_idle: "get_ambulance ''KZZ 000Z'' (db idle) = None"
  by (simp add: get_ambulance_def idle_rows a1_fields a1_id_def ambulances_data_def
      seed_ambulance_def)

section \<open>The handover form, case by case\<close>

lemma handover_cases:
  "eligible_patients uh s = [] \<Longrightarrow>
     create_handover_form role uh k i s = Inr (NoEligiblePatients, s)"
  "eligible_patients uh s \<noteq> [] \<Longrightarrow> map_of (patient_options (eligible_patients uh s)) k = None \<Longrightarrow>
     create_handover_form role uh k i s = Inl KeyError"
  "eligible_patients uh s \<noteq> [] \<Longrightarrow> map_of (patient_options (eligible_patients uh s)) k = Some p \<Longrightarrow>
     i_receiving_physician i = [] \<Longrightarrow>
     create_handover_form role uh k i s
       = Inl (ValidationError ''Please enter the receiving physician'')"
  "eligible_patients uh s \<noteq> [] \<Longrightarrow> map_of (patient_options (eligible_patients uh s)) k = Some p \<Longrightarrow>
     i_receiving_physician i \<noteq> [] \<Longrightarrow>
     create_handover_form role uh k i s
       = Inr (HandoverCompleted,
              upd_patient (p_patient_id p)
                (\<lambda>p. p\<lparr>p_status := ''Completed'',
                        p_receiving_physician := Some (i_receiving_physician i)\<rparr>)
                (add_handover_form (handover_data p i role) s))"
  by (simp_all add: create_handover_form_def)

lemma options_keys:
  "(map_of (patient_options ps) k = None) = (k \<notin> patient_key ` set ps)"
  by (simp add: map_of_eq_None_iff patient_options_def image_image)

lemma get_patient_distinct:
  "distinct (map p_patient_id ps) \<Longrightarrow> q \<in> set ps \<Longrightarrow>
   find (\<lambda>p. p_patient_id p = p_patient_id q) ps = Some q"
  by (induction ps) (auto simp: image_iff)

lemma distinct_ids:
  "distinct (map p_patient_id ps) \<Longrightarrow> p \<in> set ps \<Longrightarrow> q \<in> set ps \<Longrightarrow>
   p_patient_id p = p_patient_id q \<Longrightarrow> p = q"
  by (induction ps) (auto simp: image_iff)

lemma handover_forms_add [simp]:
  "handover_forms (add_handover_form h s) = handover_forms s @ [h]"
  by (simp add: add_handover_form_def)

lemma h_patient_id_data [simp]: "h_patient_id (handover_data p i role) = p_patient_id p"
  by (simp add: handover_data_def)

lemma completed_handover:
  assumes "distinct (map p_patient_id (patients s))"
    and "eligible_patients uh s \<noteq> []" "map_of (patient_options (eligible_patients uh s)) k = Some p"
    and "i_receiving_physician i \<noteq> []"
  shows "\<exists>s'. create_handover_form role uh k i s = Inr (HandoverCompleted, s')
      \<and> handover_forms s' = handover_forms s @ [handover_data p i role]
      \<and> patients s' =
           map (\<lambda>q. if p_patient_id q = p_patient_id p
                     then q\<lparr>p_status := ''Completed'',
                            p_receiving_physician := Some (i_receiving_physician i)\<rparr>
                     else q) (patients s)
      \<and> ambulances s' = ambulances s"
  unfolding handover_cases(4)[OF assms(2,3,4)]
  using assms(1) by (simp add: upd_patient_def upd_first_distinct)

lemma not_arrived_kept:
  assumes "distinct (map p_patient_id (patients s))" "q \<in> set (patients s)"
    and "p_status q \<noteq> ''Arrived at Destination''"
  shows "q \<notin> set (eligible_patients uh s)"
    and "get_patient_by_id (p_patient_id q) (exec (Handover role uh k i) s) = Some q"
    and "filter (\<lambda>h. h_patient_id h = p_patient_id q)
            (handover_forms (exec (Handover role uh k i) s))
          = filter (\<lambda>h. h_patient_id h = p_patient_id q) (handover_forms s)"
proof -
  show "q \<notin> set (eligible_patients uh s)"
    using assms(3) eligible_subset by blast
  have g: "get_patient_by_id (p_patient_id q) s = Some q"
    unfolding get_patient_by_id_def by (rule get_patient_distinct[OF assms(1,2)])
  have "get_patient_by_id (p_patient_id q) (exec (Handover role uh k i) s) = Some q
    \<and> filter (\<lambda>h. h_patient_id h = p_patient_id q)
            (handover_forms (exec (Handover role uh k i) s))
          = filter (\<lambda>h. h_patient_id h = p_patient_id q) (handover_forms s)"
  proof (cases "eligible_patients uh s = []")
    case True
    show ?thesis using g by (simp add: handover_cases(1)[OF True])
  next
    case False
    show ?thesis
    proof (cases "map_of (patient_options (eligible_patients uh s)) k")
      case None
      show ?thesis using g by (simp add: handover_cases(2)[OF False None])
    next
      case (Some p)
      show ?thesis
      proof (cases "i_receiving_physician i = []")
        case True
        show ?thesis using g by (simp add: handover_cases(3)[OF False Some True])
      next
        case ph: False
        have p: "p \<in> set (patients s)" "p_status p = ''Arrived at Destination''"
          using map_of_options[OF Some] eligible_subset by blast+
        have ne: "p_patient_id q \<noteq> p_patient_id p"
          using distinct_ids[OF assms(1) p(1) assms(2)] p(2) assms(3) by auto
        have "get_patient_by_id (p_patient_id q)
                (upd_patient (p_patient_id p)
                  (\<lambda>p. p\<lparr>p_status := ''Completed'',
                          p_receiving_physician := Some (i_receiving_physician i)\<rparr>)
                  (add_handover_form (handover_data p i role) s))
              = get_patient_by_id (p_patient_id q) (add_handover_form (handover_data p i role) s)"
          by (rule get_patient_upd_other[OF ne]) simp
        also have "\<dots> = Some q"
          using g by (simp add: get_patient_by_id_def)
        finally show ?thesis
          using ne by (simp add: handover_cases(4)[OF False Some ph])
      qed
    qed
  qed
  then show "get_patient_by_id (p_patient_id q) (exec (Handover role uh k i) s) = Some q"
    and "filter (\<lambda>h. h_patient_id h = p_patient_id q)
            (handover_forms (exec (Handover role uh k i) s))
          = filter (\<lambda>h. h_patient_id h = p_patient_id q) (handover_forms s)"
    by blast+
qed

section \<open>One patient arrived, one waiting\<close>

lemma p2_fields:
  "p_patient_id p2 = p2_id" "p_status p2 = ''Referred''" "p_name p2 = ''P2''"
  by (simp_all add: p2_def p1_def)

lemma p1_fields:
  "p_patient_id p1 = p1_id" "p_name p1 = ''P1''"
  by (simp_all add: p1_def)

lemma p2_created_patients:
  "patients p2_created
     = [p1\<lparr>p_assigned_ambulance := Some a1_id, p_status := ''Ambulance Assigned''\<rparr>, p2]"
  "handover_forms p2_created = []"
  by (simp_all add: p2_created_eq p1_assigned_rows p1_assigned_eq p1_created_eq seeded_eq
      empty_store_def)

lemma p2_waiting_eq:
  "p2_waiting = complete_mission a1_id
     (p1\<lparr>p_assigned_ambulance := Some a1_id, p_status := ''Ambulance Assigned''\<rparr>) p2_created"
  by (simp add: p2_waiting_def mark_patient_delivered_def p2_created_rows scenario_ids)

lemma p2_waiting_rows:
  "patients p2_waiting
     = [p1\<lparr>p_assigned_ambulance := Some a1_id, p_status := ''Arrived at Destination''\<rparr>, p2]"
  "handover_forms p2_waiting = []"
  unfolding p2_waiting_eq
  by (simp_all add: complete_mission_def Let_def upd_patient_def add_communication_def
      p2_created_patients p1_fields)

lemma p2_waiting_eligible:
  "eligible_patients ''All Facilities'' p2_waiting
     = [p1\<lparr>p_assigned_ambulance := Some a1_id, p_status := ''Arrived at Destination''\<rparr>]"
  "eligible_patients ''All Facilities'' p2_created = []"
  by (simp_all add: eligible_patients_def p2_waiting_rows p2_created_patients p2_fields)

lemma p2_waiting_options:
  "map_of (patient_options (eligible_patients ''All Facilities'' p2_waiting)) ''PAT0A1B2C3D - P1''
     = Some (p1\<lparr>p_assigned_ambulance := Some a1_id, p_status := ''Arrived at Destination''\<rparr>)"
  "''PAT0A1B2C3D - P1'' \<in> patient_key ` set (eligible_patients ''All Facilities'' p2_waiting)"
  "''PAT1B2C3D4E - P2'' \<notin> patient_key ` set (eligible_patients ''All Facilities'' p2_waiting)"
  by (simp_all add: p2_waiting_eligible patient_options_def patient_key_def p1_fields p1_id_def)

lemma p2_waiting_ids:
  "distinct (map p_patient_id (patients p2_waiting))"
  "distinct (map p_patient_id (patients p2_created))"
  "p2 \<in> set (patients p2_waiting)" "p2 \<in> set (patients p2_created)"
  "p_status p2 \<noteq> ''Arrived at Destination''"
  "i_receiving_physician p1_handover \<noteq> []"
  by (simp_all add: p2_waiting_rows p2_created_patients p2_fields p1_fields scenario_ids
      p1_handover_def)

section \<open>The claims\<close>

text \<open>
  Claim C10. \<open>update_ambulance_status\<close> called without a patient identifier rewrites
  only the status of the ambulance: the store that results is the old one with the
  status field of that row replaced, so \<open>current_patient\<close> keeps its value, whatever
  the new status is. With any argument at all, a \<open>current_patient\<close> that was set is
  still set afterwards: the operation can set the field and cannot clear it.
\<close>

theorem update_ambulance_status_without_patient:
  "update_ambulance_status aid st None s = upd_ambulance aid (\<lambda>a. a\<lparr>a_status := st\<rparr>) s
   \<and> (\<forall>a. get_ambulance aid s = Some a \<longrightarrow>
          get_ambulance aid (update_ambulance_status aid st None s) = Some (a\<lparr>a_status := st\<rparr>)
          \<and> (\<forall>patient_id. \<exists>a'.
                get_ambulance aid (update_ambulance_status aid st patient_id s) = Some a'
                \<and> (a_current_patient a \<noteq> None \<longrightarrow> a_current_patient a' \<noteq> None)))"
proof (intro conjI allI impI)
  show eq: "update_ambulance_status aid st None s = upd_ambulance aid (\<lambda>a. a\<lparr>a_status := st\<rparr>) s"
    by (simp add: update_ambulance_status_def set_status_None upd_ambulance_absent
        split: option.splits)
  fix a assume a: "get_ambulance aid s = Some a"
  have id: "a_ambulance_id a = aid" using a by (rule get_ambulance_id)
  show "get_ambulance aid (update_ambulance_status aid st None s) = Some (a\<lparr>a_status := st\<rparr>)"
    using a id by (simp add: eq get_ambulance_upd_same)
  fix patient_id
  have "get_ambulance aid (update_ambulance_status aid st patient_id s)
          = Some (set_status st patient_id a)"
    using a id by (simp add: update_ambulance_status_def get_ambulance_upd_same set_status_def Let_def)
  moreover have "a_current_patient a \<noteq> None \<longrightarrow> a_current_patient (set_status st patient_id a) \<noteq> None"
    by (cases patient_id) (auto simp: set_status_def Let_def)
  ultimately show "\<exists>a'. get_ambulance aid (update_ambulance_status aid st patient_id s) = Some a'
      \<and> (a_current_patient a \<noteq> None \<longrightarrow> a_current_patient a' \<noteq> None)"
    by blast
qed

theorem update_ambulance_status_without_patient_witness:
  "get_ambulance a1_id p1_assigned
     = Some (a1\<lparr>a_status := ''On Transfer'', a_current_patient := Some p1_id\<rparr>)
   \<and> get_ambulance a1_id (update_ambulance_status a1_id ''Available'' None p1_assigned)
     = Some (a1\<lparr>a_status := ''Available'', a_current_patient := Some p1_id\<rparr>)"
proof -
  have h: "get_ambulance a1_id p1_assigned
             = Some (a1\<lparr>a_status := ''On Transfer'', a_current_patient := Some p1_id\<rparr>)"
    by (rule a1_assigned)
  from update_ambulance_status_without_patient [of a1_id "''Available''" p1_assigned] h
  have "get_ambulance a1_id (update_ambulance_status a1_id ''Available'' None p1_assigned)
          = Some (a1\<lparr>a_status := ''On Transfer'', a_current_patient := Some p1_id\<rparr>
                    \<lparr>a_status := ''Available''\<rparr>)"
    by blast
  with h show ?thesis by simp
qed

text \<open>
  Claim C1, as stated: for every patient and ambulance identifier, \<open>assign\<close> either
  fully succeeds or fully fails, the patient's row being rolled back when the write to
  the ambulance fails. It does not hold: for a known patient and an ambulance
  identifier that is in no row, \<open>assign_ambulance\<close> reports success, the patient's row is
  rewritten and no ambulance is.
\<close>

theorem assign_all_or_nothing_counterexample:
  "\<not> assign_all_or_nothing p1_id ''KZZ 000Z'' p1_created"
  using assign_known_patient[OF p1_in_created, of "''KZZ 000Z''"] no_kzz_in_created
  by (simp add: assign_all_or_nothing_def assign_fully_succeeded_def split_beta Let_def)

text \<open>
  Claim C1, amended: for an unknown patient \<open>assign_ambulance\<close> returns \<open>False\<close> and
  changes nothing. For a known patient it returns \<open>True\<close> and sets the patient's status
  to \<open>Ambulance Assigned\<close> and \<open>assigned_ambulance\<close> to the given identifier; the
  ambulance gets the status \<open>On Transfer\<close> and the patient as \<open>current_patient\<close> if its
  row exists, and if it does not, the ambulances stay as they were and the patient's row
  stays rewritten.
\<close>

theorem assign_ambulance_effect:
  "(get_patient_by_id pid s = None \<longrightarrow> assign_ambulance pid aid s = (False, s))
   \<and> (\<forall>p. get_patient_by_id pid s = Some p \<longrightarrow>
          fst (assign_ambulance pid aid s)
          \<and> get_patient_by_id pid (snd (assign_ambulance pid aid s))
              = Some (p\<lparr>p_assigned_ambulance := Some aid, p_status := ''Ambulance Assigned''\<rparr>)
          \<and> (get_ambulance aid s = None \<longrightarrow>
                ambulances (snd (assign_ambulance pid aid s)) = ambulances s)
          \<and> (\<forall>a. get_ambulance aid s = Some a \<longrightarrow> pid \<noteq> [] \<longrightarrow>
                get_ambulance aid (snd (assign_ambulance pid aid s))
                  = Some (a\<lparr>a_status := ''On Transfer'', a_current_patient := Some pid\<rparr>)))"
  by (auto simp: assign_unknown_patient assign_known_patient assign_patient_def set_status_def Let_def)

theorem assign_ambulance_effect_witness:
  "get_patient_by_id p2_id seeded = None
   \<and> assign_ambulance p2_id a1_id seeded = (False, seeded)
   \<and> get_patient_by_id p1_id p1_created = Some p1
   \<and> get_ambulance a1_id p1_created = Some a1
   \<and> fst (assign_ambulance p1_id a1_id p1_created)
   \<and> get_patient_by_id p1_id (snd (assign_ambulance p1_id a1_id p1_created))
       = Some (p1\<lparr>p_assigned_ambulance := Some a1_id, p_status := ''Ambulance Assigned''\<rparr>)
   \<and> get_ambulance a1_id (snd (assign_ambulance p1_id a1_id p1_created))
       = Some (a1\<lparr>a_status := ''On Transfer'', a_current_patient := Some p1_id\<rparr>)
   \<and> get_ambulance ''KZZ 000Z'' p1_created = None
   \<and> ambulances (snd (assign_ambulance p1_id ''KZZ 000Z'' p1_created)) = ambulances p1_created"
proof -
  have ne: "p1_id \<noteq> []" by (simp add: p1_id_def)
  note t1 = assign_ambulance_effect [of p2_id seeded a1_id]
  note t2 = assign_ambulance_effect [of p1_id p1_created a1_id]
  note t3 = assign_ambulance_effect [of p1_id p1_created "''KZZ 000Z''"]
  show ?thesis
    using t1 t2 t3 no_patient_in_seeded[of p2_id] p1_in_created a1_in_created no_kzz_in_created ne
    by simp
qed

text \<open>
  Claim C3, as stated: dispatching requires the ambulance to be \<open>Available\<close>, and a
  second dispatch of the same ambulance with no release in between fails with
  \<open>AmbulanceUnavailableError\<close> and changes neither row. It does not hold: with the
  first ambulance \<open>On Transfer\<close> for P1, its assignment to P2 reports success.
\<close>

theorem dispatch_requires_available_counterexample:
  "\<not> dispatch_requires_available p2_id a1_id p2_created"
  using assign_known_patient(1)[OF p2_created_rows(2), of a1_id]
  by (simp add: dispatch_requires_available_def p2_created_rows split_beta)

text \<open>
  Claim C3, amended: the ambulances offered for an assignment are those whose status is
  \<open>Available\<close>, and \<open>assign_ambulance\<close> itself does not read the status. Two
  assignments in a row of one ambulance to two known patients both report success; after
  the second the ambulance is \<open>On Transfer\<close> with the second patient as
  \<open>current_patient\<close>, and the second patient is \<open>Ambulance Assigned\<close> to it.
\<close>

theorem second_dispatch_succeeds:
  "set (get_available_ambulances s) = {a \<in> set (ambulances s). a_status a = ''Available''}
   \<and> (\<forall>q1 q2 a.
         get_patient_by_id pid1 s = Some q1 \<longrightarrow> get_patient_by_id pid2 s = Some q2 \<longrightarrow>
         get_ambulance aid s = Some a \<longrightarrow> pid1 \<noteq> [] \<longrightarrow> pid2 \<noteq> [] \<longrightarrow> pid1 \<noteq> pid2 \<longrightarrow>
         fst (assign_ambulance pid1 aid s)
         \<and> get_ambulance aid (snd (assign_ambulance pid1 aid s))
             = Some (a\<lparr>a_status := ''On Transfer'', a_current_patient := Some pid1\<rparr>)
         \<and> fst (assign_ambulance pid2 aid (snd (assign_ambulance pid1 aid s)))
         \<and> get_ambulance aid (snd (assign_ambulance pid2 aid (snd (assign_ambulance pid1 aid s))))
             = Some (a\<lparr>a_status := ''On Transfer'', a_current_patient := Some pid2\<rparr>)
         \<and> get_patient_by_id pid2 (snd (assign_ambulance pid2 aid (snd (assign_ambulance pid1 aid s))))
             = Some (q2\<lparr>p_assigned_ambulance := Some aid, p_status := ''Ambulance Assigned''\<rparr>))"
proof (intro conjI allI impI)
  show "set (get_available_ambulances s) = {a \<in> set (ambulances s). a_status a = ''Available''}"
    by (simp add: get_available_ambulances_def)
next
  fix q1 q2 a
  assume q1: "get_patient_by_id pid1 s = Some q1" and q2: "get_patient_by_id pid2 s = Some q2"
    and a: "get_ambulance aid s = Some a" and ne: "pid1 \<noteq> []" "pid2 \<noteq> []" "pid1 \<noteq> pid2"
  define s1 where "s1 = snd (assign_ambulance pid1 aid s)"
  show "fst (assign_ambulance pid1 aid s)" using q1 by (rule assign_known_patient)
  show a1: "get_ambulance aid (snd (assign_ambulance pid1 aid s))
      = Some (a\<lparr>a_status := ''On Transfer'', a_current_patient := Some pid1\<rparr>)"
    using assign_known_patient(5)[OF q1 a] ne by (simp add: set_status_Some)
  have q2': "get_patient_by_id pid2 s1 = Some q2"
    using q2 ne by (simp add: s1_def assign_keeps_other_patient)
  have a1': "get_ambulance aid s1 = Some (a\<lparr>a_status := ''On Transfer'', a_current_patient := Some pid1\<rparr>)"
    using a1 by (simp add: s1_def)
  show "fst (assign_ambulance pid2 aid (snd (assign_ambulance pid1 aid s)))"
    using assign_known_patient(1)[OF q2'] by (simp add: s1_def)
  show "get_ambulance aid (snd (assign_ambulance pid2 aid (snd (assign_ambulance pid1 aid s))))
      = Some (a\<lparr>a_status := ''On Transfer'', a_current_patient := Some pid2\<rparr>)"
    using assign_known_patient(5)[OF q2' a1'] ne by (simp add: set_status_Some s1_def)
  show "get_patient_by_id pid2 (snd (assign_ambulance pid2 aid (snd (assign_ambulance pid1 aid s))))
      = Some (q2\<lparr>p_assigned_ambulance := Some aid, p_status := ''Ambulance Assigned''\<rparr>)"
    using assign_known_patient(2)[OF q2'] by (simp add: s1_def assign_patient_def)
qed

theorem second_dispatch_succeeds_witness:
  "get_patient_by_id p1_id p2_created
     = Some (p1\<lparr>p_assigned_ambulance := Some a1_id, p_status := ''Ambulance Assigned''\<rparr>)
   \<and> get_patient_by_id p2_id p2_created = Some p2
   \<and> get_ambulance a1_id p2_created
     = Some (a1\<lparr>a_status := ''On Transfer'', a_current_patient := Some p1_id\<rparr>)
   \<and> p1_id \<noteq> [] \<and> p2_id \<noteq> [] \<and> p1_id \<noteq> p2_id
   \<and> fst (assign_ambulance p2_id a1_id (snd (assign_ambulance p1_id a1_id p2_created)))
   \<and> get_ambulance a1_id (snd (assign_ambulance p2_id a1_id (snd (assign_ambulance p1_id a1_id p2_created))))
     = Some (a1\<lparr>a_status := ''On Transfer'', a_current_patient := Some p2_id\<rparr>)"
  using second_dispatch_succeeds [of p2_created p1_id p2_id a1_id] p2_created_rows scenario_ids
  by simp

text \<open>
  Claim C9. Releasing an ambulance ("Mark Available") sets its status to \<open>Available\<close>
  and clears \<open>current_patient\<close>, and leaves every patient's row as it was. In the
  scenario: P1 is created from JOOTRH to Kisumu County Referral Hospital; the first
  ambulance, \<open>Available\<close>, is assigned, which makes P1 \<open>Ambulance Assigned\<close> and the
  ambulance \<open>On Transfer\<close> with P1 as \<open>current_patient\<close>; the release makes the
  ambulance \<open>Available\<close> with no \<open>current_patient\<close>, and P1 is still
  \<open>Ambulance Assigned\<close>.
\<close>

theorem release_leaves_patient:
  "patients (mark_available aid s) = patients s
   \<and> (\<forall>a. get_ambulance aid s = Some a \<longrightarrow>
          get_ambulance aid (mark_available aid s)
            = Some (a\<lparr>a_status := ''Available'', a_current_patient := None\<rparr>))
   \<and> get_patient_by_id p1_id p1_created = Some p1
   \<and> p_referring_hospital p1 = ''Jaramogi Oginga Odinga Teaching & Referral Hospital (JOOTRH)''
   \<and> p_receiving_hospital p1 = ''Kisumu County Referral Hospital''
   \<and> get_ambulance a1_id p1_created = Some a1 \<and> a_status a1 = ''Available''
   \<and> get_patient_by_id p1_id p1_assigned
       = Some (p1\<lparr>p_assigned_ambulance := Some a1_id, p_status := ''Ambulance Assigned''\<rparr>)
   \<and> get_ambulance a1_id p1_assigned
       = Some (a1\<lparr>a_status := ''On Transfer'', a_current_patient := Some p1_id\<rparr>)
   \<and> get_ambulance a1_id (mark_available a1_id p1_assigned)
       = Some (a1\<lparr>a_status := ''Available'', a_current_patient := None\<rparr>)
   \<and> get_patient_by_id p1_id (mark_available a1_id p1_assigned)
       = Some (p1\<lparr>p_assigned_ambulance := Some a1_id, p_status := ''Ambulance Assigned''\<rparr>)"
proof -
  have gen: "get_ambulance aid s = Some a \<Longrightarrow>
      get_ambulance aid (mark_available aid s)
        = Some (a\<lparr>a_status := ''Available'', a_current_patient := None\<rparr>)" for aid s a
    by (simp add: mark_available_def get_ambulance_upd_same get_ambulance_id release_def)
  have p: "get_patient_by_id p1_id p1_assigned
       = Some (p1\<lparr>p_assigned_ambulance := Some a1_id, p_status := ''Ambulance Assigned''\<rparr>)"
    by (simp add: get_patient_by_id_def p1_assigned_rows p1_def)
  have h: "p_referring_hospital p1 = ''Jaramogi Oginga Odinga Teaching & Referral Hospital (JOOTRH)''"
    "p_receiving_hospital p1 = ''Kisumu County Referral Hospital''"
    by (simp_all add: p1_def)
  have f: "patients (mark_available aid s) = patients s"
    "get_patient_by_id p1_id (mark_available a1_id p1_assigned)
       = get_patient_by_id p1_id p1_assigned"
    by (simp_all add: mark_available_def)
  have r: "get_ambulance a1_id (mark_available a1_id p1_assigned)
       = Some (a1\<lparr>a_status := ''Available'', a_current_patient := None\<rparr>)"
    using gen[OF a1_assigned] by simp
  show ?thesis
    using gen r p h f p1_in_created a1_in_created a1_fields(2) a1_assigned
    by (intro conjI allI impI) (simp_all only:)
qed

theorem release_leaves_patient_witness:
  "get_ambulance a1_id p2_created
     = Some (a1\<lparr>a_status := ''On Transfer'', a_current_patient := Some p1_id\<rparr>)
   \<and> get_ambulance a1_id (mark_available a1_id p2_created)
     = Some (a1\<lparr>a_status := ''Available'', a_current_patient := None\<rparr>)
   \<and> patients (mark_available a1_id p2_created) = patients p2_created"
  using release_leaves_patient [of a1_id p2_created] p2_created_rows(3)
  by simp

text \<open>
  Claim C2, as stated: after every sequence of operations an ambulance has a
  \<open>current_patient\<close> if and only if its status is \<open>On Transfer\<close>, and every operation
  that writes one of the two fields keeps the equivalence. It does not hold: "Mark On
  Break" on an ambulance that is \<open>On Transfer\<close> writes the status and leaves
  \<open>current_patient\<close> set.
\<close>

theorem link_invariant_counterexample:
  "amb_inv seeded
   \<and> \<not> amb_inv (run [CreateReferral ''Hospital Staff'' ''0A1B2C3D'' p1_form,
                      AssignAmbulance p1_id a1_id, MarkOnBreak a1_id] seeded)"
proof -
  have "run [CreateReferral ''Hospital Staff'' ''0A1B2C3D'' p1_form,
             AssignAmbulance p1_id a1_id, MarkOnBreak a1_id] seeded
          = mark_on_break a1_id p1_assigned"
    using run_append[of "[CreateReferral ''Hospital Staff'' ''0A1B2C3D'' p1_form,
             AssignAmbulance p1_id a1_id]" "[MarkOnBreak a1_id]" seeded]
    by (simp add: run_p1_assigned del: run.simps exec.simps) simp
  moreover have "\<not> amb_inv (mark_on_break a1_id p1_assigned)"
    by (simp add: amb_inv_def mark_on_break_def upd_ambulance_def p1_assigned_rows a1_fields
        amb_ok_def)
  ultimately show ?thesis by (simp add: amb_inv_seeded del: run.simps)
qed

text \<open>
  Claim C2, amended: the equivalence holds for the seeded fleet and after every sequence
  of operations in which each assignment is for a patient with a non-empty identifier and
  each "Mark On Break" or "Maintenance" is pressed for an ambulance that has no
  \<open>current_patient\<close>. Those two buttons write the status alone.
\<close>

theorem link_kept_by_safe_operations:
  "amb_inv seeded \<and> (amb_inv s \<longrightarrow> all_keep_link xs s \<longrightarrow> amb_inv (run xs s))"
  by (simp add: amb_inv_seeded amb_inv_run)

theorem link_kept_by_safe_operations_witness:
  "amb_inv seeded
   \<and> all_keep_link [CreateReferral ''Hospital Staff'' ''0A1B2C3D'' p1_form,
                    AssignAmbulance p1_id a1_id, MarkAvailable a1_id, MarkOnBreak a1_id] seeded
   \<and> amb_inv (run [CreateReferral ''Hospital Staff'' ''0A1B2C3D'' p1_form,
                   AssignAmbulance p1_id a1_id, MarkAvailable a1_id, MarkOnBreak a1_id] seeded)"
proof -
  have k: "all_keep_link [CreateReferral ''Hospital Staff'' ''0A1B2C3D'' p1_form,
                    AssignAmbulance p1_id a1_id, MarkAvailable a1_id, MarkOnBreak a1_id] seeded"
    using scenario_ids(1)
    by (simp add: p1_created_def[symmetric] p1_assigned_def[symmetric] released_eq
        has_no_patient_def get_ambulance_def a1_fields del: exec.simps(1,2))
  show ?thesis
    using link_kept_by_safe_operations [of seeded
        "[CreateReferral ''Hospital Staff'' ''0A1B2C3D'' p1_form,
          AssignAmbulance p1_id a1_id, MarkAvailable a1_id, MarkOnBreak a1_id]"] k
    by blast
qed

text \<open>
  Claim C8. A referral form whose referring and receiving hospital are the same, or in
  which a mandatory field (name, age, condition, referring physician, either hospital) is
  empty or zero, is rejected with a validation error, and no patient is created. A form
  that is accepted adds one patient, whose two hospitals differ. So the two hospitals of
  every patient differ in the seeded store and after every sequence of operations.
\<close>

theorem referral_hospitals_differ:
  "(f_name f = [] \<or> f_age f = 0 \<or> f_condition f = [] \<or> f_referring_physician f = []
      \<or> f_referring_hospital f = [] \<or> f_receiving_hospital f = []
      \<or> f_referring_hospital f = f_receiving_hospital f
    \<longrightarrow> (\<exists>msg. create_referral_form role token f s = Inl (ValidationError msg))
        \<and> exec (CreateReferral role token f) s = s)
   \<and> (\<forall>p s'. create_referral_form role token f s = Inr (p, s') \<longrightarrow>
          patients s' = patients s @ [p]
          \<and> p_referring_hospital p \<noteq> p_receiving_hospital p)
   \<and> hospitals_differ seeded
   \<and> (hospitals_differ s \<longrightarrow> hospitals_differ (run xs s))"
proof (intro conjI impI allI)
  assume bad: "f_name f = [] \<or> f_age f = 0 \<or> f_condition f = [] \<or> f_referring_physician f = []
      \<or> f_referring_hospital f = [] \<or> f_receiving_hospital f = []
      \<or> f_referring_hospital f = f_receiving_hospital f"
  then show v: "\<exists>msg. create_referral_form role token f s = Inl (ValidationError msg)"
    by (auto simp: create_referral_form_def required_fields_present_def)
  then show "exec (CreateReferral role token f) s = s"
    by auto
next
  fix p s' assume "create_referral_form role token f s = Inr (p, s')"
  then show "patients s' = patients s @ [p]" "p_referring_hospital p \<noteq> p_receiving_hospital p"
    by (simp_all add: create_referral_form_result)
next
  show "hospitals_differ seeded"
    by (simp add: hospitals_differ_def seeded_eq empty_store_def)
next
  assume "hospitals_differ s"
  then show "hospitals_differ (run xs s)" by (rule hospitals_differ_run)
qed

theorem referral_hospitals_differ_witness:
  "f_referring_hospital same_hospital_form = f_receiving_hospital same_hospital_form
   \<and> create_referral_form ''Hospital Staff'' ''0A1B2C3D'' same_hospital_form seeded
       = Inl (ValidationError ''Referring and receiving hospitals cannot be the same.'')
   \<and> patients (exec (CreateReferral ''Hospital Staff'' ''0A1B2C3D'' same_hospital_form) seeded) = []
   \<and> create_referral_form ''Hospital Staff'' ''0A1B2C3D'' p1_form seeded = Inr (p1, p1_created)
   \<and> patients p1_created = patients seeded @ [p1]
   \<and> p_referring_hospital p1 \<noteq> p_receiving_hospital p1
   \<and> hospitals_differ seeded
   \<and> hospitals_differ
       (run [CreateReferral ''Hospital Staff'' ''0A1B2C3D'' p1_form,
             AssignAmbulance p1_id a1_id, MarkPatientDelivered a1_id] seeded)"
proof -
  have same: "f_referring_hospital same_hospital_form = f_receiving_hospital same_hospital_form"
    by (simp add: same_hospital_form_def)
  have msg: "create_referral_form ''Hospital Staff'' ''0A1B2C3D'' same_hospital_form seeded
       = Inl (ValidationError ''Referring and receiving hospitals cannot be the same.'')"
    by (simp add: create_referral_form_def required_fields_present_def same_hospital_form_def
        p1_form_def)
  note t1 = referral_hospitals_differ [of same_hospital_form "''Hospital Staff''" "''0A1B2C3D''" seeded]
  note t2 = referral_hospitals_differ [of p1_form "''Hospital Staff''" "''0A1B2C3D''" seeded
      "[CreateReferral ''Hospital Staff'' ''0A1B2C3D'' p1_form,
             AssignAmbulance p1_id a1_id, MarkPatientDelivered a1_id]"]
  have e: "patients (exec (CreateReferral ''Hospital Staff'' ''0A1B2C3D'' same_hospital_form) seeded) = []"
    using t1 same by (simp add: seeded_eq empty_store_def del: exec.simps)
  have c: "patients p1_created = patients seeded @ [p1]
      \<and> p_referring_hospital p1 \<noteq> p_receiving_hospital p1"
    using t2 p1_form_result by blast
  have r: "hospitals_differ seeded \<and> hospitals_differ
       (run [CreateReferral ''Hospital Staff'' ''0A1B2C3D'' p1_form,
             AssignAmbulance p1_id a1_id, MarkPatientDelivered a1_id] seeded)"
    using t2 by blast
  show ?thesis using same msg e c r p1_form_result by blast
qed

text \<open>
  Claim C7, as stated: a handover attempted for a patient whose status is not
  \<open>Arrived at Destination\<close> fails with \<open>InvalidStateError\<close>. It does not hold: with
  P1 \<open>Ambulance Assigned\<close> and nobody arrived, the form returns without an error,
  after the notice that no patient is eligible.
\<close>

theorem handover_error_counterexample:
  "get_patient_by_id p1_id p1_assigned
     = Some (p1\<lparr>p_assigned_ambulance := Some a1_id, p_status := ''Ambulance Assigned''\<rparr>)
   \<and> create_handover_form ''Admin'' ''All Facilities'' ''PAT0A1B2C3D - P1'' p1_handover p1_assigned
     = Inr (NoEligiblePatients, p1_assigned)
   \<and> \<not> handover_fails ''Admin'' ''All Facilities'' ''PAT0A1B2C3D - P1'' p1_handover p1_assigned"
proof -
  have r: "create_handover_form ''Admin'' ''All Facilities'' ''PAT0A1B2C3D - P1'' p1_handover p1_assigned
     = Inr (NoEligiblePatients, p1_assigned)"
    by (simp add: create_handover_form_def eligible_patients_def p1_assigned_rows)
  have p: "get_patient_by_id p1_id p1_assigned
     = Some (p1\<lparr>p_assigned_ambulance := Some a1_id, p_status := ''Ambulance Assigned''\<rparr>)"
    by (simp add: get_patient_by_id_def p1_assigned_rows p1_def)
  show ?thesis using r p by (simp add: handover_fails_def)
qed

text \<open>
  Claim C7, amended: the form offers the patients whose status is
  \<open>Arrived at Destination\<close> (for a user of one hospital, those it receives), and the
  code has no \<open>InvalidStateError\<close>. Patient ids being distinct, in every store and
  for every selection and input:

  \<^item> a patient in any other status is not offered, and whatever happens in the form,
    that patient's row is as it was and no \<open>HandoverForm\<close> is added for that patient;
  \<^item> with no patient to offer, the form returns without an error and leaves the store
    as it is;
  \<^item> with patients to offer, a key that is not offered is the dictionary's
    \<open>KeyError\<close> (the select box returns offered keys only);
  \<^item> with an offered key, the selected patient has arrived; with the receiving
    physician left empty the form answers \<open>Please enter the receiving physician\<close> and
    writes nothing; otherwise the handover is completed: one \<open>HandoverForm\<close> for the
    selected patient is added, that patient's status becomes \<open>Completed\<close> with the
    receiving physician entered, and every other patient's row and the ambulances are
    as they were.
\<close>

theorem handover_needs_arrival:
  assumes "distinct (map p_patient_id (patients s))"
  shows
    "(\<forall>q \<in> set (patients s). p_status q \<noteq> ''Arrived at Destination'' \<longrightarrow>
        q \<notin> set (eligible_patients user_hospital s)
        \<and> get_patient_by_id (p_patient_id q) (exec (Handover role user_hospital k i) s) = Some q
        \<and> filter (\<lambda>h. h_patient_id h = p_patient_id q)
              (handover_forms (exec (Handover role user_hospital k i) s))
            = filter (\<lambda>h. h_patient_id h = p_patient_id q) (handover_forms s))
     \<and> (eligible_patients user_hospital s = [] \<longrightarrow>
          create_handover_form role user_hospital k i s = Inr (NoEligiblePatients, s))
     \<and> (eligible_patients user_hospital s \<noteq> []
          \<and> k \<notin> patient_key ` set (eligible_patients user_hospital s) \<longrightarrow>
          create_handover_form role user_hospital k i s = Inl KeyError)
     \<and> (eligible_patients user_hospital s \<noteq> []
          \<and> k \<in> patient_key ` set (eligible_patients user_hospital s) \<longrightarrow>
          (\<exists>p \<in> set (patients s).
             map_of (patient_options (eligible_patients user_hospital s)) k = Some p
             \<and> p_status p = ''Arrived at Destination'' \<and> patient_key p = k
             \<and> (user_hospital = ''All Facilities'' \<or> p_receiving_hospital p = user_hospital)
             \<and> (if i_receiving_physician i = []
                then create_handover_form role user_hospital k i s
                       = Inl (ValidationError ''Please enter the receiving physician'')
                else \<exists>s'. create_handover_form role user_hospital k i s
                             = Inr (HandoverCompleted, s')
                       \<and> handover_forms s' = handover_forms s @ [handover_data p i role]
                       \<and> patients s' =
                           map (\<lambda>q. if p_patient_id q = p_patient_id p
                                     then q\<lparr>p_status := ''Completed'',
                                            p_receiving_physician := Some (i_receiving_physician i)\<rparr>
                                     else q) (patients s)
                       \<and> ambulances s' = ambulances s)))"
proof -
  let ?els = "eligible_patients user_hospital s"
  have a: "\<forall>q \<in> set (patients s). p_status q \<noteq> ''Arrived at Destination'' \<longrightarrow>
        q \<notin> set ?els
        \<and> get_patient_by_id (p_patient_id q) (exec (Handover role user_hospital k i) s) = Some q
        \<and> filter (\<lambda>h. h_patient_id h = p_patient_id q)
              (handover_forms (exec (Handover role user_hospital k i) s))
            = filter (\<lambda>h. h_patient_id h = p_patient_id q) (handover_forms s)"
  proof (intro ballI impI conjI)
    fix q
    assume q: "q \<in> set (patients s)" "p_status q \<noteq> ''Arrived at Destination''"
    show "q \<notin> set ?els"
      by (rule not_arrived_kept(1)[OF assms q])
    show "get_patient_by_id (p_patient_id q) (exec (Handover role user_hospital k i) s) = Some q"
      by (rule not_arrived_kept(2)[OF assms q])
    show "filter (\<lambda>h. h_patient_id h = p_patient_id q)
              (handover_forms (exec (Handover role user_hospital k i) s))
            = filter (\<lambda>h. h_patient_id h = p_patient_id q) (handover_forms s)"
      by (rule not_arrived_kept(3)[OF assms q])
  qed
  have b: "?els = [] \<longrightarrow>
          create_handover_form role user_hospital k i s = Inr (NoEligiblePatients, s)"
    by (intro impI, rule handover_cases(1))
  have c: "?els \<noteq> [] \<and> k \<notin> patient_key ` set ?els \<longrightarrow>
          create_handover_form role user_hospital k i s = Inl KeyError"
  proof (intro impI, elim conjE)
    assume ne: "?els \<noteq> []" and k: "k \<notin> patient_key ` set ?els"
    have "map_of (patient_options ?els) k = None"
      unfolding options_keys by (rule k)
    then show "create_handover_form role user_hospital k i s = Inl KeyError"
      by (rule handover_cases(2)[OF ne])
  qed
  have d: "?els \<noteq> [] \<and> k \<in> patient_key ` set ?els \<longrightarrow>
          (\<exists>p \<in> set (patients s).
             map_of (patient_options ?els) k = Some p
             \<and> p_status p = ''Arrived at Destination'' \<and> patient_key p = k
             \<and> (user_hospital = ''All Facilities'' \<or> p_receiving_hospital p = user_hospital)
             \<and> (if i_receiving_physician i = []
                then create_handover_form role user_hospital k i s
                       = Inl (ValidationError ''Please enter the receiving physician'')
                else \<exists>s'. create_handover_form role user_hospital k i s
                             = Inr (HandoverCompleted, s')
                       \<and> handover_forms s' = handover_forms s @ [handover_data p i role]
                       \<and> patients s' =
                           map (\<lambda>q. if p_patient_id q = p_patient_id p
                                     then q\<lparr>p_status := ''Completed'',
                                            p_receiving_physician := Some (i_receiving_physician i)\<rparr>
                                     else q) (patients s)
                       \<and> ambulances s' = ambulances s))"
  proof (intro impI, elim conjE)
    assume ne: "?els \<noteq> []" and kin: "k \<in> patient_key ` set ?els"
    have "map_of (patient_options ?els) k \<noteq> None"
      unfolding options_keys using kin by simp
    then obtain p where p: "map_of (patient_options ?els) k = Some p"
      by blast
    from map_of_options[OF p] have pk: "patient_key p = k" and pe: "p \<in> set ?els"
      by simp_all
    note el = eligible_subset[OF pe]
    have r: "if i_receiving_physician i = []
                then create_handover_form role user_hospital k i s
                       = Inl (ValidationError ''Please enter the receiving physician'')
                else \<exists>s'. create_handover_form role user_hospital k i s
                             = Inr (HandoverCompleted, s')
                       \<and> handover_forms s' = handover_forms s @ [handover_data p i role]
                       \<and> patients s' =
                           map (\<lambda>q. if p_patient_id q = p_patient_id p
                                     then q\<lparr>p_status := ''Completed'',
                                            p_receiving_physician := Some (i_receiving_physician i)\<rparr>
                                     else q) (patients s)
                       \<and> ambulances s' = ambulances s"
    proof (cases "i_receiving_physician i = []")
      case True
      show ?thesis
        unfolding if_P[OF True] by (rule handover_cases(3)[OF ne p True])
    next
      case False
      show ?thesis
        unfolding if_not_P[OF False] by (rule completed_handover[OF assms ne p False])
    qed
    show "\<exists>p \<in> set (patients s).
             map_of (patient_options ?els) k = Some p
             \<and> p_status p = ''Arrived at Destination'' \<and> patient_key p = k
             \<and> (user_hospital = ''All Facilities'' \<or> p_receiving_hospital p = user_hospital)
             \<and> (if i_receiving_physician i = []
                then create_handover_form role user_hospital k i s
                       = Inl (ValidationError ''Please enter the receiving physician'')
                else \<exists>s'. create_handover_form role user_hospital k i s
                             = Inr (HandoverCompleted, s')
                       \<and> handover_forms s' = handover_forms s @ [handover_data p i role]
                       \<and> patients s' =
                           map (\<lambda>q. if p_patient_id q = p_patient_id p
                                     then q\<lparr>p_status := ''Completed'',
                                            p_receiving_physician := Some (i_receiving_physician i)\<rparr>
                                     else q) (patients s)
                       \<and> ambulances s' = ambulances s)"
    proof (rule bexI[of _ p], intro conjI)
      show "map_of (patient_options ?els) k = Some p" by (rule p)
      show "p_status p = ''Arrived at Destination''" using el by simp
      show "patient_key p = k" by (rule pk)
      show "user_hospital = ''All Facilities'' \<or> p_receiving_hospital p = user_hospital"
        using el by simp
      show "if i_receiving_physician i = []
                then create_handover_form role user_hospital k i s
                       = Inl (ValidationError ''Please enter the receiving physician'')
                else \<exists>s'. create_handover_form role user_hospital k i s
                             = Inr (HandoverCompleted, s')
                       \<and> handover_forms s' = handover_forms s @ [handover_data p i role]
                       \<and> patients s' =
                           map (\<lambda>q. if p_patient_id q = p_patient_id p
                                     then q\<lparr>p_status := ''Completed'',
                                            p_receiving_physician := Some (i_receiving_physician i)\<rparr>
                                     else q) (patients s)
                       \<and> ambulances s' = ambulances s"
        by (rule r)
      show "p \<in> set (patients s)" using el by simp
    qed
  qed
  show ?thesis
    by (rule conjI[OF a conjI[OF b conjI[OF c d]]])
qed

text \<open>
  The theorem at work with P1 arrived and P2 referred: the handover of P1 is completed
  and P2's row stays; P2's key is not offered; and before P1's arrival, with both
  patients in the store, nobody is offered and the form returns without an error.
\<close>

theorem handover_needs_arrival_witness:
  "distinct (map p_patient_id (patients p2_waiting))
   \<and> p2 \<in> set (patients p2_waiting) \<and> p_status p2 = ''Referred''
   \<and> p2 \<notin> set (eligible_patients ''All Facilities'' p2_waiting)
   \<and> (\<exists>s'. create_handover_form ''Admin'' ''All Facilities'' ''PAT0A1B2C3D - P1'' p1_handover
               p2_waiting = Inr (HandoverCompleted, s')
         \<and> patients s'
             = [p1\<lparr>p_assigned_ambulance := Some a1_id, p_status := ''Completed'',
                   p_receiving_physician := Some ''Dr B''\<rparr>, p2]
         \<and> handover_forms s'
             = [handover_data
                  (p1\<lparr>p_assigned_ambulance := Some a1_id, p_status := ''Arrived at Destination''\<rparr>)
                  p1_handover ''Admin''])
   \<and> get_patient_by_id p2_id
        (exec (Handover ''Admin'' ''All Facilities'' ''PAT0A1B2C3D - P1'' p1_handover) p2_waiting)
       = Some p2
   \<and> create_handover_form ''Admin'' ''All Facilities'' ''PAT1B2C3D4E - P2'' p1_handover p2_waiting
       = Inl KeyError
   \<and> get_patient_by_id p2_id
        (exec (Handover ''Admin'' ''All Facilities'' ''PAT1B2C3D4E - P2'' p1_handover) p2_waiting)
       = Some p2
   \<and> distinct (map p_patient_id (patients p2_created))
   \<and> eligible_patients ''All Facilities'' p2_created = []
   \<and> create_handover_form ''Admin'' ''All Facilities'' ''PAT1B2C3D4E - P2'' p1_handover p2_created
       = Inr (NoEligiblePatients, p2_created)"
proof -
  let ?p = "p1\<lparr>p_assigned_ambulance := Some a1_id, p_status := ''Arrived at Destination''\<rparr>"
  note t1 = handover_needs_arrival [OF p2_waiting_ids(1), where role = "''Admin''"
      and user_hospital = "''All Facilities''" and k = "''PAT0A1B2C3D - P1''" and i = p1_handover]
  note t2 = handover_needs_arrival [OF p2_waiting_ids(1), where role = "''Admin''"
      and user_hospital = "''All Facilities''" and k = "''PAT1B2C3D4E - P2''" and i = p1_handover]
  note t3 = handover_needs_arrival [OF p2_waiting_ids(2), where role = "''Admin''"
      and user_hospital = "''All Facilities''" and k = "''PAT1B2C3D4E - P2''" and i = p1_handover]
  have ne: "eligible_patients ''All Facilities'' p2_waiting \<noteq> []"
    by (simp add: p2_waiting_eligible)
  note q1 = t1 [THEN conjunct1, THEN bspec, OF p2_waiting_ids(3), THEN mp, OF p2_waiting_ids(5),
      unfolded p2_fields(1)]
  note q2 = t2 [THEN conjunct1, THEN bspec, OF p2_waiting_ids(3), THEN mp, OF p2_waiting_ids(5),
      unfolded p2_fields(1)]
  note ke = t2 [THEN conjunct2, THEN conjunct2, THEN conjunct1, THEN mp,
      OF conjI [OF ne p2_waiting_options(3)]]
  note none = t3 [THEN conjunct2, THEN conjunct1, THEN mp, OF p2_waiting_eligible(2)]
  note sel = t1 [THEN conjunct2, THEN conjunct2, THEN conjunct2, THEN mp,
      OF conjI [OF ne p2_waiting_options(2)]]
  from sel obtain p where "p \<in> set (patients p2_waiting)"
    and pc: "map_of (patient_options (eligible_patients ''All Facilities'' p2_waiting))
        ''PAT0A1B2C3D - P1'' = Some p
      \<and> p_status p = ''Arrived at Destination'' \<and> patient_key p = ''PAT0A1B2C3D - P1''
      \<and> (''All Facilities'' = ''All Facilities'' \<or> p_receiving_hospital p = ''All Facilities'')
      \<and> (if i_receiving_physician p1_handover = []
        then create_handover_form ''Admin'' ''All Facilities'' ''PAT0A1B2C3D - P1'' p1_handover
               p2_waiting = Inl (ValidationError ''Please enter the receiving physician'')
        else \<exists>s'. create_handover_form ''Admin'' ''All Facilities'' ''PAT0A1B2C3D - P1''
                     p1_handover p2_waiting = Inr (HandoverCompleted, s')
               \<and> handover_forms s' = handover_forms p2_waiting @ [handover_data p p1_handover ''Admin'']
               \<and> patients s' =
                   map (\<lambda>q. if p_patient_id q = p_patient_id p
                             then q\<lparr>p_status := ''Completed'',
                                    p_receiving_physician := Some (i_receiving_physician p1_handover)\<rparr>
                             else q) (patients p2_waiting)
               \<and> ambulances s' = ambulances p2_waiting)"
    by (rule bexE)
  have pp: "p = ?p"
    using pc [THEN conjunct1] unfolding p2_waiting_options(1) by simp
  note r = pc [THEN conjunct2, THEN conjunct2, THEN conjunct2, THEN conjunct2,
      unfolded if_not_P [OF p2_waiting_ids(6)] pp]
  from r obtain s' where s': "create_handover_form ''Admin'' ''All Facilities'' ''PAT0A1B2C3D - P1''
                     p1_handover p2_waiting = Inr (HandoverCompleted, s')
      \<and> handover_forms s' = handover_forms p2_waiting @ [handover_data ?p p1_handover ''Admin'']
      \<and> patients s' =
         map (\<lambda>q. if p_patient_id q = p_patient_id ?p
                   then q\<lparr>p_status := ''Completed'',
                          p_receiving_physician := Some (i_receiving_physician p1_handover)\<rparr>
                   else q) (patients p2_waiting)
      \<and> ambulances s' = ambulances p2_waiting"
    by (rule exE)
  have h: "handover_forms s' = [handover_data ?p p1_handover ''Admin'']"
    unfolding s' [THEN conjunct2, THEN conjunct1] by (simp add: p2_waiting_rows)
  have ps: "patients s'
             = [p1\<lparr>p_assigned_ambulance := Some a1_id, p_status := ''Completed'',
                   p_receiving_physician := Some ''Dr B''\<rparr>, p2]"
    unfolding s' [THEN conjunct2, THEN conjunct2, THEN conjunct1]
    by (simp add: p2_waiting_rows p2_fields p1_fields scenario_ids p1_handover_def)
  have ex: "\<exists>s'. create_handover_form ''Admin'' ''All Facilities'' ''PAT0A1B2C3D - P1'' p1_handover
               p2_waiting = Inr (HandoverCompleted, s')
         \<and> patients s'
             = [p1\<lparr>p_assigned_ambulance := Some a1_id, p_status := ''Completed'',
                   p_receiving_physician := Some ''Dr B''\<rparr>, p2]
         \<and> handover_forms s' = [handover_data ?p p1_handover ''Admin'']"
    by (rule exI [of _ s'], intro conjI, rule s' [THEN conjunct1], rule ps, rule h)
  show ?thesis
    by (intro conjI, rule p2_waiting_ids(1), rule p2_waiting_ids(3), rule p2_fields(2),
        rule q1 [THEN conjunct1], rule ex, rule q1 [THEN conjunct2, THEN conjunct1], rule ke,
        rule q2 [THEN conjunct2, THEN conjunct1], rule p2_waiting_ids(2),
        rule p2_waiting_eligible(2), rule none)
qed

text \<open>
  Claim C6. Once the loop finds the flag cleared at the head of a tick, the run is
  over: the world at the end of \<open>start_simulation\<close> is the world at that moment, so the
  simulator writes no further location and does not touch the ambulance's status or
  \<open>current_patient\<close> (a cancelled run has no end-of-run release). In particular, when
  \<open>stop_simulation\<close> is called during the sleep after step \<open>j\<close> and nothing else
  interferes, the run leaves exactly the samples of the steps \<open>0\<close> to \<open>j\<close> in the store,
  after those that were there, with the ambulance's status and \<open>current_patient\<close> and
  the patients as they were.
\<close>

theorem stop_ends_the_run:
  "(k \<le> steps + 1 \<longrightarrow>
      \<not> running (sim_loop env (sim_tick aid pid a0 b0 c0 d0) [0..<k] (w\<lparr>running := True\<rparr>)) \<longrightarrow>
      start_simulation env aid pid a0 b0 c0 d0 w
        = sim_loop env (sim_tick aid pid a0 b0 c0 d0) [0..<k] (w\<lparr>running := True\<rparr>))
   \<and> (\<forall>a. j \<le> steps \<longrightarrow> get_ambulance aid (db w) = Some a \<longrightarrow>
          \<not> running (start_simulation (stop_after j) aid pid a0 b0 c0 d0 w)
          \<and> location_updates (db (start_simulation (stop_after j) aid pid a0 b0 c0 d0 w))
              = location_updates (db w) @ map (sample aid pid a0 b0 c0 d0) [0..<Suc j]
          \<and> patients (db (start_simulation (stop_after j) aid pid a0 b0 c0 d0 w)) = patients (db w)
          \<and> (\<exists>a'. get_ambulance aid (db (start_simulation (stop_after j) aid pid a0 b0 c0 d0 w))
                      = Some a'
                \<and> a_status a' = a_status a \<and> a_current_patient a' = a_current_patient a))"
proof (intro conjI impI allI)
  assume k: "k \<le> steps + 1"
    and stopped: "\<not> running (sim_loop env (sim_tick aid pid a0 b0 c0 d0) [0..<k] (w\<lparr>running := True\<rparr>))"
  have split: "[0..<steps + 1] = [0..<k] @ [k..<steps + 1]"
    using k by (rule upt_split2)
  show "start_simulation env aid pid a0 b0 c0 d0 w
        = sim_loop env (sim_tick aid pid a0 b0 c0 d0) [0..<k] (w\<lparr>running := True\<rparr>)"
    unfolding start_simulation_def split sim_loop_append
      sim_loop_stopped[OF stopped] sim_finish_stopped[OF stopped] ..
next
  fix a assume h: "j \<le> steps" "get_ambulance aid (db w) = Some a"
  note r = stopped_run[OF h, of pid a0 b0 c0 d0]
  show "\<not> running (start_simulation (stop_after j) aid pid a0 b0 c0 d0 w)" by (rule r(1))
  show "location_updates (db (start_simulation (stop_after j) aid pid a0 b0 c0 d0 w))
              = location_updates (db w) @ map (sample aid pid a0 b0 c0 d0) [0..<Suc j]"
    by (rule r(2))
  show "patients (db (start_simulation (stop_after j) aid pid a0 b0 c0 d0 w)) = patients (db w)"
    by (rule r(3))
  show "\<exists>a'. get_ambulance aid (db (start_simulation (stop_after j) aid pid a0 b0 c0 d0 w)) = Some a'
                \<and> a_status a' = a_status a \<and> a_current_patient a' = a_current_patient a"
    using r(4) by (auto simp: link_of_def)
qed

theorem stop_ends_the_run_witness:
  "(1::nat) \<le> steps + 1
   \<and> \<not> running (sim_loop (stop_after 0) (sim_tick a1_id p1_id from_lat from_lng to_lat to_lng) [0..<1]
                   (idle\<lparr>running := True\<rparr>))
   \<and> start_simulation (stop_after 0) a1_id p1_id from_lat from_lng to_lat to_lng idle
       = sim_loop (stop_after 0) (sim_tick a1_id p1_id from_lat from_lng to_lat to_lng) [0..<1] (idle\<lparr>running := True\<rparr>)
   \<and> (0::nat) \<le> steps
   \<and> get_ambulance a1_id (db idle)
       = Some (a1\<lparr>a_status := ''On Transfer'', a_current_patient := Some p1_id\<rparr>)
   \<and> location_updates (db (start_simulation (stop_after 0) a1_id p1_id from_lat from_lng to_lat to_lng idle))
       = location_updates (db idle) @ [sample a1_id p1_id from_lat from_lng to_lat to_lng 0]
   \<and> (\<exists>a'. get_ambulance a1_id (db (start_simulation (stop_after 0) a1_id p1_id from_lat from_lng to_lat to_lng idle))
               = Some a'
          \<and> a_status a' = ''On Transfer'' \<and> a_current_patient a' = Some p1_id)"
proof -
  have s: "\<not> running (sim_loop (stop_after 0) (sim_tick a1_id p1_id from_lat from_lng to_lat to_lng) [0..<1]
                   (idle\<lparr>running := True\<rparr>))"
    by (simp add: stop_after_def stop_simulation_def)
  note t = stop_ends_the_run [of 1 "stop_after 0" a1_id p1_id from_lat from_lng to_lat to_lng idle 0]
  show ?thesis
    using t s a1_idle by (auto simp: steps_def)
qed

text \<open>
  Claim C5, as stated: at the end of an uncancelled run the simulator releases the
  ambulance only if the mission was not already completed by other means. It does not
  hold. While the simulator runs for the first ambulance and P1, the driver marks P1
  delivered and then accepts the mission of P2; when the run reaches its last step the
  ambulance is marked \<open>mission_complete\<close> and is \<open>On Transfer\<close> with P2, and the end of
  the run still rewrites its row.
\<close>

theorem release_guard_counterexample:
  "\<not> release_is_guarded a1_id
       (sim_loop delivered_then_next (sim_tick a1_id p1_id from_lat from_lng to_lat to_lng)
          [0..<steps + 1] (idle\<lparr>running := True\<rparr>))"
proof -
  define W where "W = sim_loop delivered_then_next
      (sim_tick a1_id p1_id from_lat from_lng to_lat to_lng) [0..<steps + 1] (idle\<lparr>running := True\<rparr>)"
  define a where "a = a1\<lparr>a_latitude := Some (position from_lat to_lat 20),
               a_longitude := Some (position from_lng to_lng 20),
               a_current_location := Some (step_label 20),
               a_status := ''On Transfer'', a_current_patient := Some p2_id,
               a_mission_complete := True\<rparr>"
  have g: "get_ambulance a1_id (db W) = Some a" and r: "running W"
    unfolding W_def a_def by (rule last_step)+
  have m: "a_mission_complete a" "a_current_patient a \<noteq> None" "a_ambulance_id a = a1_id"
    by (simp_all add: a_def a1_fields)
  have id: "a_ambulance_id (release a) = a1_id" using m by (simp add: release_def)
  have "get_ambulance a1_id (db (sim_finish a1_id W)) = Some (release a)"
    using get_ambulance_upd_same[where f=release, OF g id] by (simp add: sim_finish_running[OF r])
  moreover have "release a \<noteq> a"
    using m(2) by (auto simp: release_def dest: arg_cong[where f=a_current_patient])
  ultimately have "sim_finish a1_id W \<noteq> W"
    using g by auto
  then have "\<not> release_is_guarded a1_id W"
    using m(1) by (simp add: release_is_guarded_def g)
  then show ?thesis unfolding W_def .
qed

text \<open>
  Claim C5, amended: when a run reaches its last step without cancellation, the
  simulator performs the end-of-run release with no further condition: if the
  ambulance's row exists, its status becomes \<open>Available\<close> and its \<open>current_patient\<close>
  is cleared, whatever \<open>mission_complete\<close>, the status and the patient were, and nothing
  else in the store is written.
\<close>

theorem end_of_run_release:
  "running (sim_loop env (sim_tick aid pid a0 b0 c0 d0) [0..<steps + 1] (w\<lparr>running := True\<rparr>)) \<longrightarrow>
     start_simulation env aid pid a0 b0 c0 d0 w
       = (sim_loop env (sim_tick aid pid a0 b0 c0 d0) [0..<steps + 1] (w\<lparr>running := True\<rparr>))
           \<lparr>db := upd_ambulance aid release
                    (db (sim_loop env (sim_tick aid pid a0 b0 c0 d0) [0..<steps + 1]
                           (w\<lparr>running := True\<rparr>)))\<rparr>
     \<and> (\<forall>a. get_ambulance aid
                (db (sim_loop env (sim_tick aid pid a0 b0 c0 d0) [0..<steps + 1]
                       (w\<lparr>running := True\<rparr>))) = Some a \<longrightarrow>
              get_ambulance aid (db (start_simulation env aid pid a0 b0 c0 d0 w))
                = Some (a\<lparr>a_status := ''Available'', a_current_patient := None\<rparr>))"
proof (intro impI conjI allI)
  let ?W = "sim_loop env (sim_tick aid pid a0 b0 c0 d0) [0..<steps + 1] (w\<lparr>running := True\<rparr>)"
  assume r: "running ?W"
  show eq: "start_simulation env aid pid a0 b0 c0 d0 w = ?W\<lparr>db := upd_ambulance aid release (db ?W)\<rparr>"
    unfolding start_simulation_def by (rule sim_finish_running[OF r])
  fix a assume a: "get_ambulance aid (db ?W) = Some a"
  have id: "a_ambulance_id (release a) = aid"
    using get_ambulance_id[OF a] by (simp add: release_def)
  show "get_ambulance aid (db (start_simulation env aid pid a0 b0 c0 d0 w))
          = Some (a\<lparr>a_status := ''Available'', a_current_patient := None\<rparr>)"
    unfolding eq using get_ambulance_upd_same[where f=release, OF a id] by (simp add: release_def)
qed

theorem end_of_run_release_witness:
  "running (sim_loop delivered_then_next (sim_tick a1_id p1_id from_lat from_lng to_lat to_lng)
              [0..<steps + 1] (idle\<lparr>running := True\<rparr>))
   \<and> get_ambulance a1_id
        (db (sim_loop delivered_then_next (sim_tick a1_id p1_id from_lat from_lng to_lat to_lng)
               [0..<steps + 1] (idle\<lparr>running := True\<rparr>)))
       = Some (a1\<lparr>a_latitude := Some (position from_lat to_lat 20),
                   a_longitude := Some (position from_lng to_lng 20),
                   a_current_location := Some (step_label 20),
                   a_status := ''On Transfer'', a_current_patient := Some p2_id,
                   a_mission_complete := True\<rparr>)
   \<and> get_ambulance a1_id
        (db (start_simulation delivered_then_next a1_id p1_id from_lat from_lng to_lat to_lng idle))
       = Some (a1\<lparr>a_latitude := Some (position from_lat to_lat 20),
                   a_longitude := Some (position from_lng to_lng 20),
                   a_current_location := Some (step_label 20),
                   a_status := ''On Transfer'', a_current_patient := Some p2_id,
                   a_mission_complete := True\<rparr>
                 \<lparr>a_status := ''Available'', a_current_patient := None\<rparr>)"
  using end_of_run_release [of delivered_then_next a1_id p1_id from_lat from_lng to_lat to_lng idle]
    last_step(1,2)
  by blast

text \<open>
  Claim C4, as stated: for 20 steps and any start and end, an uncancelled run emits 21
  samples, sample \<open>k\<close> has \<open>lat = start_lat + k * (end_lat - start_lat) / 20\<close>, sample 0
  equals the start, sample 20 equals the end and every sample lies within the bounding
  box of start and end. It does not hold, the coordinates being doubles. On the journey
  of the example, from latitude \<^verbatim>\<open>-0.0754\<close> to \<^verbatim>\<open>-0.1743\<close>, the latitude of
  sample 12 differs from the formula, whether the formula is evaluated in double
  arithmetic or exactly. On the journey from Nyakach Sub-County Hospital (latitude
  \<^verbatim>\<open>-0.267\<close>) to latitude \<^verbatim>\<open>-0.0754\<close>, the latitude of sample 20 is not the
  end, and lies outside the bounding box. From \<open>2 ^ 1023\<close> to \<open>- (2 ^ 1023)\<close> the
  difference overflows, the step is an infinity and sample 0 is a NaN, not the start.
  And a run for an ambulance that has no row, uncancelled and undisturbed, emits no
  sample at all.
\<close>

theorem interpolation_counterexample:
  "\<not> interpolates_as_specified from_lat to_lat
   \<and> \<not> feq (position from_lat to_lat 12) (spec_position from_lat to_lat 12)
   \<and> \<not> feq (position from_lat to_lat 12) (exact_position from_lat to_lat 12)
   \<and> \<not> interpolates_as_specified nyakach_lat from_lat
   \<and> \<not> feq (position nyakach_lat from_lat steps) from_lat
   \<and> \<not> in_box nyakach_lat from_lat (position nyakach_lat from_lat steps)
   \<and> \<not> feq (position (Finite (2 ^ 1023)) (Finite (- (2 ^ 1023))) 0) (Finite (2 ^ 1023))
   \<and> get_ambulance ''KZZ 000Z'' (db idle) = None
   \<and> location_updates
        (db (start_simulation undisturbed ''KZZ 000Z'' p1_id from_lat from_lng to_lat to_lng idle))
       = location_updates (db idle)"
proof -
  have a: "\<not> feq (position from_lat to_lat 12) (spec_position from_lat to_lat 12)"
    unfolding lat_12 spec_position_12 by simp
  have b: "\<not> feq (position from_lat to_lat 12) (exact_position from_lat to_lat 12)"
    unfolding lat_12 exact_position_12 by simp
  have c: "\<not> interpolates_as_specified nyakach_lat from_lat"
    using nyakach_facts(1) by (simp add: interpolates_as_specified_def)
  have d: "\<not> feq (position (Finite (2 ^ 1023)) (Finite (- (2 ^ 1023))) 0) (Finite (2 ^ 1023))"
    unfolding overflow_example by simp
  have e: "location_updates
        (db (start_simulation undisturbed ''KZZ 000Z'' p1_id from_lat from_lng to_lat to_lng idle))
       = location_updates (db idle)"
    unfolding absent_run[OF no_kzz_idle] ..
  show ?thesis
    using not_as_specified_example a b c d e nyakach_facts no_kzz_idle by blast
qed

text \<open>
  Claim C4, amended: a run for an ambulance whose row exists, during which the other
  threads leave the run alone (they do not clear the flag, write no location update and
  keep the ambulance's row), appends exactly 21 samples, of the steps 0 to 20, to the
  location updates. Sample \<open>k\<close> has \<open>lat = start_lat + ((end_lat - start_lat) / 20) * k\<close>
  with every operation rounded to a double, an infinity or a NaN where it overflows,
  and the same for \<open>lng\<close>: the sequence is a function of start and end. Sample 0
  equals the start if the start is a finite double and the step
  \<open>(end_lat - start_lat) / 20\<close> is finite. On the journey of the example, from
  \<^verbatim>\<open>(-0.0754, 34.7695)\<close> to \<^verbatim>\<open>(-0.1743, 34.9169)\<close>, sample 0 equals the start,
  sample 20 equals the end and every sample lies within the bounding box of start and
  end.
\<close>

theorem simulated_samples:
  "(leaves_run_alone aid env \<longrightarrow>
      (\<forall>a. get_ambulance aid (db w) = Some a \<longrightarrow>
         location_updates (db (start_simulation env aid pid a0 b0 c0 d0 w))
           = location_updates (db w) @ map (sample aid pid a0 b0 c0 d0) [0..<steps + 1]))
   \<and> length (map (sample aid pid a0 b0 c0 d0) [0..<steps + 1]) = 21
   \<and> (k \<le> steps \<longrightarrow>
         l_latitude (sample aid pid a0 b0 c0 d0 k)
           = fadd a0 (fmul (fdiv_nat (fsub c0 a0) 20) (Finite (of_nat k)))
         \<and> l_longitude (sample aid pid a0 b0 c0 d0 k)
           = fadd b0 (fmul (fdiv_nat (fsub d0 b0) 20) (Finite (of_nat k))))
   \<and> (is_double a0 \<longrightarrow> is_finite (fdiv_nat (fsub c0 a0) 20) \<longrightarrow>
         l_latitude (sample aid pid a0 b0 c0 d0 0) = a0)
   \<and> (is_double b0 \<longrightarrow> is_finite (fdiv_nat (fsub d0 b0) 20) \<longrightarrow>
         l_longitude (sample aid pid a0 b0 c0 d0 0) = b0)
   \<and> position from_lat to_lat 0 = from_lat \<and> position from_lng to_lng 0 = from_lng
   \<and> position from_lat to_lat steps = to_lat \<and> position from_lng to_lng steps = to_lng
   \<and> is_finite to_lat \<and> is_finite to_lng
   \<and> list_all (\<lambda>k. in_box from_lat to_lat (position from_lat to_lat k)) [0..<steps + 1]
   \<and> list_all (\<lambda>k. in_box from_lng to_lng (position from_lng to_lng k)) [0..<steps + 1]"
proof -
  have run: "leaves_run_alone aid env \<longrightarrow>
      (\<forall>a. get_ambulance aid (db w) = Some a \<longrightarrow>
         location_updates (db (start_simulation env aid pid a0 b0 c0 d0 w))
           = location_updates (db w) @ map (sample aid pid a0 b0 c0 d0) [0..<steps + 1])"
    using quiet_run by blast
  have len: "length (map (sample aid pid a0 b0 c0 d0) [0..<steps + 1]) = 21"
    by (simp add: steps_def)
  have lat: "k \<le> steps \<longrightarrow>
         l_latitude (sample aid pid a0 b0 c0 d0 k)
           = fadd a0 (fmul (fdiv_nat (fsub c0 a0) 20) (Finite (of_nat k)))
         \<and> l_longitude (sample aid pid a0 b0 c0 d0 k)
           = fadd b0 (fmul (fdiv_nat (fsub d0 b0) 20) (Finite (of_nat k)))"
    by (simp add: sample_def position_def coord_step_def steps_def)
  have st: "fdiv_nat (fsub c0 a0) 20 = coord_step a0 c0" "fdiv_nat (fsub d0 b0) 20 = coord_step b0 d0"
    by (simp_all add: coord_step_def steps_def)
  have z: "is_double a0 \<longrightarrow> is_finite (fdiv_nat (fsub c0 a0) 20) \<longrightarrow>
         l_latitude (sample aid pid a0 b0 c0 d0 0) = a0"
    "is_double b0 \<longrightarrow> is_finite (fdiv_nat (fsub d0 b0) 20) \<longrightarrow>
         l_longitude (sample aid pid a0 b0 c0 d0 0) = b0"
    unfolding st by (simp_all add: sample_def position_zero)
  have s: "position from_lat to_lat 0 = from_lat" "position from_lng to_lng 0 = from_lng"
    by (rule position_zero[OF journey_doubles(1,3)], rule position_zero[OF journey_doubles(2,4)])
  show ?thesis
    using run len lat z s last_is_end box_lat box_lng journey_doubles(5,6) by blast
qed

text \<open>
  The theorem at work on the journey of the example, while the driver marks P1 delivered
  and accepts the mission of P2 during the run.
\<close>

theorem simulated_samples_witness:
  "leaves_run_alone a1_id delivered_then_next
   \<and> get_ambulance a1_id (db idle)
     = Some (a1\<lparr>a_status := ''On Transfer'', a_current_patient := Some p1_id\<rparr>)
   \<and> is_double from_lat \<and> is_finite (fdiv_nat (fsub to_lat from_lat) 20)
   \<and> is_double from_lng \<and> is_finite (fdiv_nat (fsub to_lng from_lng) 20)
   \<and> (12 :: nat) \<le> steps
   \<and> location_updates
        (db (start_simulation delivered_then_next a1_id p1_id from_lat from_lng to_lat to_lng idle))
       = location_updates (db idle)
         @ map (sample a1_id p1_id from_lat from_lng to_lat to_lng) [0..<steps + 1]
   \<and> l_latitude (sample a1_id p1_id from_lat from_lng to_lat to_lng 12)
       = fadd from_lat (fmul (fdiv_nat (fsub to_lat from_lat) 20) (Finite (of_nat 12)))
   \<and> l_latitude (sample a1_id p1_id from_lat from_lng to_lat to_lng 0) = from_lat
   \<and> l_longitude (sample a1_id p1_id from_lat from_lng to_lat to_lng 0) = from_lng"
proof -
  have f: "is_finite (fdiv_nat (fsub to_lat from_lat) 20)"
    "is_finite (fdiv_nat (fsub to_lng from_lng) 20)"
    using journey_doubles(3,4) by (simp_all add: coord_step_def steps_def)
  have k: "(12 :: nat) \<le> steps"
    by (simp add: steps_def)
  show ?thesis
    using simulated_samples [of a1_id delivered_then_next idle p1_id from_lat from_lng to_lat to_lng 12]
      delivered_then_next_quiet [of a1_id] a1_idle journey_doubles(1,2) f k
    by blast
qed

end
